(* ===== verification/Prelude.thy ===== *)
theory Prelude
  imports Complex_Main "HOL-Library.Multiset" "HOL-Library.Sublist"
begin

text \<open>
  Shared vocabulary of the development. JavaScript numbers are modelled as exact
  rationals (\<open>js_number\<close>); the user-facing Portuguese strings of the sources are byte
  lists in UTF-8, spelled with the abbreviations below for their non-ASCII characters
  (string equality, the only operation the code applies to them besides concatenation,
  does not depend on the encoding). The section on JavaScript built-ins gives the
  string operations the sources call (\<open>toLowerCase\<close>, \<open>trim\<close>, \<open>includes\<close>) on
  the ASCII range. The last section holds the generic lemmas on sums over lists that the
  portfolio and store proofs share.
\<close>

type_synonym js_number = rat

named_theorems msg_defs "definitions of the fixed user-facing messages"

subsection \<open>UTF-8 spellings of the non-ASCII characters in the sources\<close>

abbreviation a_agudo :: string where "a_agudo \<equiv> [CHR 0xC3, CHR 0xA1]"
abbreviation a_til :: string where "a_til \<equiv> [CHR 0xC3, CHR 0xA3]"
abbreviation c_cedilha :: string where "c_cedilha \<equiv> [CHR 0xC3, CHR 0xA7]"
abbreviation e_agudo :: string where "e_agudo \<equiv> [CHR 0xC3, CHR 0xA9]"
abbreviation i_agudo :: string where "i_agudo \<equiv> [CHR 0xC3, CHR 0xAD]"
abbreviation o_agudo :: string where "o_agudo \<equiv> [CHR 0xC3, CHR 0xB3]"
abbreviation o_til :: string where "o_til \<equiv> [CHR 0xC3, CHR 0xB5]"
abbreviation u_agudo :: string where "u_agudo \<equiv> [CHR 0xC3, CHR 0xBA]"
abbreviation e_circunflexo :: string where "e_circunflexo \<equiv> [CHR 0xC3, CHR 0xAA]"
abbreviation a_circunflexo :: string where "a_circunflexo \<equiv> [CHR 0xC3, CHR 0xA2]"

text \<open>The pictographs prefixed to warnings and notes.\<close>

abbreviation emoji_alerta :: string
  where "emoji_alerta \<equiv> [CHR 0xE2, CHR 0x9A, CHR 0xA0, CHR 0xEF, CHR 0xB8, CHR 0x8F]"
abbreviation emoji_info :: string
  where "emoji_info \<equiv> [CHR 0xE2, CHR 0x84, CHR 0xB9, CHR 0xEF, CHR 0xB8, CHR 0x8F]"
abbreviation emoji_proibido :: string
  where "emoji_proibido \<equiv> [CHR 0xF0, CHR 0x9F, CHR 0x9A, CHR 0xAB]"
abbreviation sinal_ok :: string where "sinal_ok \<equiv> [CHR 0xE2, CHR 0x9C, CHR 0x93]"
abbreviation seta_cima :: string where "seta_cima \<equiv> [CHR 0xE2, CHR 0x86, CHR 0x91]"
abbreviation seta_baixo :: string where "seta_baixo \<equiv> [CHR 0xE2, CHR 0x86, CHR 0x93]"

subsection \<open>JavaScript built-ins on strings\<close>

text \<open>
  \<open>String.prototype.toLowerCase\<close> on the ASCII range: \<open>A\<close>..\<open>Z\<close> move down by 32,
  every other character is kept.
\<close>

definition js_lower_char :: "char \<Rightarrow> char" where
  "js_lower_char c =
     (let n = (of_char c :: nat) in if 65 \<le> n \<and> n \<le> 90 then char_of (n + 32) else c)"

definition js_toLowerCase :: "string \<Rightarrow> string" where
  "js_toLowerCase s = map js_lower_char s"

text \<open>\<open>String.prototype.toUpperCase\<close> on the ASCII range.\<close>

definition js_upper_char :: "char \<Rightarrow> char" where
  "js_upper_char c =
     (let n = (of_char c :: nat) in if 97 \<le> n \<and> n \<le> 122 then char_of (n - 32) else c)"

definition js_toUpperCase :: "string \<Rightarrow> string" where
  "js_toUpperCase s = map js_upper_char s"

text \<open>
  \<open>s[0]\<close>, the first UTF-16 unit, on a non-empty UTF-8 string: the bytes of its first
  character (for a character outside the basic plane JavaScript gives half a surrogate
  pair; the model keeps the whole character).
\<close>

definition utf8_tamanho :: "char \<Rightarrow> nat" where
  "utf8_tamanho c =
     (let n = (of_char c :: nat) in if n < 192 then 1 else if n < 224 then 2 else if n < 240 then 3 else 4)"

definition js_charAt0 :: "string \<Rightarrow> string" where
  "js_charAt0 s = take (utf8_tamanho (hd s)) s"

text \<open>
  \<open>String.prototype.trim\<close> drops the code points of WhiteSpace and LineTerminator at
  both ends: tab, line feed, vertical tab, form feed, carriage return, space, and the
  non-ASCII ones (U+00A0, U+1680, U+2000--U+200A, U+2028, U+2029, U+202F, U+205F,
  U+3000, U+FEFF), here as their UTF-8 byte sequences. \<open>tirar_prefixos\<close> drops a
  leading sequence of the list as long as one matches; the end is trimmed on the
  reversed string with the reversed sequences.
\<close>

definition js_espacos :: "string list" where
  "js_espacos =
     [[CHR 0x09], [CHR 0x0A], [CHR 0x0B], [CHR 0x0C], [CHR 0x0D], [CHR 0x20],
      [CHR 0xC2, CHR 0xA0], [CHR 0xE1, CHR 0x9A, CHR 0x80],
      [CHR 0xE2, CHR 0x80, CHR 0x80], [CHR 0xE2, CHR 0x80, CHR 0x81], [CHR 0xE2, CHR 0x80, CHR 0x82],
      [CHR 0xE2, CHR 0x80, CHR 0x83], [CHR 0xE2, CHR 0x80, CHR 0x84], [CHR 0xE2, CHR 0x80, CHR 0x85],
      [CHR 0xE2, CHR 0x80, CHR 0x86], [CHR 0xE2, CHR 0x80, CHR 0x87], [CHR 0xE2, CHR 0x80, CHR 0x88],
      [CHR 0xE2, CHR 0x80, CHR 0x89], [CHR 0xE2, CHR 0x80, CHR 0x8A],
      [CHR 0xE2, CHR 0x80, CHR 0xA8], [CHR 0xE2, CHR 0x80, CHR 0xA9], [CHR 0xE2, CHR 0x80, CHR 0xAF],
      [CHR 0xE2, CHR 0x81, CHR 0x9F], [CHR 0xE3, CHR 0x80, CHR 0x80], [CHR 0xEF, CHR 0xBB, CHR 0xBF]]"

function tirar_prefixos :: "string list \<Rightarrow> string \<Rightarrow> string" where
  "tirar_prefixos ws [] = []"
| "tirar_prefixos ws (c # cs) =
     (case find (\<lambda>w. w \<noteq> [] \<and> take (length w) (c # cs) = w) ws of
        Some w \<Rightarrow> tirar_prefixos ws (drop (length w) (c # cs))
      | None \<Rightarrow> c # cs)"
  by pat_completeness auto
termination
  by (relation "measure (\<lambda>(ws, s). length s)") (auto simp: find_Some_iff)

declare tirar_prefixos.simps [code]

definition js_trim :: "string \<Rightarrow> string" where
  "js_trim s = rev (tirar_prefixos (map rev js_espacos) (rev (tirar_prefixos js_espacos s)))"

text \<open>\<open>String.prototype.includes\<close>: the needle occurs as a contiguous piece.\<close>

definition js_includes :: "string \<Rightarrow> string \<Rightarrow> bool" where
  "js_includes hay needle \<longleftrightarrow> sublist needle hay"


text \<open>
  \<open>String.prototype.length\<close> counts UTF-16 code units. On the UTF-8 bytes of a string
  that is every byte but the continuation bytes (0x80..0xBF), plus one more for each
  four-byte sequence (a surrogate pair in UTF-16).
\<close>

definition js_length :: "string \<Rightarrow> nat" where
  "js_length s =
     length (filter (\<lambda>c. \<not> (128 \<le> (of_char c :: nat) \<and> (of_char c :: nat) < 192)) s)
     + length (filter (\<lambda>c. 240 \<le> (of_char c :: nat)) s)"

text \<open>
  \<open>Number.prototype.toFixed(1)\<close> for values below \<open>10^21\<close>: the sign, then the
  integer nearest to ten times the magnitude (the larger one on a tie), printed with one
  decimal.
\<close>

definition digit_char :: "nat \<Rightarrow> char" where
  "digit_char d = ''0123456789'' ! d"

fun js_digits :: "nat \<Rightarrow> string" where
  "js_digits n = (if n < 10 then [digit_char n] else js_digits (n div 10) @ [digit_char (n mod 10)])"

definition js_toFixed1 :: "js_number \<Rightarrow> string" where
  "js_toFixed1 x =
     (let n = nat \<lfloor>\<bar>x\<bar> * 10 + 1 / 2\<rfloor>;
          s = js_digits (n div 10) @ ''.'' @ [digit_char (n mod 10)]
      in if x < 0 then ''-'' @ s else s)"

text \<open>
  The interleavings of two sequences of atomic steps: every merge that keeps the order of
  each.
\<close>

fun intercalacoes :: "'a list \<Rightarrow> 'a list \<Rightarrow> 'a list list" where
  "intercalacoes [] ys = [ys]"
| "intercalacoes xs [] = [xs]"
| "intercalacoes (x # xs) (y # ys) =
     map ((#) x) (intercalacoes xs (y # ys)) @ map ((#) y) (intercalacoes (x # xs) ys)"

subsection \<open>Generic lemmas\<close>

declare js_digits.simps [simp del]

lemma js_toLowerCase_append [simp]:
  "js_toLowerCase (xs @ ys) = js_toLowerCase xs @ js_toLowerCase ys"
  by (simp add: js_toLowerCase_def)

lemma js_toLowerCase_Cons [simp]:
  "js_toLowerCase (c # cs) = js_lower_char c # js_toLowerCase cs"
  by (simp add: js_toLowerCase_def)

lemma js_toLowerCase_Nil [simp]: "js_toLowerCase [] = []"
  by (simp add: js_toLowerCase_def)

text \<open>\<open>js_lower_char\<close> on each upper-case letter, and on every other character.\<close>

lemma js_lower_char_upper:
  "js_lower_char (CHR ''A'') = CHR ''a''"
  "js_lower_char (CHR ''B'') = CHR ''b''"
  "js_lower_char (CHR ''C'') = CHR ''c''"
  "js_lower_char (CHR ''D'') = CHR ''d''"
  "js_lower_char (CHR ''E'') = CHR ''e''"
  "js_lower_char (CHR ''F'') = CHR ''f''"
  "js_lower_char (CHR ''G'') = CHR ''g''"
  "js_lower_char (CHR ''H'') = CHR ''h''"
  "js_lower_char (CHR ''I'') = CHR ''i''"
  "js_lower_char (CHR ''J'') = CHR ''j''"
  "js_lower_char (CHR ''K'') = CHR ''k''"
  "js_lower_char (CHR ''L'') = CHR ''l''"
  "js_lower_char (CHR ''M'') = CHR ''m''"
  "js_lower_char (CHR ''N'') = CHR ''n''"
  "js_lower_char (CHR ''O'') = CHR ''o''"
  "js_lower_char (CHR ''P'') = CHR ''p''"
  "js_lower_char (CHR ''Q'') = CHR ''q''"
  "js_lower_char (CHR ''R'') = CHR ''r''"
  "js_lower_char (CHR ''S'') = CHR ''s''"
  "js_lower_char (CHR ''T'') = CHR ''t''"
  "js_lower_char (CHR ''U'') = CHR ''u''"
  "js_lower_char (CHR ''V'') = CHR ''v''"
  "js_lower_char (CHR ''W'') = CHR ''w''"
  "js_lower_char (CHR ''X'') = CHR ''x''"
  "js_lower_char (CHR ''Y'') = CHR ''y''"
  "js_lower_char (CHR ''Z'') = CHR ''z''"
  by (simp_all add: js_lower_char_def Let_def char_of_eq_iff)

lemma js_lower_char_other:
  "\<not> (65 \<le> (of_char c :: nat) \<and> (of_char c :: nat) \<le> 90) \<Longrightarrow> js_lower_char c = c"
  by (auto simp: js_lower_char_def Let_def)

lemmas js_string_eval = js_lower_char_upper js_lower_char_other

text \<open>A left fold that adds \<open>f x\<close> to an accumulator is the accumulator plus a sum.\<close>

lemma foldl_add_sum_list:
  "foldl (\<lambda>s x. s + f x) a xs = a + sum_list (map f xs)"
  by (induction xs arbitrary: a) (simp_all add: add.assoc)

text \<open>Weighted sums with non-negative weights lie between the weighted bounds.\<close>

lemma sum_list_weighted_lower:
  fixes w v :: "'a \<Rightarrow> 'b::linordered_idom"
  assumes "\<And>x. x \<in> set xs \<Longrightarrow> 0 \<le> w x \<and> lo \<le> v x"
  shows "lo * sum_list (map w xs) \<le> sum_list (map (\<lambda>x. v x * w x) xs)"
proof -
  have "lo * sum_list (map w xs) = sum_list (map (\<lambda>x. lo * w x) xs)"
    by (simp add: sum_list_const_mult)
  also have "\<dots> \<le> sum_list (map (\<lambda>x. v x * w x) xs)"
    using assms by (intro sum_list_mono) (simp add: mult_right_mono)
  finally show ?thesis .
qed

lemma sum_list_weighted_upper:
  fixes w v :: "'a \<Rightarrow> 'b::linordered_idom"
  assumes "\<And>x. x \<in> set xs \<Longrightarrow> 0 \<le> w x \<and> v x \<le> hi"
  shows "sum_list (map (\<lambda>x. v x * w x) xs) \<le> hi * sum_list (map w xs)"
proof -
  have "sum_list (map (\<lambda>x. v x * w x) xs) \<le> sum_list (map (\<lambda>x. hi * w x) xs)"
    using assms by (intro sum_list_mono) (simp add: mult_right_mono)
  also have "\<dots> = hi * sum_list (map w xs)"
    by (simp add: sum_list_const_mult)
  finally show ?thesis .
qed

lemma sum_list_nonneg_map:
  fixes f :: "'a \<Rightarrow> 'b::ordered_comm_monoid_add"
  shows "(\<And>x. x \<in> set xs \<Longrightarrow> 0 \<le> f x) \<Longrightarrow> 0 \<le> sum_list (map f xs)"
  by (induction xs) simp_all

lemma sum_list_divide:
  fixes f :: "'a \<Rightarrow> 'b::field"
  shows "sum_list (map (\<lambda>x. f x / c) xs) = sum_list (map f xs) / c"
  by (induction xs) (simp_all add: add_divide_distrib)

text \<open>A sum over a list depends only on the multiset of its elements.\<close>

lemma sum_list_map_mset_eq:
  fixes f :: "'a \<Rightarrow> 'b::comm_monoid_add"
  assumes "mset xs = mset ys"
  shows "sum_list (map f xs) = sum_list (map f ys)"
proof -
  have "sum_list (map f xs) = sum_mset (mset (map f xs))"
    by (simp only: sum_mset_sum_list)
  also have "mset (map f xs) = mset (map f ys)"
    by (simp only: mset_map assms)
  also have "sum_mset (mset (map f ys)) = sum_list (map f ys)"
    by (simp only: sum_mset_sum_list)
  finally show ?thesis .
qed

text \<open>Updating the entry of one key keeps a list of values distinct when no other key holds the new value.\<close>

lemma distinct_map_set_one:
  assumes "distinct (map fst xs)" and "distinct (map (\<lambda>(_, u). g u) xs)"
    and "\<forall>(k, u) \<in> set xs. k \<noteq> uid \<longrightarrow> g u \<noteq> e"
  shows "distinct (map (\<lambda>(k, u). if k = uid then e else g u) xs)"
  using assms
proof (induction xs)
  case Nil
  then show ?case by simp
next
  case (Cons x xs)
  obtain k u where x: "x = (k, u)" by (cases x)
  have tail: "distinct (map (\<lambda>(k, u). if k = uid then e else g u) xs)"
    using Cons by simp
  have "(if k = uid then e else g u) \<notin> set (map (\<lambda>(k, u). if k = uid then e else g u) xs)"
    using Cons.prems x by (force split: if_splits)
  with tail x show ?case by simp
qed

lemma list_all_fst_less_Suc:
  "list_all (\<lambda>(k, a). k < n \<and> P a) xs \<Longrightarrow> list_all (\<lambda>(k, a). k < Suc n \<and> P a) xs"
  by (auto simp: list_all_iff)

text \<open>Deleting by key from a list with distinct keys, and what the deletion keeps.\<close>

lemma filter_id_remove1:
  "distinct (map fst xs) \<Longrightarrow> (k, a) \<in> set xs \<Longrightarrow> filter (\<lambda>(k', _). k' \<noteq> k) xs = remove1 (k, a) xs"
proof (induction xs)
  case Nil
  then show ?case by simp
next
  case (Cons x xs)
  show ?case
  proof (cases "x = (k, a)")
    case True
    with Cons.prems have "\<forall>(k', _) \<in> set xs. k' \<noteq> k" by force
    with True show ?thesis by (simp add: filter_id_conv)
  next
    case False
    with Cons.prems have "fst x \<noteq> k" by (cases x) (auto intro: rev_image_eqI)
    with False Cons show ?thesis by (auto split: prod.splits)
  qed
qed

lemma map_of_Some_unico:
  "distinct (map fst xs) \<Longrightarrow> map_of xs k = Some a \<Longrightarrow> (k, b) \<in> set xs \<Longrightarrow> b = a"
  by (drule (1) map_of_is_SomeI) simp

lemma filter_apos_remocao:
  "\<forall>(k', r) \<in> set xs. P r \<longrightarrow> k' \<noteq> k \<Longrightarrow>
   filter (\<lambda>(_, r). P r) (filter (\<lambda>(k', _). k' \<noteq> k) xs) = filter (\<lambda>(_, r). P r) xs"
  by (induction xs) auto

text \<open>The interleavings are exactly the library's shuffles of the two lists.\<close>

lemma set_intercalacoes: "set (intercalacoes xs ys) = shuffles xs ys"
  by (induction xs ys rule: intercalacoes.induct) (auto simp: Cons_in_shuffles_iff)

text \<open>Trimming leaves a string alone whose first and last bytes start and end no white space.\<close>

lemma tirar_prefixos_id:
  assumes "\<forall>w \<in> set ws. w \<noteq> [] \<longrightarrow> hd w \<noteq> c"
  shows "tirar_prefixos ws (c # cs) = c # cs"
proof -
  have "find (\<lambda>w. w \<noteq> [] \<and> take (length w) (c # cs) = w) ws = None"
    using assms by (auto simp: find_None_iff neq_Nil_conv)
  then show ?thesis by simp
qed

lemma js_trim_id:
  assumes "s \<noteq> []" and "\<forall>w \<in> set js_espacos. hd w \<noteq> hd s \<and> last w \<noteq> last s"
  shows "js_trim s = s"
proof -
  obtain c cs where s: "s = c # cs" using assms(1) by (cases s) auto
  have a: "tirar_prefixos js_espacos s = s"
    using assms(2) tirar_prefixos_id [of js_espacos c cs] by (auto simp: s)
  obtain d ds where r: "rev s = d # ds" using assms(1) by (cases "rev s") auto
  have "d = last s" using r by (metis last_rev list.sel(1) rev_rev_ident)
  then have "\<forall>w \<in> set (map rev js_espacos). w \<noteq> [] \<longrightarrow> hd w \<noteq> d"
    using assms(2) by (auto simp: hd_rev)
  then have "tirar_prefixos (map rev js_espacos) (d # ds) = d # ds" by (rule tirar_prefixos_id)
  then have "tirar_prefixos (map rev js_espacos) (rev s) = rev s" by (simp only: r)
  with a show ?thesis by (simp add: js_trim_def)
qed

end
