(* ===== verification/Risk.thy ===== *)
theory Risk
  imports Prelude
begin

text \<open>
  Risk tiers and investor profiles. The sources keep both as display labels (the zod
  enums of \<open>src/lib/zodSchema.ts\<close>, stored as strings in the database) and turn them into
  ordinals 0, 1, 2 where they are compared: \<open>riscoParaNumero\<close> and \<open>perfilParaTexto\<close> of
  \<open>src/lib/result-card.logic.ts\<close>, and the inline mapping of \<open>getPerfil\<close> in
  \<open>src/app/data/user/get-perfil.ts\<close>. \<open>RiscoNumerico\<close>, the TypeScript union
  \<open>0 | 1 | 2\<close>, is an \<open>int\<close> here; the lemmas show that each mapping lands in that range
  and that labels and ordinals line up in enum order.
\<close>

type_synonym RiscoNumerico = int

subsection \<open>The enums of the validation schemas\<close>

definition ativoRisco :: "string list" where
  "ativoRisco = [''Baixo'', ''M'' @ e_agudo @ ''dio'', ''Alto'']"

definition ordemRisco :: "string list" where
  "ordemRisco = [''Baixo'', ''M'' @ e_agudo @ ''dio'', ''Alto'']"

definition perfilInvestidorOpcoes :: "string list" where
  "perfilInvestidorOpcoes = [''Conservador'', ''Moderado'', ''Arrojado'']"

subsection \<open>Label and ordinal mappings\<close>

definition riscoParaNumero :: "string \<Rightarrow> RiscoNumerico" where
  "riscoParaNumero risco =
     (if risco = ''Baixo'' then 0 else if risco = ''M'' @ e_agudo @ ''dio'' then 1 else 2)"

definition perfilParaTexto :: "int \<Rightarrow> string" where
  "perfilParaTexto perfil =
     (if perfil = 0 then ''Conservador'' else if perfil = 1 then ''Moderado'' else ''Arrojado'')"

text \<open>The ternary chain inside \<open>getPerfil\<close> that reads the stored profile label.\<close>

definition perfilParaNumero :: "string \<Rightarrow> int" where
  "perfilParaNumero perfil =
     (if perfil = ''Conservador'' then 0 else if perfil = ''Moderado'' then 1 else 2)"

subsection \<open>Lemmas\<close>

lemma riscoParaNumero_cases:
  "riscoParaNumero r = 0 \<or> riscoParaNumero r = 1 \<or> riscoParaNumero r = 2"
  by (simp add: riscoParaNumero_def)

lemma riscoParaNumero_bounds [simp]:
  "0 \<le> riscoParaNumero r" "riscoParaNumero r \<le> 2"
  by (simp_all add: riscoParaNumero_def)

lemma perfilParaNumero_bounds [simp]:
  "0 \<le> perfilParaNumero l" "perfilParaNumero l \<le> 2"
  by (simp_all add: perfilParaNumero_def)

lemma riscoParaNumero_labels [simp]:
  "riscoParaNumero ''Baixo'' = 0"
  "riscoParaNumero [CHR ''M'', CHR 0xC3, CHR 0xA9, CHR ''d'', CHR ''i'', CHR ''o''] = 1"
  "riscoParaNumero ''Alto'' = 2"
  by (simp_all add: riscoParaNumero_def)

lemma perfilParaTexto_ordinals [simp]:
  "perfilParaTexto 0 = ''Conservador''"
  "perfilParaTexto 1 = ''Moderado''"
  "perfilParaTexto 2 = ''Arrojado''"
  by (simp_all add: perfilParaTexto_def)

lemma perfilParaNumero_labels [simp]:
  "perfilParaNumero ''Conservador'' = 0"
  "perfilParaNumero ''Moderado'' = 1"
  "perfilParaNumero ''Arrojado'' = 2"
  by (simp_all add: perfilParaNumero_def)

lemma ordinal_cases:
  fixes p :: int
  assumes "0 \<le> p" "p \<le> 2"
  obtains "p = 0" | "p = 1" | "p = 2"
  using assms by linarith

lemma set_ativoRisco: "set ativoRisco = {''Baixo'', ''M'' @ e_agudo @ ''dio'', ''Alto''}"
  by (simp add: ativoRisco_def)

lemma set_perfilInvestidorOpcoes:
  "set perfilInvestidorOpcoes = {''Conservador'', ''Moderado'', ''Arrojado''}"
  by (simp add: perfilInvestidorOpcoes_def)

lemma ordemRisco_ativoRisco: "ordemRisco = ativoRisco"
  by (simp add: ordemRisco_def ativoRisco_def)

text \<open>Lower-cased profile labels, as they appear inside the explanations.\<close>

lemma toLowerCase_perfilParaTexto:
  "js_toLowerCase (perfilParaTexto p) =
     (if p = 0 then ''conservador'' else if p = 1 then ''moderado'' else ''arrojado'')"
  by (simp add: perfilParaTexto_def js_string_eval)


end
