(* ===== verification/Portfolio.thy ===== *)
theory Portfolio
  imports Risk
begin

text \<open>
  Portfolio risk aggregation: \<open>calcularRiscoCarteira\<close> of
  \<open>src/lib/result-card.logic.ts\<close>. A holding is the pair of fields the function reads,
  the risk label and \<open>Number(valorInvestido)\<close>; the two \<open>reduce\<close> loops are left
  folds. \<open>risco_ponderado\<close> is the specification (spec section 4.2): the
  investment-weighted mean of the risk ordinals, 0 for a portfolio worth 0. The lemmas
  prove the code equal to it, bound it to [0, 2] for non-negative amounts, show that the
  specification depends only on the multiset of holdings (numbers are exact), and give the closed form of the projected
  score when one more holding is appended.
\<close>

record ativo_carteira =
  risco :: string
  valorInvestido :: js_number

definition calcularRiscoCarteira :: "ativo_carteira list \<Rightarrow> js_number" where
  "calcularRiscoCarteira ativos =
     (if length ativos = 0 then 0
      else
        let valorTotal = foldl (\<lambda>sum ativo. sum + valorInvestido ativo) 0 ativos in
        if valorTotal = 0 then 0
        else foldl (\<lambda>sum ativo.
                      let peso = valorInvestido ativo / valorTotal
                      in sum + of_int (riscoParaNumero (risco ativo)) * peso) 0 ativos)"

subsection \<open>Specification: the weighted mean\<close>

definition valor_total :: "ativo_carteira list \<Rightarrow> js_number" where
  "valor_total ativos = sum_list (map valorInvestido ativos)"

definition risco_de :: "ativo_carteira \<Rightarrow> js_number" where
  "risco_de a = of_int (riscoParaNumero (risco a))"

definition soma_ponderada :: "ativo_carteira list \<Rightarrow> js_number" where
  "soma_ponderada ativos = sum_list (map (\<lambda>a. risco_de a * valorInvestido a) ativos)"

definition risco_ponderado :: "ativo_carteira list \<Rightarrow> js_number" where
  "risco_ponderado ativos =
     (if valor_total ativos = 0 then 0 else soma_ponderada ativos / valor_total ativos)"

subsection \<open>Lemmas\<close>

lemma valor_total_simps [simp]:
  "valor_total [] = 0"
  "valor_total (a # as) = valorInvestido a + valor_total as"
  "valor_total (as @ bs) = valor_total as + valor_total bs"
  by (simp_all add: valor_total_def)

lemma soma_ponderada_simps [simp]:
  "soma_ponderada [] = 0"
  "soma_ponderada (a # as) = risco_de a * valorInvestido a + soma_ponderada as"
  "soma_ponderada (as @ bs) = soma_ponderada as + soma_ponderada bs"
  by (simp_all add: soma_ponderada_def)

lemma risco_de_bounds [simp]: "0 \<le> risco_de a" "risco_de a \<le> 2"
  by (simp_all add: risco_de_def)

lemma valor_total_nonneg:
  "\<forall>a \<in> set ativos. 0 \<le> valorInvestido a \<Longrightarrow> 0 \<le> valor_total ativos"
  unfolding valor_total_def by (rule sum_list_nonneg_map) simp

text \<open>The first fold is the total value.\<close>

lemma foldl_valorTotal:
  "foldl (\<lambda>sum ativo. sum + valorInvestido ativo) 0 ativos = valor_total ativos"
  by (simp add: foldl_add_sum_list valor_total_def)

text \<open>
  The second fold is the weighted sum divided by the total (stated with the weight
  \<open>peso\<close> unfolded, the form \<open>simp\<close> leaves it in).
\<close>

lemma foldl_riscoMedio:
  "foldl (\<lambda>sum ativo. sum + of_int (riscoParaNumero (risco ativo)) * valorInvestido ativo / t)
     0 ativos = soma_ponderada ativos / t"
proof -
  have "foldl (\<lambda>sum ativo. sum + of_int (riscoParaNumero (risco ativo)) * valorInvestido ativo / t)
          0 ativos = sum_list (map (\<lambda>a. risco_de a * valorInvestido a / t) ativos)"
    by (simp add: foldl_add_sum_list risco_de_def)
  also have "\<dots> = soma_ponderada ativos / t"
    by (simp add: sum_list_divide soma_ponderada_def)
  finally show ?thesis .
qed

lemma soma_ponderada_bounds:
  assumes "\<forall>a \<in> set ativos. 0 \<le> valorInvestido a"
  shows "0 \<le> soma_ponderada ativos \<and> soma_ponderada ativos \<le> 2 * valor_total ativos"
proof
  have "0 * valor_total ativos \<le> soma_ponderada ativos"
    using assms sum_list_weighted_lower [of ativos valorInvestido 0 risco_de]
    by (simp add: soma_ponderada_def valor_total_def)
  then show "0 \<le> soma_ponderada ativos" by simp
  show "soma_ponderada ativos \<le> 2 * valor_total ativos"
    using assms sum_list_weighted_upper [of ativos valorInvestido risco_de 2]
    by (simp add: soma_ponderada_def valor_total_def)
qed

lemma risco_ponderado_bounds:
  assumes "\<forall>a \<in> set ativos. 0 \<le> valorInvestido a"
  shows "0 \<le> risco_ponderado ativos \<and> risco_ponderado ativos \<le> 2"
proof (cases "valor_total ativos = 0")
  case True
  then show ?thesis by (simp add: risco_ponderado_def)
next
  case False
  with valor_total_nonneg [OF assms] have pos: "0 < valor_total ativos" by simp
  from soma_ponderada_bounds [OF assms] pos
  have "0 \<le> soma_ponderada ativos / valor_total ativos"
    and "soma_ponderada ativos / valor_total ativos \<le> 2"
    by (simp_all add: pos_divide_le_eq)
  with False show ?thesis by (simp add: risco_ponderado_def)
qed

text \<open>The code computes the specification.\<close>

lemma calcularRiscoCarteira_risco_ponderado:
  "calcularRiscoCarteira ativos = risco_ponderado ativos"
  by (cases "ativos = []")
    (simp_all add: calcularRiscoCarteira_def risco_ponderado_def foldl_valorTotal
      foldl_riscoMedio del: foldl_Cons)

lemma risco_ponderado_mset:
  assumes "mset xs = mset ys"
  shows "risco_ponderado xs = risco_ponderado ys"
proof -
  have "valor_total xs = valor_total ys"
    unfolding valor_total_def by (rule sum_list_map_mset_eq [OF assms])
  moreover have "soma_ponderada xs = soma_ponderada ys"
    unfolding soma_ponderada_def by (rule sum_list_map_mset_eq [OF assms])
  ultimately show ?thesis by (simp add: risco_ponderado_def)
qed

text \<open>
  Appending one holding of positive amount to a portfolio of non-negative amounts moves
  the score towards the new holding's ordinal, by the share of the new amount.
\<close>

lemma risco_ponderado_snoc:
  assumes nonneg: "\<forall>a \<in> set ativos. 0 \<le> valorInvestido a"
    and v: "0 < valorInvestido h"
  shows "risco_ponderado (ativos @ [h]) - risco_ponderado ativos =
           (risco_de h - risco_ponderado ativos) * valorInvestido h
             / (valor_total ativos + valorInvestido h)"
proof -
  define t where "t = valor_total ativos"
  define s where "s = soma_ponderada ativos"
  have t0: "0 \<le> t" using valor_total_nonneg [OF nonneg] by (simp add: t_def)
  have sb: "0 \<le> s \<and> s \<le> 2 * t" using soma_ponderada_bounds [OF nonneg] by (simp add: s_def t_def)
  have new: "risco_ponderado (ativos @ [h]) = (s + risco_de h * valorInvestido h) / (t + valorInvestido h)"
    using t0 v by (simp add: risco_ponderado_def s_def t_def)
  show ?thesis
  proof (cases "t = 0")
    case True
    with sb have "s = 0" by simp
    with True new v show ?thesis by (simp add: risco_ponderado_def t_def [symmetric])
  next
    case False
    with t0 have "0 < t" by simp
    then have "risco_ponderado ativos = s / t"
      by (simp add: risco_ponderado_def s_def t_def)
    with new \<open>0 < t\<close> v show ?thesis
      by (simp add: t_def [symmetric] field_simps)
  qed
qed


subsection \<open>Properties of the aggregation\<close>

text \<open>C3: The two reduce loops compute the specified weighted mean: the sum of each holding's risk ordinal times its amount, divided by the total amount, and 0 when the total is 0 (in particular for the empty portfolio).\<close>

theorem calcularRiscoCarteira_equivalente:
  "calcularRiscoCarteira ativos =
     (let total = sum_list (map valorInvestido ativos)
      in if total = 0 then 0
         else sum_list (map (\<lambda>a. of_int (riscoParaNumero (risco a)) * valorInvestido a) ativos)
                / total)"
  by (simp add: calcularRiscoCarteira_risco_ponderado risco_ponderado_def soma_ponderada_def
      valor_total_def risco_de_def Let_def)

text \<open>C4: For holdings with non-negative amounts the portfolio risk score lies in [0, 2].\<close>

theorem calcularRiscoCarteira_limites:
  assumes "\<forall>a \<in> set ativos. 0 \<le> valorInvestido a"
  shows "0 \<le> calcularRiscoCarteira ativos \<and> calcularRiscoCarteira ativos \<le> 2"
  using risco_ponderado_bounds [OF assms] by (simp add: calcularRiscoCarteira_risco_ponderado)

theorem calcularRiscoCarteira_limites_witness:
  "0 \<le> calcularRiscoCarteira [\<lparr>risco = ''Alto'', valorInvestido = 100\<rparr>,
                               \<lparr>risco = ''Baixo'', valorInvestido = 300\<rparr>] \<and>
   calcularRiscoCarteira [\<lparr>risco = ''Alto'', valorInvestido = 100\<rparr>,
                          \<lparr>risco = ''Baixo'', valorInvestido = 300\<rparr>] \<le> 2"
  using calcularRiscoCarteira_limites
    [of "[\<lparr>risco = ''Alto'', valorInvestido = 100\<rparr>, \<lparr>risco = ''Baixo'', valorInvestido = 300\<rparr>]"]
  by simp

text \<open>C9: Appending a holding with a positive amount to a portfolio of non-negative amounts changes the score by (new ordinal - current score) times the new amount's share of the new total; the projected score moves towards the new holding's ordinal.\<close>

theorem calcularRiscoCarteira_acrescimo:
  assumes "\<forall>a \<in> set ativos. 0 \<le> valorInvestido a" and "0 < valorInvestido h"
  shows "calcularRiscoCarteira (ativos @ [h]) - calcularRiscoCarteira ativos =
           (of_int (riscoParaNumero (risco h)) - calcularRiscoCarteira ativos) * valorInvestido h
             / (sum_list (map valorInvestido ativos) + valorInvestido h)"
  using risco_ponderado_snoc [OF assms]
  by (simp add: calcularRiscoCarteira_risco_ponderado risco_de_def valor_total_def)

theorem calcularRiscoCarteira_acrescimo_witness:
  "calcularRiscoCarteira [\<lparr>risco = ''Baixo'', valorInvestido = 100\<rparr>,
                          \<lparr>risco = ''Alto'', valorInvestido = 100\<rparr>]
     - calcularRiscoCarteira [\<lparr>risco = ''Baixo'', valorInvestido = 100\<rparr>] = 1"
  using calcularRiscoCarteira_acrescimo
    [of "[\<lparr>risco = ''Baixo'', valorInvestido = 100\<rparr>]" "\<lparr>risco = ''Alto'', valorInvestido = 100\<rparr>"]
  by (simp add: calcularRiscoCarteira_def)

end
