(* ===== verification/Adequacy.thy ===== *)
theory Adequacy
  imports Risk
begin

text \<open>
  The suitability classifier, \<open>analisarAdequacao\<close> of \<open>src/lib/result-card.logic.ts\<close>
  (lines 49--167), with the string unions \<open>StatusAdequacao\<close> and \<open>Recomendacao\<close> as
  datatypes and the result interface \<open>AnaliseAdequacao\<close> as a record. The body is split
  at the code's own seams, one definition per step: the order-independent warnings
  (\<open>alertasIniciais\<close>, the four \<open>push\<close>es), the diversification note, the
  return and volatility tables, the impact percentage and the classification by ordinal
  distance, which yields status, recommendation, explanation and the warning it
  \<open>unshift\<close>s. \<open>analisarAdequacao\<close> composes them as the function does. JavaScript
  numbers are exact rationals; the literal \<open>0.3\<close> is \<open>3/10\<close>.
\<close>

subsection \<open>Result types\<close>

datatype StatusAdequacao = Adequado | ParcialmenteAdequado | Inadequado

datatype Recomendacao = CompraRecomendada | CompreComCautela | NaoRecomendado

text \<open>The string literal each constructor stands for.\<close>

fun status_texto :: "StatusAdequacao \<Rightarrow> string" where
  "status_texto Adequado = ''Adequado''"
| "status_texto ParcialmenteAdequado = ''Parcialmente adequado''"
| "status_texto Inadequado = ''Inadequado''"

fun recomendacao_texto :: "Recomendacao \<Rightarrow> string" where
  "recomendacao_texto CompraRecomendada = ''Compra recomendada''"
| "recomendacao_texto CompreComCautela = ''Compre com cautela''"
| "recomendacao_texto NaoRecomendado = ''N'' @ a_til @ ''o recomendado para seu perfil''"

record AnaliseAdequacao =
  status :: StatusAdequacao
  recomendacao :: Recomendacao
  explicacao :: string
  alertas :: "string list"
  impactoRisco :: js_number
  impactoDiversificacao :: string
  rentabilidadePotencial :: "string option"
  volatilidade :: string

subsection \<open>Messages\<close>

definition alerta_alta_volatilidade :: string where [msg_defs]:
  "alerta_alta_volatilidade = emoji_alerta @ '' Alta volatilidade esperada''"

definition alerta_ordem_30 :: string where [msg_defs]:
  "alerta_ordem_30 = emoji_alerta @ '' Ordem representa mais de 30% da carteira''"

definition alerta_valor_baixo :: string where [msg_defs]:
  "alerta_valor_baixo = emoji_info @ '' Valor baixo - custos operacionais podem impactar retorno''"

definition alerta_perfil_conservador :: string where [msg_defs]:
  "alerta_perfil_conservador = emoji_alerta @ '' Risco muito acima do seu perfil conservador''"

definition alerta_risco_acima :: string where [msg_defs]:
  "alerta_risco_acima = emoji_alerta @ '' Risco acima do seu perfil - avalie cuidadosamente''"

definition alerta_incompativel :: string where [msg_defs]:
  "alerta_incompativel = emoji_proibido @ '' Risco incompat'' @ i_agudo @ ''vel com seu perfil''"

definition alerta_muito_conservador :: string where [msg_defs]:
  "alerta_muito_conservador = emoji_info @ '' Ativo muito conservador para seu perfil''"

definition diversificacao_primeiro :: string where [msg_defs]:
  "diversificacao_primeiro = ''Ser'' @ a_agudo @ '' seu primeiro ativo na carteira''"

definition diversificacao_equilibrio :: string where [msg_defs]:
  "diversificacao_equilibrio =
     ''Mant'' @ e_agudo @ ''m o equil'' @ i_agudo @ ''brio da carteira '' @ sinal_ok"

definition diversificacao_aumenta :: string where [msg_defs]:
  "diversificacao_aumenta = ''Aumenta o risco geral da carteira '' @ seta_cima"

definition diversificacao_reduz :: string where [msg_defs]:
  "diversificacao_reduz = ''Reduz o risco geral da carteira '' @ seta_baixo"

text \<open>The explanations, as functions of the lower-cased profile label they embed.\<close>

definition explicacao_alinhado :: "string \<Rightarrow> string" where [msg_defs]:
  "explicacao_alinhado p =
     ''Este ativo est'' @ a_agudo @ '' perfeitamente alinhado com seu perfil '' @ p @
     ''. O risco '' @ e_agudo @ '' adequado para seu objetivo de investimento.''"

definition explicacao_abaixo :: "string \<Rightarrow> string" where [msg_defs]:
  "explicacao_abaixo p =
     ''Este ativo tem risco um pouco abaixo do seu perfil '' @ p @
     '', o que pode ser interessante para equilibrar a carteira com op'' @ c_cedilha @ o_til @
     ''es mais conservadoras.''"

definition explicacao_acima :: "string \<Rightarrow> string" where [msg_defs]:
  "explicacao_acima p =
     ''Este ativo tem risco ligeiramente acima do seu perfil '' @ p @
     ''. Considere o valor investido e certifique-se de estar confort'' @ a_agudo @
     ''vel com a volatilidade adicional.''"

definition explicacao_muito_acima :: "string \<Rightarrow> string" where [msg_defs]:
  "explicacao_muito_acima p =
     ''Este ativo possui n'' @ i_agudo @ ''vel de risco muito superior ao seu perfil '' @ p @
     ''. A volatilidade pode causar perdas significativas e gerar desconforto emocional. Recomendamos buscar alternativas mais adequadas ao seu perfil.''"

definition explicacao_muito_conservador :: "string \<Rightarrow> string" where [msg_defs]:
  "explicacao_muito_conservador p =
     ''Este ativo '' @ e_agudo @ '' muito conservador para seu perfil '' @ p @
     ''. Voc'' @ e_circunflexo @
     '' pode estar deixando de lado oportunidades de maior retorno compat'' @ i_agudo @
     ''veis com sua toler'' @ a_circunflexo @ ''ncia a risco.''"

subsection \<open>The steps of the analysis\<close>

text \<open>Lines 58--76: the warnings pushed before classification, in this order.\<close>

definition alertasIniciais :: "RiscoNumerico \<Rightarrow> int \<Rightarrow> js_number \<Rightarrow> js_number \<Rightarrow> string list" where
  "alertasIniciais riscoAtivo perfilInvestidor valorOrdem valorCarteiraAtual =
     (let proporcaoNovo = valorOrdem / (valorCarteiraAtual + valorOrdem)
      in (if riscoAtivo = 2 then [alerta_alta_volatilidade] else [])
         @ (if proporcaoNovo > 3 / 10 then [alerta_ordem_30] else [])
         @ (if valorOrdem < 100 then [alerta_valor_baixo] else [])
         @ (if riscoAtivo = 2 \<and> perfilInvestidor = 0 then [alerta_perfil_conservador] else []))"

text \<open>Lines 78--90: the diversification note.\<close>

definition impactoDiversificacaoTexto :: "js_number \<Rightarrow> js_number \<Rightarrow> js_number \<Rightarrow> string" where
  "impactoDiversificacaoTexto riscoCarteiraAtual riscoCarteiraComNovo valorCarteiraAtual =
     (let variacaoRisco = \<bar>riscoCarteiraComNovo - riscoCarteiraAtual\<bar>
      in if valorCarteiraAtual = 0 then diversificacao_primeiro
         else if variacaoRisco < 3 / 10 then diversificacao_equilibrio
         else if riscoCarteiraComNovo > riscoCarteiraAtual then diversificacao_aumenta
         else diversificacao_reduz)"

text \<open>
  Lines 93--97 and 106: a \<open>Record<RiscoNumerico, string>\<close> looked up by the order's
  ordinal; a key outside the record reads as JavaScript's \<open>undefined\<close>, here \<open>None\<close>.
\<close>

definition rentabilidadeMap :: "RiscoNumerico \<rightharpoonup> string" where
  "rentabilidadeMap =
     [0 \<mapsto> ''5-8% ao ano (mais est'' @ a_agudo @ ''vel)'',
      1 \<mapsto> ''8-15% ao ano (moderada)'',
      2 \<mapsto> ''15-30% ao ano (alta varia'' @ c_cedilha @ a_til @ ''o)'']"

text \<open>Lines 99--104.\<close>

definition volatilidadeTexto :: "RiscoNumerico \<Rightarrow> string" where
  "volatilidadeTexto riscoAtivo =
     (if riscoAtivo = 0 then ''Baixa - varia'' @ c_cedilha @ o_til @ ''es pequenas esperadas''
      else if riscoAtivo = 1
      then ''M'' @ e_agudo @ ''dia - varia'' @ c_cedilha @ o_til @ ''es moderadas esperadas''
      else ''Alta - grandes varia'' @ c_cedilha @ o_til @ ''es poss'' @ i_agudo @ ''veis'')"

text \<open>Lines 113--115: \<open>riscoCarteiraAtual || 1\<close> replaces a zero divisor by 1.\<close>

definition impactoRiscoCalc :: "js_number \<Rightarrow> js_number \<Rightarrow> js_number" where
  "impactoRiscoCalc riscoCarteiraAtual riscoCarteiraComNovo =
     ((riscoCarteiraComNovo - riscoCarteiraAtual)
        / (if riscoCarteiraAtual = 0 then 1 else riscoCarteiraAtual)) * 100"

text \<open>
  Lines 117--155: status, recommendation and explanation by the distance of the
  ordinals, and the list of warnings the branch \<open>unshift\<close>s (empty or one message).
\<close>

definition classificarAdequacao ::
  "RiscoNumerico \<Rightarrow> int \<Rightarrow> StatusAdequacao \<times> Recomendacao \<times> string \<times> string list" where
  "classificarAdequacao riscoAtivo perfilInvestidor =
     (let diferencaRisco = \<bar>riscoAtivo - perfilInvestidor\<bar>;
          perfil = js_toLowerCase (perfilParaTexto perfilInvestidor)
      in if diferencaRisco = 0
         then (Adequado, CompraRecomendada, explicacao_alinhado perfil, [])
         else if diferencaRisco = 1
         then (if riscoAtivo < perfilInvestidor
               then (Adequado, CompraRecomendada, explicacao_abaixo perfil, [])
               else (ParcialmenteAdequado, CompreComCautela, explicacao_acima perfil,
                     [alerta_risco_acima]))
         else if riscoAtivo > perfilInvestidor
         then (Inadequado, NaoRecomendado, explicacao_muito_acima perfil, [alerta_incompativel])
         else (Inadequado, NaoRecomendado, explicacao_muito_conservador perfil,
               [alerta_muito_conservador]))"

text \<open>Lines 49--167: the whole function.\<close>

definition analisarAdequacao ::
  "RiscoNumerico \<Rightarrow> int \<Rightarrow> js_number \<Rightarrow> js_number \<Rightarrow> js_number \<Rightarrow> js_number \<Rightarrow> AnaliseAdequacao" where
  "analisarAdequacao riscoAtivo perfilInvestidor riscoCarteiraAtual riscoCarteiraComNovo
     valorOrdem valorCarteiraAtual =
     (let avisos = alertasIniciais riscoAtivo perfilInvestidor valorOrdem valorCarteiraAtual;
          (st, rc, ex, antes) = classificarAdequacao riscoAtivo perfilInvestidor
      in \<lparr>status = st, recomendacao = rc, explicacao = ex, alertas = antes @ avisos,
          impactoRisco = impactoRiscoCalc riscoCarteiraAtual riscoCarteiraComNovo,
          impactoDiversificacao =
            impactoDiversificacaoTexto riscoCarteiraAtual riscoCarteiraComNovo valorCarteiraAtual,
          rentabilidadePotencial = rentabilidadeMap riscoAtivo,
          volatilidade = volatilidadeTexto riscoAtivo\<rparr>)"

subsection \<open>Specification of the classification\<close>

text \<open>
  Spec section 4.3, step 4, as a table on the two ordinals: adequate when the order's
  risk is the profile's or one tier below, partially adequate one tier above, inadequate
  otherwise; the recommendation follows the status; a warning is put in front exactly
  when the order is not adequate.
\<close>

definition status_esperado :: "int \<Rightarrow> int \<Rightarrow> StatusAdequacao" where
  "status_esperado r p =
     (if r \<le> p \<and> p \<le> r + 1 then Adequado
      else if r = p + 1 then ParcialmenteAdequado
      else Inadequado)"

fun recomendacao_de :: "StatusAdequacao \<Rightarrow> Recomendacao" where
  "recomendacao_de Adequado = CompraRecomendada"
| "recomendacao_de ParcialmenteAdequado = CompreComCautela"
| "recomendacao_de Inadequado = NaoRecomendado"

definition aviso_esperado :: "int \<Rightarrow> int \<Rightarrow> string list" where
  "aviso_esperado r p =
     (if r = p + 1 then [alerta_risco_acima]
      else if p + 1 < r then [alerta_incompativel]
      else if r + 1 < p then [alerta_muito_conservador]
      else [])"

subsection \<open>Lemmas\<close>

lemma analisarAdequacao_fields [simp]:
  "status (analisarAdequacao r p c n v t) = fst (classificarAdequacao r p)"
  "recomendacao (analisarAdequacao r p c n v t) = fst (snd (classificarAdequacao r p))"
  "explicacao (analisarAdequacao r p c n v t) = fst (snd (snd (classificarAdequacao r p)))"
  "alertas (analisarAdequacao r p c n v t) =
     snd (snd (snd (classificarAdequacao r p))) @ alertasIniciais r p v t"
  "impactoRisco (analisarAdequacao r p c n v t) = impactoRiscoCalc c n"
  "impactoDiversificacao (analisarAdequacao r p c n v t) = impactoDiversificacaoTexto c n t"
  "rentabilidadePotencial (analisarAdequacao r p c n v t) = rentabilidadeMap r"
  "volatilidade (analisarAdequacao r p c n v t) = volatilidadeTexto r"
  by (simp_all add: analisarAdequacao_def split: prod.splits)

lemma classificarAdequacao_status:
  "fst (classificarAdequacao r p) = status_esperado r p"
  by (simp add: classificarAdequacao_def status_esperado_def Let_def abs_if)

lemma classificarAdequacao_recomendacao:
  "fst (snd (classificarAdequacao r p)) = recomendacao_de (status_esperado r p)"
  by (simp add: classificarAdequacao_def status_esperado_def Let_def abs_if)

lemma classificarAdequacao_aviso:
  "snd (snd (snd (classificarAdequacao r p))) = aviso_esperado r p"
  by (simp add: classificarAdequacao_def aviso_esperado_def Let_def abs_if)

lemma classificarAdequacao_explicacao:
  "fst (snd (snd (classificarAdequacao r p))) =
     (let perfil = js_toLowerCase (perfilParaTexto p)
      in if r = p then explicacao_alinhado perfil
         else if r + 1 = p then explicacao_abaixo perfil
         else if r = p + 1 then explicacao_acima perfil
         else if r > p then explicacao_muito_acima perfil
         else explicacao_muito_conservador perfil)"
  by (simp add: classificarAdequacao_def Let_def abs_if)

lemmas classificarAdequacao_simps =
  classificarAdequacao_status classificarAdequacao_recomendacao classificarAdequacao_aviso

lemma aviso_esperado_vazio: "aviso_esperado r p = [] \<longleftrightarrow> status_esperado r p = Adequado"
  by (simp add: aviso_esperado_def status_esperado_def)

lemma mensagens_distintas:
  "distinct [alerta_alta_volatilidade, alerta_ordem_30, alerta_valor_baixo,
     alerta_perfil_conservador, alerta_risco_acima, alerta_incompativel, alerta_muito_conservador]"
  by (simp add: msg_defs)

lemma diversificacao_distintas:
  "distinct [diversificacao_primeiro, diversificacao_equilibrio, diversificacao_aumenta,
     diversificacao_reduz]"
  by (simp add: msg_defs)

subsection \<open>Properties of the analysis\<close>

text \<open>C1: The status of the verdict is the specified table on the two ordinals (adequate at distance 0 or one tier below the profile, partially adequate one tier above, inadequate otherwise), and the recommendation always corresponds to the status.\<close>

theorem analisarAdequacao_classificacao:
  "status (analisarAdequacao r p c n v t) = status_esperado r p \<and>
   recomendacao (analisarAdequacao r p c n v t) =
     recomendacao_de (status (analisarAdequacao r p c n v t))"
  by (simp add: classificarAdequacao_simps)

text \<open>C2: The warnings are the classification warning, if any, in front of the order-independent warnings in their fixed order; there is a classification warning exactly when the order is not adequate.\<close>

theorem analisarAdequacao_alertas:
  "alertas (analisarAdequacao r p c n v t) = aviso_esperado r p @ alertasIniciais r p v t \<and>
   (aviso_esperado r p = [] \<longleftrightarrow> status (analisarAdequacao r p c n v t) = Adequado)"
  by (simp add: classificarAdequacao_simps aviso_esperado_vazio)

text \<open>C5: Which warnings appear: high volatility exactly for a High order, low value exactly below 100, the conservative-profile warning exactly for a High order and a Conservative profile, and each classification warning exactly for its distance and direction; and a verdict carries at most five warnings, never the same one twice.\<close>

theorem analisarAdequacao_membros:
  "(alerta_alta_volatilidade \<in> set (alertas (analisarAdequacao r p c n v t)) \<longleftrightarrow> r = 2) \<and>
   (alerta_valor_baixo \<in> set (alertas (analisarAdequacao r p c n v t)) \<longleftrightarrow> v < 100) \<and>
   (alerta_perfil_conservador \<in> set (alertas (analisarAdequacao r p c n v t))
      \<longleftrightarrow> r = 2 \<and> p = 0) \<and>
   (alerta_risco_acima \<in> set (alertas (analisarAdequacao r p c n v t)) \<longleftrightarrow> r = p + 1) \<and>
   (alerta_incompativel \<in> set (alertas (analisarAdequacao r p c n v t)) \<longleftrightarrow> p + 1 < r) \<and>
   (alerta_muito_conservador \<in> set (alertas (analisarAdequacao r p c n v t)) \<longleftrightarrow> r + 1 < p) \<and>
   length (alertas (analisarAdequacao r p c n v t)) \<le> 5 \<and> distinct (alertas (analisarAdequacao r p c n v t))"
  by (simp add: classificarAdequacao_simps aviso_esperado_def alertasIniciais_def Let_def msg_defs)

text \<open>C6: For a non-negative portfolio value and a positive order, the more-than-30% warning fires exactly when the order is strictly more than 30% of portfolio plus order (3 t < 7 v); a share of exactly 30% does not fire it.\<close>

theorem analisarAdequacao_limite_30:
  assumes "0 \<le> t" and "0 < v"
  shows "alerta_ordem_30 \<in> set (alertas (analisarAdequacao r p c n v t)) \<longleftrightarrow> 3 * t < 7 * v"
proof -
  have "alerta_ordem_30 \<in> set (alertas (analisarAdequacao r p c n v t)) \<longleftrightarrow> 3 / 10 < v / (t + v)"
    by (simp add: classificarAdequacao_simps aviso_esperado_def alertasIniciais_def Let_def msg_defs)
  also have "\<dots> \<longleftrightarrow> 3 * t < 7 * v"
    using assms by (simp add: field_simps)
  finally show ?thesis .
qed

theorem analisarAdequacao_limite_30_witness:
  "(0::rat) \<le> 70 \<and> (0::rat) < 30 \<and> alerta_ordem_30 \<notin> set (alertas (analisarAdequacao 1 1 0 0 30 70))"
  using analisarAdequacao_limite_30 [of 70 30 1 1 0 0] by simp

text \<open>C8: For a non-negative current risk score, the risk impact is positive exactly when the projected score is higher and negative exactly when it is lower; from a current score of 0 the divisor is replaced by 1 and the impact is the projected score times 100.\<close>

theorem analisarAdequacao_impacto:
  assumes "0 \<le> c"
  shows "(0 < impactoRisco (analisarAdequacao r p c n v t) \<longleftrightarrow> c < n) \<and>
         (impactoRisco (analisarAdequacao r p c n v t) < 0 \<longleftrightarrow> n < c) \<and>
         (c = 0 \<longrightarrow> impactoRisco (analisarAdequacao r p c n v t) = n * 100)"
  using assms by (auto simp: impactoRiscoCalc_def zero_less_divide_iff divide_less_0_iff)

theorem analisarAdequacao_impacto_witness:
  "(0::rat) \<le> 0 \<and> impactoRisco (analisarAdequacao 1 1 0 1 5000 0) = 100 \<and>
   0 < impactoRisco (analisarAdequacao 1 1 0 1 5000 0)"
  using analisarAdequacao_impacto [of 0 1 1 1 5000 0] by simp

end
