(* ===== verification/ResultCard.thy ===== *)
theory ResultCard
  imports Portfolio Adequacy
begin

text \<open>
  The result card, \<open>ResultCardClient\<close> of
  \<open>src/app/(private)/_components/result-card-client.tsx\<close>: it computes the current
  portfolio value, the current risk score and the projected score (the portfolio with the
  order appended as a hypothetical holding), calls the classifier, and picks the icons,
  colours and impact sentence it renders. The order is the validated form value
  (\<open>OrdemSchemaType\<close>) with \<open>Number(valorOrdem)\<close> taken as exact. The lemmas connect
  the two components: the scores passed to the classifier are weighted means in [0, 2],
  the sign of the impact and the direction of the diversification note follow the order's
  ordinal against the current score, and the icons agree with the verdict.
\<close>

record OrdemSchemaType =
  ordem_ativo :: string
  ordem_risco :: string
  valorOrdem :: js_number

subsection \<open>The analysis the card computes (lines 37--58)\<close>

definition valorCarteiraAtual :: "ativo_carteira list \<Rightarrow> js_number" where
  "valorCarteiraAtual ativos = foldl (\<lambda>sum ativo. sum + valorInvestido ativo) 0 ativos"

definition ordem_como_ativo :: "OrdemSchemaType \<Rightarrow> ativo_carteira" where
  "ordem_como_ativo ordem = \<lparr>risco = ordem_risco ordem, valorInvestido = valorOrdem ordem\<rparr>"

definition resultCardAnalise :: "OrdemSchemaType \<Rightarrow> ativo_carteira list \<Rightarrow> int \<Rightarrow> AnaliseAdequacao" where
  "resultCardAnalise ordem ativos perfil =
     (let riscoAtivoNum = riscoParaNumero (ordem_risco ordem);
          valorOrdemNum = valorOrdem ordem;
          valorCarteira = valorCarteiraAtual ativos;
          riscoCarteiraAtual = calcularRiscoCarteira ativos;
          riscoCarteiraComNovo = calcularRiscoCarteira (ativos @ [ordem_como_ativo ordem])
      in analisarAdequacao riscoAtivoNum perfil riscoCarteiraAtual riscoCarteiraComNovo
           valorOrdemNum valorCarteira)"

subsection \<open>What the card renders\<close>

datatype StatusIcon = CheckCircle2 | AlertCircle | XCircle

datatype ImpactoIcon = TrendingUp | TrendingDown | Activity

definition statusIcon :: "StatusAdequacao \<Rightarrow> StatusIcon" where
  "statusIcon st =
     (if st = Adequado then CheckCircle2 else if st = ParcialmenteAdequado then AlertCircle
      else XCircle)"

definition statusColor :: "StatusAdequacao \<Rightarrow> string" where
  "statusColor st =
     (if st = Adequado then ''text-green-600 dark:text-green-500''
      else if st = ParcialmenteAdequado then ''text-yellow-600 dark:text-yellow-500''
      else ''text-red-600 dark:text-red-500'')"

definition recomendacaoColor :: "Recomendacao \<Rightarrow> string" where
  "recomendacaoColor rc =
     (if rc = CompraRecomendada
      then ''bg-green-100 dark:bg-green-950 text-green-800 dark:text-green-200 border-green-300 dark:border-green-800''
      else if rc = CompreComCautela
      then ''bg-yellow-100 dark:bg-yellow-950 text-yellow-800 dark:text-yellow-200 border-yellow-300 dark:border-yellow-800''
      else ''bg-red-100 dark:bg-red-950 text-red-800 dark:text-red-200 border-red-300 dark:border-red-800'')"

definition riscoColor :: "string \<Rightarrow> string" where
  "riscoColor r =
     (if r = ''Baixo'' then ''text-green-600 dark:text-green-500''
      else if r = ''M'' @ e_agudo @ ''dio'' then ''text-yellow-600 dark:text-yellow-500''
      else ''text-red-600 dark:text-red-500'')"

definition impactoIcone :: "js_number \<Rightarrow> ImpactoIcon" where
  "impactoIcone impacto =
     (if impacto > 0 then TrendingUp else if impacto < 0 then TrendingDown else Activity)"

definition impacto_primeiro :: string where [msg_defs]:
  "impacto_primeiro = ''Primeiro ativo da carteira''"

definition impacto_minimo :: string where [msg_defs]:
  "impacto_minimo = ''Impacto m'' @ i_agudo @ ''nimo no risco geral''"

definition impactoTexto :: "js_number \<Rightarrow> js_number \<Rightarrow> string" where
  "impactoTexto valorCarteira impacto =
     (if valorCarteira = 0 then impacto_primeiro
      else if impacto > 5 then ''Aumenta o risco em '' @ js_toFixed1 impacto @ ''%''
      else if impacto < - 5 then ''Reduz o risco em '' @ js_toFixed1 \<bar>impacto\<bar> @ ''%''
      else impacto_minimo)"

subsection \<open>Lemmas\<close>

lemma valorCarteiraAtual_valor_total: "valorCarteiraAtual ativos = valor_total ativos"
  by (simp add: valorCarteiraAtual_def foldl_valorTotal)

lemma ordem_como_ativo_sel [simp]:
  "risco (ordem_como_ativo ordem) = ordem_risco ordem"
  "valorInvestido (ordem_como_ativo ordem) = valorOrdem ordem"
  by (simp_all add: ordem_como_ativo_def)

lemma resultCardAnalise_eq:
  "resultCardAnalise ordem ativos perfil =
     analisarAdequacao (riscoParaNumero (ordem_risco ordem)) perfil
       (risco_ponderado ativos) (risco_ponderado (ativos @ [ordem_como_ativo ordem]))
       (valorOrdem ordem) (valor_total ativos)"
  by (simp add: resultCardAnalise_def calcularRiscoCarteira_risco_ponderado
      valorCarteiraAtual_valor_total)

text \<open>
  The projected score minus the current one has the sign of the order's ordinal minus
  the current score.
\<close>

lemma projecao_sinal:
  assumes "\<forall>a \<in> set ativos. 0 \<le> valorInvestido a" and "0 < valorOrdem ordem"
  shows "(risco_ponderado ativos < risco_ponderado (ativos @ [ordem_como_ativo ordem]) \<longleftrightarrow>
            risco_ponderado ativos < of_int (riscoParaNumero (ordem_risco ordem))) \<and>
         (risco_ponderado (ativos @ [ordem_como_ativo ordem]) < risco_ponderado ativos \<longleftrightarrow>
            of_int (riscoParaNumero (ordem_risco ordem)) < risco_ponderado ativos)"
proof -
  have t: "0 < valor_total ativos + valorOrdem ordem"
    using valor_total_nonneg [OF assms(1)] assms(2) by simp
  have d: "risco_ponderado (ativos @ [ordem_como_ativo ordem]) - risco_ponderado ativos =
           (risco_de (ordem_como_ativo ordem) - risco_ponderado ativos) * valorOrdem ordem
             / (valor_total ativos + valorOrdem ordem)"
    using risco_ponderado_snoc [OF assms(1), of "ordem_como_ativo ordem"] assms(2) by simp
  define e where "e = (risco_de (ordem_como_ativo ordem) - risco_ponderado ativos) * valorOrdem ordem
             / (valor_total ativos + valorOrdem ordem)"
  have pos: "0 < e \<longleftrightarrow> risco_ponderado ativos < risco_de (ordem_como_ativo ordem)"
    using t assms(2) by (simp add: e_def zero_less_divide_iff zero_less_mult_iff)
  have neg: "e < 0 \<longleftrightarrow> risco_de (ordem_como_ativo ordem) < risco_ponderado ativos"
    using t assms(2) by (simp add: e_def divide_less_0_iff mult_less_0_iff)
  have "risco_ponderado (ativos @ [ordem_como_ativo ordem]) = risco_ponderado ativos + e"
    using d by (simp add: e_def algebra_simps)
  with pos neg show ?thesis by (simp add: risco_de_def)
qed

subsection \<open>Properties of the card\<close>

text \<open>C12: Scenarios A and D end to end. A: a Medium order of 5000 for a Moderate profile on an empty portfolio is adequate with a buy recommendation, the diversification note is the first-holding note, the more-than-30% warning still fires (5000/5000 > 0.3), the impact is 100 and the card shows the first-asset sentence. D: with a single Low holding of a positive amount a the current score is exactly 0, and a Medium order of a positive amount v gets an impact computed with the divisor replaced by 1: v/(a+v)*100.\<close>

theorem resultCard_cenarios_A_D:
  "(let A = resultCardAnalise
              \<lparr>ordem_ativo = nome, ordem_risco = ''M'' @ e_agudo @ ''dio'', valorOrdem = 5000\<rparr> [] 1
    in status A = Adequado \<and> recomendacao A = CompraRecomendada \<and>
       impactoDiversificacao A = diversificacao_primeiro \<and>
       alerta_ordem_30 \<in> set (alertas A) \<and> impactoRisco A = 100 \<and>
       impactoTexto (valorCarteiraAtual []) (impactoRisco A) = impacto_primeiro) \<and>
   (0 < a \<and> 0 < v \<longrightarrow>
      calcularRiscoCarteira [\<lparr>risco = ''Baixo'', valorInvestido = a\<rparr>] = 0 \<and>
      impactoRisco (resultCardAnalise
        \<lparr>ordem_ativo = nome, ordem_risco = ''M'' @ e_agudo @ ''dio'', valorOrdem = v\<rparr>
        [\<lparr>risco = ''Baixo'', valorInvestido = a\<rparr>] p) = v / (a + v) * 100)"
  by (simp add: resultCardAnalise_eq calcularRiscoCarteira_risco_ponderado ordem_como_ativo_def
      risco_ponderado_def risco_de_def classificarAdequacao_simps status_esperado_def
      aviso_esperado_def alertasIniciais_def impactoDiversificacaoTexto_def impactoRiscoCalc_def
      impactoTexto_def valorCarteiraAtual_def)

theorem resultCard_cenarios_A_D_witness:
  "calcularRiscoCarteira [\<lparr>risco = ''Baixo'', valorInvestido = 1000\<rparr>] = 0 \<and>
   impactoRisco (resultCardAnalise
     \<lparr>ordem_ativo = ''PETR4'', ordem_risco = ''M'' @ e_agudo @ ''dio'', valorOrdem = 1000\<rparr>
     [\<lparr>risco = ''Baixo'', valorInvestido = 1000\<rparr>] 1) = 50"
  using resultCard_cenarios_A_D [of "''PETR4''" 1000 1000 1] by simp

text \<open>C14: On a portfolio of non-negative amounts and a positive order, the card's risk impact is positive exactly when the order's risk ordinal is above the current portfolio score, and negative exactly when it is below.\<close>

theorem resultCard_impacto_sinal:
  assumes "\<forall>a \<in> set ativos. 0 \<le> valorInvestido a" and "0 < valorOrdem ordem"
  shows "(0 < impactoRisco (resultCardAnalise ordem ativos p) \<longleftrightarrow>
            calcularRiscoCarteira ativos < of_int (riscoParaNumero (ordem_risco ordem))) \<and>
         (impactoRisco (resultCardAnalise ordem ativos p) < 0 \<longleftrightarrow>
            of_int (riscoParaNumero (ordem_risco ordem)) < calcularRiscoCarteira ativos)"
proof -
  have c0: "0 \<le> risco_ponderado ativos"
    using risco_ponderado_bounds [OF assms(1)] by simp
  have "(0 < impactoRiscoCalc (risco_ponderado ativos) (risco_ponderado (ativos @ [ordem_como_ativo ordem]))
           \<longleftrightarrow> risco_ponderado ativos < risco_ponderado (ativos @ [ordem_como_ativo ordem])) \<and>
        (impactoRiscoCalc (risco_ponderado ativos) (risco_ponderado (ativos @ [ordem_como_ativo ordem])) < 0
           \<longleftrightarrow> risco_ponderado (ativos @ [ordem_como_ativo ordem]) < risco_ponderado ativos)"
    using c0 by (auto simp: impactoRiscoCalc_def zero_less_divide_iff divide_less_0_iff)
  with projecao_sinal [OF assms] show ?thesis
    by (simp add: resultCardAnalise_eq calcularRiscoCarteira_risco_ponderado)
qed

theorem resultCard_impacto_sinal_witness:
  "0 < impactoRisco (resultCardAnalise
          \<lparr>ordem_ativo = ''BTC'', ordem_risco = ''Alto'', valorOrdem = 100\<rparr>
          [\<lparr>risco = ''Baixo'', valorInvestido = 100\<rparr>] 1) \<and>
   calcularRiscoCarteira [\<lparr>risco = ''Baixo'', valorInvestido = 100\<rparr>] < 2"
  using resultCard_impacto_sinal [of "[\<lparr>risco = ''Baixo'', valorInvestido = 100\<rparr>]"
      "\<lparr>ordem_ativo = ''BTC'', ordem_risco = ''Alto'', valorOrdem = 100\<rparr>" 1]
  by (simp add: calcularRiscoCarteira_def)

text \<open>C15: On a portfolio of non-negative amounts and a positive order, the card says the order increases overall risk only when the order's ordinal is above the current score, and that it decreases risk only when the ordinal is below it; and the status icon agrees with the recommendation banner: CheckCircle2 exactly for a buy recommendation, AlertCircle exactly for caution, XCircle exactly for not recommended.\<close>

theorem resultCard_diversificacao_direcao:
  assumes "\<forall>a \<in> set ativos. 0 \<le> valorInvestido a" and "0 < valorOrdem ordem"
  shows "(impactoDiversificacao (resultCardAnalise ordem ativos p) = diversificacao_aumenta \<longrightarrow>
            calcularRiscoCarteira ativos < of_int (riscoParaNumero (ordem_risco ordem))) \<and>
         (impactoDiversificacao (resultCardAnalise ordem ativos p) = diversificacao_reduz \<longrightarrow>
            of_int (riscoParaNumero (ordem_risco ordem)) < calcularRiscoCarteira ativos) \<and>
         (statusIcon (status (resultCardAnalise ordem ativos p)) = CheckCircle2 \<longleftrightarrow>
            recomendacao (resultCardAnalise ordem ativos p) = CompraRecomendada) \<and>
         (statusIcon (status (resultCardAnalise ordem ativos p)) = AlertCircle \<longleftrightarrow>
            recomendacao (resultCardAnalise ordem ativos p) = CompreComCautela) \<and>
         (statusIcon (status (resultCardAnalise ordem ativos p)) = XCircle \<longleftrightarrow>
            recomendacao (resultCardAnalise ordem ativos p) = NaoRecomendado)"
proof -
  have icones: "(statusIcon (status (resultCardAnalise ordem ativos p)) = CheckCircle2 \<longleftrightarrow>
            recomendacao (resultCardAnalise ordem ativos p) = CompraRecomendada) \<and>
         (statusIcon (status (resultCardAnalise ordem ativos p)) = AlertCircle \<longleftrightarrow>
            recomendacao (resultCardAnalise ordem ativos p) = CompreComCautela) \<and>
         (statusIcon (status (resultCardAnalise ordem ativos p)) = XCircle \<longleftrightarrow>
            recomendacao (resultCardAnalise ordem ativos p) = NaoRecomendado)"
    by (simp add: resultCardAnalise_def classificarAdequacao_simps statusIcon_def status_esperado_def)
  let ?c = "risco_ponderado ativos" and ?n = "risco_ponderado (ativos @ [ordem_como_ativo ordem])"
  have "impactoDiversificacaoTexto ?c ?n (valor_total ativos) = diversificacao_aumenta \<longrightarrow> ?c < ?n"
    by (auto simp: impactoDiversificacaoTexto_def Let_def msg_defs)
  moreover have "impactoDiversificacaoTexto ?c ?n (valor_total ativos) = diversificacao_reduz \<longrightarrow> ?n < ?c"
    by (auto simp: impactoDiversificacaoTexto_def Let_def msg_defs)
  ultimately show ?thesis
    using projecao_sinal [OF assms] icones
    by (simp add: resultCardAnalise_eq calcularRiscoCarteira_risco_ponderado)
qed

theorem resultCard_diversificacao_direcao_witness:
  "impactoDiversificacao (resultCardAnalise
     \<lparr>ordem_ativo = ''BTC'', ordem_risco = ''Alto'', valorOrdem = 100\<rparr>
     [\<lparr>risco = ''Baixo'', valorInvestido = 100\<rparr>] 1) = diversificacao_aumenta \<and>
   calcularRiscoCarteira [\<lparr>risco = ''Baixo'', valorInvestido = 100\<rparr>] < 2"
  using resultCard_diversificacao_direcao [of "[\<lparr>risco = ''Baixo'', valorInvestido = 100\<rparr>]"
      "\<lparr>ordem_ativo = ''BTC'', ordem_risco = ''Alto'', valorOrdem = 100\<rparr>" 1]
  by (simp add: calcularRiscoCarteira_def resultCardAnalise_eq ordem_como_ativo_def
      risco_ponderado_def risco_de_def impactoDiversificacaoTexto_def)

end
