(* ===== verification/Database.thy ===== *)
theory Database
  imports Risk Portfolio
begin

text \<open>
  The persistent state the server actions read and write, and the data-access layer of
  \<open>src/app/data/user/\<close>. The database (reached through Prisma) holds the users (the
  authentication library's user table, with the additional field
  \<open>perfilInvestidor\<close>) and the assets (\<open>Ativo\<close>: name, risk label, invested amount,
  owner). Tables are association lists in insertion order; ids are natural numbers and a
  new row takes the next unused one (the id generators produce unique ids). \<open>db_revalidados\<close>
  records the paths passed to Next.js's \<open>revalidatePath\<close>, in order.

  An action's outcome is a \<open>Resultado\<close>: it returns a value, or throws the redirect
  error of \<open>redirect()\<close>, or throws another error. A database fault is a \<open>Falha\<close>:
  none, or the n-th database call of the action (counting from 0) throws.
  \<open>requireUser\<close> (\<open>require-user.ts\<close>) yields the session's user id or throws the
  redirect to \<open>/login\<close>; its per-request \<open>cache\<close> does not change what it returns.
\<close>

type_synonym user_id = nat
type_synonym ativo_id = nat

record Usuario =
  usuario_name :: string
  usuario_email :: string
  usuario_perfilInvestidor :: string

record AtivoRow =
  ativo_nome :: string
  ativo_risco :: string
  ativo_valorInvestido :: js_number
  ativo_userId :: user_id

record Db =
  db_users :: "(user_id \<times> Usuario) list"
  db_ativos :: "(ativo_id \<times> AtivoRow) list"
  db_next_ativo :: ativo_id
  db_next_user :: user_id
  db_revalidados :: "string list"

datatype 'a Resultado = Retorna 'a | Redireciona string | Lanca string

datatype Falha = SemFalha | FalhaNaChamada nat

definition falha_em :: "Falha \<Rightarrow> nat \<Rightarrow> bool" where
  "falha_em f n \<longleftrightarrow> f = FalhaNaChamada n"

text \<open>Sequencing of steps that may throw: a thrown redirect or error propagates.\<close>

fun seq :: "'a Resultado \<Rightarrow> ('a \<Rightarrow> 'b Resultado) \<Rightarrow> 'b Resultado" where
  "seq (Retorna x) k = k x"
| "seq (Redireciona p) k = Redireciona p"
| "seq (Lanca e) k = Lanca e"

subsection \<open>Session\<close>

definition requireUser :: "user_id option \<Rightarrow> user_id Resultado" where
  "requireUser sessao = (case sessao of None \<Rightarrow> Redireciona ''/login'' | Some uid \<Rightarrow> Retorna uid)"

subsection \<open>Prisma queries\<close>

definition usuario_por_id :: "Db \<Rightarrow> user_id \<Rightarrow> Usuario option" where
  "usuario_por_id db uid = map_of (db_users db) uid"

definition usuario_por_email :: "Db \<Rightarrow> string \<Rightarrow> user_id option" where
  "usuario_por_email db email =
     map_option fst (find (\<lambda>(_, u). usuario_email u = email) (db_users db))"

definition atualizar_usuario :: "user_id \<Rightarrow> (Usuario \<Rightarrow> Usuario) \<Rightarrow> Db \<Rightarrow> Db" where
  "atualizar_usuario uid g db =
     db\<lparr>db_users := map (\<lambda>(k, u). if k = uid then (k, g u) else (k, u)) (db_users db)\<rparr>"

definition revalidatePath :: "string \<Rightarrow> Db \<Rightarrow> Db" where
  "revalidatePath p db = db\<lparr>db_revalidados := db_revalidados db @ [p]\<rparr>"

subsection \<open>Data access (src/app/data/user)\<close>

definition msg_usuario_nao_encontrado :: string where [msg_defs]:
  "msg_usuario_nao_encontrado = ''Usu'' @ a_agudo @ ''rio n'' @ a_til @ ''o encontrado''"

text \<open>\<open>getAtivos\<close>: the session user's assets (\<open>findMany where userId\<close>).\<close>

definition getAtivos :: "Falha \<Rightarrow> user_id option \<Rightarrow> Db \<Rightarrow> (ativo_id \<times> AtivoRow) list Resultado" where
  "getAtivos f sessao db =
     seq (requireUser sessao) (\<lambda>uid.
       if falha_em f 0 then Lanca ''database''
       else Retorna (filter (\<lambda>(_, a). ativo_userId a = uid) (db_ativos db)))"

text \<open>\<open>getPerfil\<close>: the stored profile label read as an ordinal.\<close>

definition getPerfil :: "Falha \<Rightarrow> user_id option \<Rightarrow> Db \<Rightarrow> int Resultado" where
  "getPerfil f sessao db =
     seq (requireUser sessao) (\<lambda>uid.
       if falha_em f 0 then Lanca ''database''
       else case usuario_por_id db uid of
              None \<Rightarrow> Lanca msg_usuario_nao_encontrado
            | Some u \<Rightarrow> Retorna (perfilParaNumero (usuario_perfilInvestidor u)))"

definition getUserInfo :: "Falha \<Rightarrow> user_id option \<Rightarrow> Db \<Rightarrow> (user_id \<times> Usuario) Resultado" where
  "getUserInfo f sessao db =
     seq (requireUser sessao) (\<lambda>uid.
       if falha_em f 0 then Lanca ''database''
       else case usuario_por_id db uid of
              None \<Rightarrow> Lanca msg_usuario_nao_encontrado
            | Some u \<Rightarrow> Retorna (uid, u))"

text \<open>
  What the result card receives as \<open>ativos\<close>: each row's risk label and amount
  (\<open>getAtivos\<close> turns the Decimal into a string, the card reads it back with
  \<open>Number\<close>; the round trip is taken as exact).
\<close>

definition carteira_de :: "(ativo_id \<times> AtivoRow) list \<Rightarrow> ativo_carteira list" where
  "carteira_de rows =
     map (\<lambda>(_, a). \<lparr>risco = ativo_risco a, valorInvestido = ativo_valorInvestido a\<rparr>) rows"

subsection \<open>The store invariant\<close>

text \<open>
  What every reachable database satisfies: asset ids are distinct and below the id
  counter, every stored amount is positive, every stored risk is one of the enum labels,
  user ids are distinct and below their counter, and no two users share an e-mail address.
\<close>

definition inv_db :: "Db \<Rightarrow> bool" where
  "inv_db db \<longleftrightarrow>
     distinct (map fst (db_ativos db)) \<and>
     list_all (\<lambda>(k, a). k < db_next_ativo db \<and> 0 < ativo_valorInvestido a \<and>
                        ativo_risco a \<in> set ativoRisco) (db_ativos db) \<and>
     distinct (map fst (db_users db)) \<and>
     list_all (\<lambda>k. k < db_next_user db) (map fst (db_users db)) \<and>
     distinct (map (\<lambda>(_, u). usuario_email u) (db_users db))"

definition db_vazio :: Db where
  "db_vazio = \<lparr>db_users = [], db_ativos = [], db_next_ativo = 0, db_next_user = 0, db_revalidados = []\<rparr>"

subsection \<open>Lemmas\<close>

lemma seq_Retorna_iff:
  "seq r k = Retorna y \<longleftrightarrow> (\<exists>x. r = Retorna x \<and> k x = Retorna y)"
  by (cases r) simp_all

lemma requireUser_simps [simp]:
  "requireUser None = Redireciona ''/login''"
  "requireUser (Some uid) = Retorna uid"
  by (simp_all add: requireUser_def)

lemma revalidatePath_sel [simp]:
  "db_users (revalidatePath p db) = db_users db"
  "db_ativos (revalidatePath p db) = db_ativos db"
  "db_next_ativo (revalidatePath p db) = db_next_ativo db"
  "db_next_user (revalidatePath p db) = db_next_user db"
  "db_revalidados (revalidatePath p db) = db_revalidados db @ [p]"
  by (simp_all add: revalidatePath_def)

lemma atualizar_usuario_sel [simp]:
  "db_ativos (atualizar_usuario uid g db) = db_ativos db"
  "db_next_ativo (atualizar_usuario uid g db) = db_next_ativo db"
  "db_next_user (atualizar_usuario uid g db) = db_next_user db"
  "db_revalidados (atualizar_usuario uid g db) = db_revalidados db"
  "map fst (db_users (atualizar_usuario uid g db)) = map fst (db_users db)"
  by (simp_all add: atualizar_usuario_def case_prod_beta comp_def)

lemma usuario_por_id_atualizar:
  "usuario_por_id (atualizar_usuario uid g db) k =
     (if k = uid then map_option g (usuario_por_id db k) else usuario_por_id db k)"
proof -
  have "map_of (map (\<lambda>(k, u). if k = uid then (k, g u) else (k, u)) xs) k =
          (if k = uid then map_option g (map_of xs k) else map_of xs k)" for xs :: "(user_id \<times> Usuario) list"
    by (induction xs) auto
  then show ?thesis by (simp add: usuario_por_id_def atualizar_usuario_def)
qed

lemma set_carteira_de:
  "x \<in> set (carteira_de rows) \<longleftrightarrow>
     (\<exists>k a. (k, a) \<in> set rows \<and>
        x = \<lparr>risco = ativo_risco a, valorInvestido = ativo_valorInvestido a\<rparr>)"
  by (force simp: carteira_de_def)

lemma usuario_por_email_None:
  "usuario_por_email db m = None \<longleftrightarrow> (\<forall>(k, u) \<in> set (db_users db). usuario_email u \<noteq> m)"
  by (auto simp: usuario_por_email_def find_None_iff)

lemma usuario_por_email_Some:
  "usuario_por_email db m = Some k \<Longrightarrow> \<exists>u. (k, u) \<in> set (db_users db) \<and> usuario_email u = m"
proof -
  assume "usuario_por_email db m = Some k"
  then obtain u where f: "find (\<lambda>(_, u). usuario_email u = m) (db_users db) = Some (k, u)"
    by (auto simp: usuario_por_email_def)
  then have "(k, u) \<in> set (db_users db)" and "usuario_email u = m"
    by (auto simp: find_Some_iff) (metis nth_mem)
  then show ?thesis by blast
qed

lemma inv_db_frescos:
  assumes "inv_db db"
  shows "(db_next_ativo db, a) \<notin> set (db_ativos db)" "(db_next_user db, u) \<notin> set (db_users db)"
  using assms by (force simp: inv_db_def list_all_iff)+

lemma inv_db_revalidatePath [simp]: "inv_db (revalidatePath p db) = inv_db db"
  by (simp add: inv_db_def)

lemma emails_atualizar_outro:
  assumes "\<And>u. usuario_email (g u) = usuario_email u"
  shows "map (\<lambda>(_, u). usuario_email u) (db_users (atualizar_usuario uid g db)) =
         map (\<lambda>(_, u). usuario_email u) (db_users db)"
  using assms by (simp add: atualizar_usuario_def case_prod_beta)

lemma emails_atualizar:
  "map (\<lambda>(_, u). usuario_email u) (db_users (atualizar_usuario uid g db)) =
   map (\<lambda>(k, u). if k = uid then usuario_email (g u) else usuario_email u) (db_users db)"
  by (simp add: atualizar_usuario_def map_eq_conv split: prod.splits)

lemma inv_db_atualizar_usuario:
  assumes "inv_db db" and "\<And>u. usuario_email (g u) = usuario_email u"
  shows "inv_db (atualizar_usuario uid g db)"
  using assms by (simp add: inv_db_def emails_atualizar_outro)

lemma email_livre:
  assumes "distinct (map (\<lambda>(_, u). usuario_email u) (db_users db))"
    and "case usuario_por_email db email of Some k \<Rightarrow> k = uid | None \<Rightarrow> True"
  shows "\<forall>(k, u) \<in> set (db_users db). k \<noteq> uid \<longrightarrow> usuario_email u \<noteq> email"
proof (cases "usuario_por_email db email")
  case None
  then show ?thesis by (fastforce simp: usuario_por_email_None)
next
  case (Some k0)
  with assms(2) obtain u0 where u0: "(uid, u0) \<in> set (db_users db)" "usuario_email u0 = email"
    using usuario_por_email_Some by fastforce
  have inj: "inj_on (\<lambda>(_, u). usuario_email u) (set (db_users db))"
    using assms(1) by (simp add: distinct_map)
  { fix k u assume "(k, u) \<in> set (db_users db)" "usuario_email u = email"
    with u0 have "(k, u) = (uid, u0)" using inj_onD [OF inj, of "(k, u)" "(uid, u0)"] by simp
    then have "k = uid" by simp }
  then show ?thesis by blast
qed

lemma inv_db_atualizar_email:
  assumes "inv_db db"
    and "case usuario_por_email db email of Some k \<Rightarrow> k = uid | None \<Rightarrow> True"
  shows "inv_db (atualizar_usuario uid (\<lambda>u. u\<lparr>usuario_email := email\<rparr>) db)"
proof -
  have d: "distinct (map (\<lambda>(_, u). usuario_email u) (db_users db))" "distinct (map fst (db_users db))"
    using assms(1) by (simp_all add: inv_db_def)
  have "distinct (map (\<lambda>(k, u). if k = uid then email else usuario_email u) (db_users db))"
    using distinct_map_set_one [OF d(2) d(1) email_livre [OF d(1) assms(2)]] .
  then have "distinct (map (\<lambda>(_, u). usuario_email u)
               (db_users (atualizar_usuario uid (\<lambda>u. u\<lparr>usuario_email := email\<rparr>) db)))"
    by (simp add: emails_atualizar cong: if_cong)
  with assms(1) show ?thesis by (simp add: inv_db_def)
qed

lemma inv_db_vazio: "inv_db db_vazio"
  by (simp add: inv_db_def db_vazio_def)

lemma usuario_por_email_unico:
  assumes "distinct (map (\<lambda>(_, u). usuario_email u) (db_users db))"
    and "(k, u) \<in> set (db_users db)" and "usuario_email u = m"
  shows "usuario_por_email db m = Some k"
proof -
  have "usuario_por_email db m \<noteq> None"
    using assms(2,3) by (auto simp: usuario_por_email_None)
  then obtain k' where k': "usuario_por_email db m = Some k'" by blast
  then obtain u' where "(k', u') \<in> set (db_users db)" "usuario_email u' = m"
    using usuario_por_email_Some by blast
  moreover have inj: "inj_on (\<lambda>(_, u). usuario_email u) (set (db_users db))"
    using assms(1) by (simp add: distinct_map)
  ultimately have "(k, u) = (k', u')"
    using assms(2,3) inj_onD [OF inj, of "(k, u)" "(k', u')"] by simp
  with k' show ?thesis by simp
qed

end
