(* ===== verification/JsNumber.thy ===== *)
theory JsNumber
  imports Prelude
begin

text \<open>
  JavaScript's \<open>Number(string)\<close> (ECMAScript StringToNumber), the conversion the
  validation schemas and the result card apply to amounts typed as strings. The result is
  a finite rational, one of the infinities, or NaN. Covered: white space trimmed at both
  ends (ASCII white space), the empty string read as 0, an optional sign before a decimal
  literal with optional fraction and exponent or before \<open>Infinity\<close>, and the unsigned
  \<open>0x\<close>/\<open>0o\<close>/\<open>0b\<close> integer literals. Rounding to the nearest double, and the
  overflow of literals beyond the double range to an infinity, are not modelled.
\<close>

datatype js_num = JsFinite rat | JsInfinity | JsNegInfinity | JsNaN

definition js_is_digit :: "char \<Rightarrow> bool" where
  "js_is_digit c \<longleftrightarrow> (48::nat) \<le> of_char c \<and> (of_char c :: nat) \<le> 57"

text \<open>Value of a digit in base 16 (also used for bases 2 and 8), if it is one.\<close>

definition hex_digit :: "char \<Rightarrow> int option" where
  "hex_digit c =
     (let n = (of_char c :: int)
      in if 48 \<le> n \<and> n \<le> 57 then Some (n - 48)
         else if 97 \<le> n \<and> n \<le> 102 then Some (n - 87)
         else if 65 \<le> n \<and> n \<le> 70 then Some (n - 55)
         else None)"

fun digits_in_base :: "int \<Rightarrow> int \<Rightarrow> string \<Rightarrow> int option" where
  "digits_in_base b acc [] = Some acc"
| "digits_in_base b acc (c # cs) =
     (case hex_digit c of
        Some d \<Rightarrow> if d < b then digits_in_base b (b * acc + d) cs else None
      | None \<Rightarrow> None)"

definition decimal_value :: "string \<Rightarrow> int" where
  "decimal_value ds = foldl (\<lambda>n c. 10 * n + (of_char c - 48)) 0 ds"

definition js_exponent :: "string \<Rightarrow> int option" where
  "js_exponent s =
     (let (sgn, ds) = (case s of
                         CHR ''+'' # t \<Rightarrow> (1::int, t)
                       | CHR ''-'' # t \<Rightarrow> (-1, t)
                       | _ \<Rightarrow> (1, s))
      in if ds \<noteq> [] \<and> list_all js_is_digit ds then Some (sgn * decimal_value ds) else None)"

definition scale10 :: "rat \<Rightarrow> int \<Rightarrow> rat" where
  "scale10 q k = (if 0 \<le> k then q * 10 ^ nat k else q / 10 ^ nat (- k))"

text \<open>StrUnsignedDecimalLiteral: \<open>Infinity\<close>, or digits with an optional fraction and exponent.\<close>

definition js_unsigned_decimal :: "string \<Rightarrow> js_num" where
  "js_unsigned_decimal s =
     (if s = ''Infinity'' then JsInfinity
      else
        let ip = takeWhile js_is_digit s;
            r = dropWhile js_is_digit s;
            (fp, r') = (case r of
                          CHR ''.'' # t \<Rightarrow> (takeWhile js_is_digit t, dropWhile js_is_digit t)
                        | _ \<Rightarrow> ([], r));
            mant = of_int (decimal_value (ip @ fp)) / 10 ^ length fp
        in if ip = [] \<and> fp = [] then JsNaN
           else case r' of
                  [] \<Rightarrow> JsFinite mant
                | c # e \<Rightarrow>
                    if c = CHR ''e'' \<or> c = CHR ''E''
                    then (case js_exponent e of Some k \<Rightarrow> JsFinite (scale10 mant k) | None \<Rightarrow> JsNaN)
                    else JsNaN)"

text \<open>NonDecimalIntegerLiteral: \<open>0x\<close>, \<open>0o\<close>, \<open>0b\<close> and at least one digit of the base.\<close>

definition js_non_decimal :: "string \<Rightarrow> js_num option" where
  "js_non_decimal s =
     (case s of
        CHR ''0'' # p # ds \<Rightarrow>
          (let b = (if p \<in> {CHR ''x'', CHR ''X''} then 16
                    else if p \<in> {CHR ''o'', CHR ''O''} then 8
                    else if p \<in> {CHR ''b'', CHR ''B''} then 2 else 0)
           in if b = 0 then None
              else if ds = [] then Some JsNaN
              else Some (case digits_in_base b 0 ds of Some n \<Rightarrow> JsFinite (of_int n) | None \<Rightarrow> JsNaN))
      | _ \<Rightarrow> None)"

fun js_negate :: "js_num \<Rightarrow> js_num" where
  "js_negate (JsFinite q) = JsFinite (- q)"
| "js_negate JsInfinity = JsNegInfinity"
| "js_negate JsNegInfinity = JsInfinity"
| "js_negate JsNaN = JsNaN"

definition js_Number :: "string \<Rightarrow> js_num" where
  "js_Number str =
     (let s = js_trim str
      in if s = [] then JsFinite 0
         else case js_non_decimal s of
                Some n \<Rightarrow> n
              | None \<Rightarrow> (case s of
                           CHR ''+'' # t \<Rightarrow> js_unsigned_decimal t
                         | CHR ''-'' # t \<Rightarrow> js_negate (js_unsigned_decimal t)
                         | _ \<Rightarrow> js_unsigned_decimal s))"

text \<open>\<open>isNaN\<close> and the comparison \<open>n > 0\<close> on the result.\<close>

definition js_isNaN :: "js_num \<Rightarrow> bool" where
  "js_isNaN n \<longleftrightarrow> n = JsNaN"

fun js_gt_zero :: "js_num \<Rightarrow> bool" where
  "js_gt_zero (JsFinite q) = (0 < q)"
| "js_gt_zero JsInfinity = True"
| "js_gt_zero JsNegInfinity = False"
| "js_gt_zero JsNaN = False"

subsection \<open>Reading back printed decimals\<close>

lemma digit_char_valor:
  assumes "d < 10"
  shows "(of_char (digit_char d) :: int) = 48 + int d" and "js_is_digit (digit_char d)"
proof -
  have "d \<in> {0, 1, 2, 3, 4, 5, 6, 7, 8, 9}" using assms by auto
  then show "(of_char (digit_char d) :: int) = 48 + int d" and "js_is_digit (digit_char d)"
    by (auto simp: digit_char_def js_is_digit_def)
qed

lemma decimal_value_snoc: "decimal_value (ds @ [c]) = 10 * decimal_value ds + (of_char c - 48)"
  by (simp add: decimal_value_def)

lemma js_digits_digitos: "js_digits n \<noteq> [] \<and> list_all js_is_digit (js_digits n) \<and> decimal_value (js_digits n) = int n"
proof (induction n rule: js_digits.induct)
  case (1 n)
  show ?case
  proof (cases "n < 10")
    case True
    then show ?thesis
      by (simp add: js_digits.simps decimal_value_def digit_char_valor)
  next
    case False
    have "n = 10 * (n div 10) + n mod 10" by simp
    then have "int n = 10 * int (n div 10) + int (n mod 10)" by linarith
    with False 1 show ?thesis
      by (simp add: js_digits.simps [of n] decimal_value_snoc digit_char_valor)
  qed
qed

lemma js_espacos_digito:
  "js_is_digit c \<or> c = CHR ''-'' \<Longrightarrow> \<forall>w \<in> set js_espacos. hd w \<noteq> c \<and> last w \<noteq> c"
  by (auto simp: js_espacos_def js_is_digit_def)

lemma js_non_decimal_Cons:
  "js_non_decimal (c # t) = (if c = CHR ''0'' then js_non_decimal (CHR ''0'' # t) else None)"
  by (cases c; cases t) (simp_all add: js_non_decimal_def split: bool.split)

lemma js_non_decimal_zero:
  assumes "p \<notin> {CHR ''x'', CHR ''X'', CHR ''o'', CHR ''O'', CHR ''b'', CHR ''B''}"
  shows "js_non_decimal (CHR ''0'' # p # ds) = None"
  using assms unfolding js_non_decimal_def by (simp add: Let_def)

lemma js_non_decimal_fixo:
  assumes "list_all (\<lambda>c. js_is_digit c \<or> c = CHR ''.'') s"
  shows "js_non_decimal s = None"
proof (cases s)
  case (Cons c t)
  show ?thesis
  proof (cases "c = CHR ''0''")
    case True
    show ?thesis
    proof (cases t)
      case (Cons p ds)
      have "js_is_digit p \<or> p = CHR ''.''" using assms by (simp add: \<open>s = c # t\<close> Cons)
      then have "p \<notin> {CHR ''x'', CHR ''X'', CHR ''o'', CHR ''O'', CHR ''b'', CHR ''B''}"
        by (auto simp: js_is_digit_def)
      then show ?thesis using js_non_decimal_zero by (simp add: \<open>s = c # t\<close> Cons True)
    qed (simp add: \<open>s = c # t\<close> True js_non_decimal_def)
  qed (simp add: \<open>s = c # t\<close> js_non_decimal_Cons)
qed (simp add: js_non_decimal_def)

lemma js_unsigned_decimal_fixo:
  assumes "ds \<noteq> []" and "list_all js_is_digit ds" and "js_is_digit d"
  shows "js_unsigned_decimal (ds @ CHR ''.'' # [d]) = JsFinite (of_int (decimal_value (ds @ [d])) / 10)"
proof -
  have ponto: "\<not> js_is_digit (CHR ''.'')" and i: "\<not> js_is_digit (CHR ''I'')"
    by (simp_all add: js_is_digit_def)
  have "ds @ CHR ''.'' # [d] \<noteq> ''Infinity''"
    using assms(1,2) i by (cases ds) auto
  moreover have "takeWhile js_is_digit (ds @ CHR ''.'' # [d]) = ds"
    using assms(2) ponto by (simp add: list_all_iff takeWhile_append2)
  moreover have "dropWhile js_is_digit (ds @ CHR ''.'' # [d]) = CHR ''.'' # [d]"
    using assms(2) ponto by (simp add: list_all_iff dropWhile_append2)
  ultimately show ?thesis using assms(1,3) by (simp add: js_unsigned_decimal_def Let_def)
qed

lemma js_Number_Cons:
  assumes "js_trim s = c # t"
  shows "js_Number s =
           (case js_non_decimal (c # t) of
              Some n \<Rightarrow> n
            | None \<Rightarrow> if c = CHR ''+'' then js_unsigned_decimal t
                      else if c = CHR ''-'' then js_negate (js_unsigned_decimal t)
                      else js_unsigned_decimal (c # t))"
  using assms by (cases c) (auto simp: js_Number_def Let_def split: bool.split option.split)

text \<open>
  The round trip of the two conversions: the text \<open>toFixed(1)\<close> prints, read back by
  \<open>Number()\<close>, is a multiple of a tenth within a twentieth of the printed value.
\<close>

lemma toFixed1_Number:
  "\<exists>q. js_Number (js_toFixed1 x) = JsFinite q \<and> \<bar>q - x\<bar> \<le> 1 / 20 \<and> (\<exists>k :: int. q = of_int k / 10)"
proof -
  define n where "n = nat \<lfloor>\<bar>x\<bar> * 10 + 1 / 2\<rfloor>"
  define ds where "ds = js_digits (n div 10)"
  define s where "s = ds @ CHR ''.'' # [digit_char (n mod 10)]"
  have ds: "ds \<noteq> []" "list_all js_is_digit ds" "decimal_value ds = int (n div 10)"
    using js_digits_digitos unfolding ds_def by blast+
  have d: "js_is_digit (digit_char (n mod 10))" "(of_char (digit_char (n mod 10)) :: int) = 48 + int (n mod 10)"
    by (simp_all add: digit_char_valor)
  have "n = 10 * (n div 10) + n mod 10" by simp
  then have e: "int n = 10 * int (n div 10) + int (n mod 10)" by linarith
  have dv: "decimal_value (ds @ [digit_char (n mod 10)]) = int n"
    by (simp add: decimal_value_snoc ds(3) d(2) e)
  have u: "js_unsigned_decimal s = JsFinite (of_nat n / 10)"
    using js_unsigned_decimal_fixo [OF ds(1,2) d(1)] dv by (simp add: s_def)
  have todos: "list_all (\<lambda>c. js_is_digit c \<or> c = CHR ''.'') s"
    using ds(2) d(1) by (simp add: s_def list_all_iff)
  obtain c t where ct: "s = c # t" and c: "js_is_digit c"
    using ds(1,2) by (cases ds) (auto simp: s_def)
  have l: "last s = digit_char (n mod 10)" by (simp add: s_def)
  have sp: "js_trim s = s"
    using js_trim_id [of s] js_espacos_digito [of c] js_espacos_digito [of "last s"] c d(1) ct l by auto
  have sp': "js_trim (CHR ''-'' # s) = CHR ''-'' # s"
    using js_trim_id [of "CHR ''-'' # s"] js_espacos_digito [of "CHR ''-''"] js_espacos_digito [of "last s"]
      d(1) ct l by auto
  have cs: "c \<noteq> CHR ''+''" "c \<noteq> CHR ''-''" using c by (auto simp: js_is_digit_def)
  have pos: "js_Number s = JsFinite (of_nat n / 10)"
    using js_Number_Cons [of s c t] sp js_non_decimal_fixo [OF todos] u ct cs
    by simp
  have neg: "js_Number (''-'' @ s) = JsFinite (- (of_nat n / 10))"
    using js_Number_Cons [of "CHR ''-'' # s" "CHR ''-''" s] sp' u
    by (simp add: js_non_decimal_Cons)
  have t: "js_toFixed1 x = (if x < 0 then ''-'' @ s else s)"
    by (simp add: js_toFixed1_def Let_def n_def s_def ds_def)
  have b: "of_int \<lfloor>\<bar>x\<bar> * 10 + 1 / 2\<rfloor> \<le> \<bar>x\<bar> * 10 + 1 / 2"
          "\<bar>x\<bar> * 10 + 1 / 2 < of_int \<lfloor>\<bar>x\<bar> * 10 + 1 / 2\<rfloor> + 1"
    by linarith+
  have nn: "(of_nat n :: rat) = of_int \<lfloor>\<bar>x\<bar> * 10 + 1 / 2\<rfloor>"
    unfolding n_def by (rule of_nat_nat) (simp add: add_nonneg_nonneg)
  show ?thesis
  proof (cases "x < 0")
    case True
    have "\<bar>- (of_nat n / 10) - x\<bar> \<le> 1 / 20" using True b nn by (simp add: abs_if) linarith
    moreover have "js_Number (js_toFixed1 x) = JsFinite (- (of_nat n / 10))" using True t neg by simp
    moreover have "- (of_nat n / 10) = of_int (- int n) / (10 :: rat)" by simp
    ultimately show ?thesis by blast
  next
    case False
    have "\<bar>of_nat n / 10 - x\<bar> \<le> 1 / 20" using False b nn by (simp add: abs_if) linarith
    moreover have "js_Number (js_toFixed1 x) = JsFinite (of_nat n / 10)" using False t pos by simp
    moreover have "of_nat n / 10 = of_int (int n) / (10 :: rat)" by simp
    ultimately show ?thesis by blast
  qed
qed

end
