(* ===== verification/Validation.thy ===== *)
theory Validation
  imports JsNumber Risk
begin

text \<open>
  The zod schemas of \<open>src/lib/zodSchema.ts\<close> and of
  \<open>src/app/(private)/profile/actions.ts\<close>. A schema is modelled by the list of issue
  messages it reports, in zod's order (the keys of the object shape in order, the checks
  of a key in order); the empty list is success, \<open>safeParse(...).success\<close>, and the
  head of the list is \<open>error.issues[0].message\<close>. zod version 3 semantics: all string
  checks of a key run; a refinement runs unless an earlier issue aborted the object (a
  failed enum does, a failed length check does not). \<open>.email()\<close> is the library's
  own pattern, a parameter \<open>email_ok\<close> of the schemas that check it. Lengths are
  JavaScript lengths (\<open>js_length\<close>), numbers go through \<open>js_Number\<close>.
\<close>

subsection \<open>Form values\<close>

record AtivoSchemaType =
  ativo :: string
  risco_form :: string
  valorInvestido_form :: string

record OrdemFormValues =
  ordem_form_ativo :: string
  ordem_form_risco :: string
  ordem_form_valor :: string

record LoginSchemaType =
  login_email :: string
  login_password :: string

record SignupSchemaType =
  signup_name :: string
  signup_email :: string
  signup_perfilInvestidor :: string
  signup_password :: string
  signup_confirmPassword :: string

subsection \<open>Messages\<close>

definition msg_email_invalido :: string where [msg_defs]:
  "msg_email_invalido = ''E-mail inv'' @ a_agudo @ ''lido''"
definition msg_senha_curta :: string where [msg_defs]:
  "msg_senha_curta = ''A senha deve ter pelo menos 8 caracteres''"
definition msg_nome_curto :: string where [msg_defs]:
  "msg_nome_curto = ''O nome deve ter pelo menos 2 caracteres''"
definition msg_selecione_perfil :: string where [msg_defs]:
  "msg_selecione_perfil = ''Selecione um perfil de investidor''"
definition msg_senhas_diferentes :: string where [msg_defs]:
  "msg_senhas_diferentes = ''As senhas n'' @ a_til @ ''o coincidem''"
definition msg_ativo_curto :: string where [msg_defs]:
  "msg_ativo_curto = ''O nome do ativo deve ter pelo menos 2 caracteres''"
definition msg_ativo_longo :: string where [msg_defs]:
  "msg_ativo_longo = ''O nome do ativo deve ter no m'' @ a_agudo @ ''ximo 50 caracteres''"
definition msg_selecione_risco :: string where [msg_defs]:
  "msg_selecione_risco = ''Selecione um n'' @ i_agudo @ ''vel de risco''"
definition msg_informe_valor_investido :: string where [msg_defs]:
  "msg_informe_valor_investido = ''Informe o valor investido''"
definition msg_informe_valor_ordem :: string where [msg_defs]:
  "msg_informe_valor_ordem = ''Informe o valor da ordem''"
definition msg_valor_positivo :: string where [msg_defs]:
  "msg_valor_positivo = ''O valor deve ser um n'' @ u_agudo @ ''mero positivo''"
definition msg_nome_longo :: string where [msg_defs]:
  "msg_nome_longo = ''O nome deve ter no m'' @ a_agudo @ ''ximo 100 caracteres''"
definition msg_perfil_valido :: string where [msg_defs]:
  "msg_perfil_valido = ''Selecione um perfil v'' @ a_agudo @ ''lido''"

subsection \<open>Checks\<close>

definition issue_if :: "bool \<Rightarrow> string \<Rightarrow> string list" where
  "issue_if ok msg = (if ok then [] else [msg])"

text \<open>The refinement \<open>!isNaN(Number(val)) && Number(val) > 0\<close>.\<close>

definition valor_positivo :: "string \<Rightarrow> bool" where
  "valor_positivo val \<longleftrightarrow> \<not> js_isNaN (js_Number val) \<and> js_gt_zero (js_Number val)"

subsection \<open>The schemas\<close>

definition loginSchema_issues :: "(string \<Rightarrow> bool) \<Rightarrow> LoginSchemaType \<Rightarrow> string list" where
  "loginSchema_issues email_ok v =
     issue_if (email_ok (login_email v)) msg_email_invalido
     @ issue_if (8 \<le> js_length (login_password v)) msg_senha_curta"

definition signupSchema_issues :: "(string \<Rightarrow> bool) \<Rightarrow> SignupSchemaType \<Rightarrow> string list" where
  "signupSchema_issues email_ok v =
     (let perfil_ok = signup_perfilInvestidor v \<in> set perfilInvestidorOpcoes;
          campos = issue_if (2 \<le> js_length (signup_name v)) msg_nome_curto
                   @ issue_if (email_ok (signup_email v)) msg_email_invalido
                   @ issue_if perfil_ok msg_selecione_perfil
                   @ issue_if (8 \<le> js_length (signup_password v)) msg_senha_curta
      in if perfil_ok
         then campos @ issue_if (signup_password v = signup_confirmPassword v) msg_senhas_diferentes
         else campos)"

definition ativoSchema_issues :: "AtivoSchemaType \<Rightarrow> string list" where
  "ativoSchema_issues v =
     issue_if (2 \<le> js_length (ativo v)) msg_ativo_curto
     @ issue_if (js_length (ativo v) \<le> 50) msg_ativo_longo
     @ issue_if (risco_form v \<in> set ativoRisco) msg_selecione_risco
     @ issue_if (1 \<le> js_length (valorInvestido_form v)) msg_informe_valor_investido
     @ issue_if (valor_positivo (valorInvestido_form v)) msg_valor_positivo"

definition ordemSchema_issues :: "OrdemFormValues \<Rightarrow> string list" where
  "ordemSchema_issues v =
     issue_if (2 \<le> js_length (ordem_form_ativo v)) msg_ativo_curto
     @ issue_if (js_length (ordem_form_ativo v) \<le> 50) msg_ativo_longo
     @ issue_if (ordem_form_risco v \<in> set ordemRisco) msg_selecione_risco
     @ issue_if (1 \<le> js_length (ordem_form_valor v)) msg_informe_valor_ordem
     @ issue_if (valor_positivo (ordem_form_valor v)) msg_valor_positivo"

text \<open>The three schemas of the profile actions (profile/actions.ts, lines 9--26).\<close>

definition updateNameSchema_issues :: "string \<Rightarrow> string list" where
  "updateNameSchema_issues name =
     issue_if (2 \<le> js_length name) msg_nome_curto @ issue_if (js_length name \<le> 100) msg_nome_longo"

definition updateEmailSchema_issues :: "(string \<Rightarrow> bool) \<Rightarrow> string \<Rightarrow> string list" where
  "updateEmailSchema_issues email_ok email = issue_if (email_ok email) msg_email_invalido"

definition updatePerfilSchema_issues :: "string \<Rightarrow> string list" where
  "updatePerfilSchema_issues perfil =
     issue_if (perfil \<in> {''Conservador'', ''Moderado'', ''Arrojado''}) msg_perfil_valido"

subsection \<open>Lemmas\<close>

lemma issue_if_Nil [simp]: "issue_if ok msg = [] \<longleftrightarrow> ok"
  by (simp add: issue_if_def)

lemma ativoSchema_ok:
  "ativoSchema_issues v = [] \<longleftrightarrow>
     2 \<le> js_length (ativo v) \<and> js_length (ativo v) \<le> 50 \<and> risco_form v \<in> set ativoRisco \<and>
     1 \<le> js_length (valorInvestido_form v) \<and> valor_positivo (valorInvestido_form v)"
  by (simp add: ativoSchema_issues_def)

lemma ordemSchema_ok:
  "ordemSchema_issues v = [] \<longleftrightarrow>
     2 \<le> js_length (ordem_form_ativo v) \<and> js_length (ordem_form_ativo v) \<le> 50 \<and>
     ordem_form_risco v \<in> set ordemRisco \<and>
     1 \<le> js_length (ordem_form_valor v) \<and> valor_positivo (ordem_form_valor v)"
  by (simp add: ordemSchema_issues_def)

lemma valor_positivo_cases:
  "valor_positivo s \<longleftrightarrow> (\<exists>q. js_Number s = JsFinite q \<and> 0 < q) \<or> js_Number s = JsInfinity"
  by (cases "js_Number s") (simp_all add: valor_positivo_def js_isNaN_def)

subsection \<open>Properties of the schemas\<close>

text \<open>The order schema accepts amounts that are not positive decimals: the strings Infinity and 0x10 pass it, and Number() reads the first as Infinity.\<close>

lemma ordemSchema_aceita_nao_decimal:
  "ordemSchema_issues \<lparr>ordem_form_ativo = ''PETR4'', ordem_form_risco = ''Alto'', ordem_form_valor = ''Infinity''\<rparr> = [] \<and>
   ordemSchema_issues \<lparr>ordem_form_ativo = ''PETR4'', ordem_form_risco = ''Alto'', ordem_form_valor = ''0x10''\<rparr> = [] \<and>
   js_Number ''Infinity'' = JsInfinity"
  by code_simp

end
