(* ===== verification/AssetActions.thy ===== *)
theory AssetActions
  imports Database Validation
begin

text \<open>
  The asset server actions of \<open>src/app/(private)/actions.ts\<close>. Both call
  \<open>requireUser\<close> before their \<open>try\<close>, so a missing session throws the redirect to
  \<open>/login\<close>; every other failure is caught and returned as an \<open>ApiResponse\<close> with
  status error. \<open>createAtivo\<close> validates with \<open>ativoSchema\<close> and inserts a row owned
  by the session user; \<open>deleteAtivo\<close> looks the asset up and deletes it only when the
  session user owns it. A successful write revalidates \<open>/\<close>. The amount stored in the
  Decimal column is the number the validated string denotes (\<open>prisma_decimal\<close>); a
  string whose \<open>Number\<close> is not finite (\<open>Infinity\<close>, which passes the schema) makes
  the write throw, and so does a string with white space around the number, which
  \<open>Number\<close> ignores and the Decimal parser refuses.
\<close>

datatype ApiResponse = ApiSuccess string | ApiError string

definition msg_dados_invalidos :: string where [msg_defs]:
  "msg_dados_invalidos = ''Dados do formul'' @ a_agudo @ ''rio inv'' @ a_agudo @ ''lidos''"
definition msg_ativo_criado :: string where [msg_defs]:
  "msg_ativo_criado = ''Ativo criado com sucesso''"
definition msg_falha_criar :: string where [msg_defs]:
  "msg_falha_criar = ''Falha ao criar ativo''"
definition msg_ativo_nao_encontrado :: string where [msg_defs]:
  "msg_ativo_nao_encontrado = ''Ativo n'' @ a_til @ ''o encontrado''"
definition msg_sem_permissao :: string where [msg_defs]:
  "msg_sem_permissao =
     ''Voc'' @ e_circunflexo @ '' n'' @ a_til @ ''o tem permiss'' @ a_til @ ''o para deletar este ativo''"
definition msg_ativo_deletado :: string where [msg_defs]:
  "msg_ativo_deletado = ''Ativo deletado com sucesso''"
definition msg_falha_deletar :: string where [msg_defs]:
  "msg_falha_deletar = ''Falha ao deletar ativo''"

definition prisma_decimal :: "string \<Rightarrow> js_number option" where
  "prisma_decimal s =
     (if js_trim s \<noteq> s then None else case js_Number s of JsFinite q \<Rightarrow> Some q | _ \<Rightarrow> None)"

definition novo_ativo :: "AtivoSchemaType \<Rightarrow> js_number \<Rightarrow> user_id \<Rightarrow> AtivoRow" where
  "novo_ativo values valor uid =
     \<lparr>ativo_nome = ativo values, ativo_risco = risco_form values,
      ativo_valorInvestido = valor, ativo_userId = uid\<rparr>"

definition createAtivo ::
  "Falha \<Rightarrow> user_id option \<Rightarrow> AtivoSchemaType \<Rightarrow> Db \<Rightarrow> ApiResponse Resultado \<times> Db" where
  "createAtivo f sessao values db =
     (case requireUser sessao of
        Retorna uid \<Rightarrow>
          if ativoSchema_issues values \<noteq> [] then (Retorna (ApiError msg_dados_invalidos), db)
          else (case prisma_decimal (valorInvestido_form values) of
                  None \<Rightarrow> (Retorna (ApiError msg_falha_criar), db)
                | Some valor \<Rightarrow>
                    if falha_em f 0 then (Retorna (ApiError msg_falha_criar), db)
                    else (Retorna (ApiSuccess msg_ativo_criado),
                          revalidatePath ''/''
                            (db\<lparr>db_ativos := db_ativos db @ [(db_next_ativo db, novo_ativo values valor uid)],
                                db_next_ativo := Suc (db_next_ativo db)\<rparr>)))
      | Redireciona p \<Rightarrow> (Redireciona p, db)
      | Lanca e \<Rightarrow> (Lanca e, db))"

definition deleteAtivo :: "Falha \<Rightarrow> user_id option \<Rightarrow> ativo_id \<Rightarrow> Db \<Rightarrow> ApiResponse Resultado \<times> Db" where
  "deleteAtivo f sessao ativoId db =
     (case requireUser sessao of
        Retorna uid \<Rightarrow>
          if falha_em f 0 then (Retorna (ApiError msg_falha_deletar), db)
          else (case map_of (db_ativos db) ativoId of
                  None \<Rightarrow> (Retorna (ApiError msg_ativo_nao_encontrado), db)
                | Some a \<Rightarrow>
                    if ativo_userId a \<noteq> uid then (Retorna (ApiError msg_sem_permissao), db)
                    else if falha_em f 1 then (Retorna (ApiError msg_falha_deletar), db)
                    else (Retorna (ApiSuccess msg_ativo_deletado),
                          revalidatePath ''/''
                            (db\<lparr>db_ativos := filter (\<lambda>(k, _). k \<noteq> ativoId) (db_ativos db)\<rparr>)))
      | Redireciona p \<Rightarrow> (Redireciona p, db)
      | Lanca e \<Rightarrow> (Lanca e, db))"

subsection \<open>deleteAtivo as two database round trips\<close>

text \<open>
  The read (\<open>findUnique\<close> and the two checks, lines 47--67) and the write (\<open>delete\<close>,
  lines 69--84). Prisma's \<open>delete\<close> throws when no row has the id, and the \<open>catch\<close>
  turns that into the generic error.
\<close>

definition deleteAtivo_verificar ::
  "Falha \<Rightarrow> user_id option \<Rightarrow> ativo_id \<Rightarrow> Db \<Rightarrow> ApiResponse Resultado + ativo_id" where
  "deleteAtivo_verificar f sessao ativoId db =
     (case requireUser sessao of
        Retorna uid \<Rightarrow>
          if falha_em f 0 then Inl (Retorna (ApiError msg_falha_deletar))
          else (case map_of (db_ativos db) ativoId of
                  None \<Rightarrow> Inl (Retorna (ApiError msg_ativo_nao_encontrado))
                | Some a \<Rightarrow>
                    if ativo_userId a \<noteq> uid then Inl (Retorna (ApiError msg_sem_permissao))
                    else Inr ativoId)
      | Redireciona p \<Rightarrow> Inl (Redireciona p)
      | Lanca e \<Rightarrow> Inl (Lanca e))"

definition deleteAtivo_gravar :: "Falha \<Rightarrow> ativo_id \<Rightarrow> Db \<Rightarrow> ApiResponse Resultado \<times> Db" where
  "deleteAtivo_gravar f ativoId db =
     (if falha_em f 1 \<or> map_of (db_ativos db) ativoId = None
      then (Retorna (ApiError msg_falha_deletar), db)
      else (Retorna (ApiSuccess msg_ativo_deletado),
            revalidatePath ''/'' (db\<lparr>db_ativos := filter (\<lambda>(k, _). k \<noteq> ativoId) (db_ativos db)\<rparr>)))"

subsection \<open>The actions keep the store invariant\<close>

lemma prisma_decimal_positivo:
  "valor_positivo s \<Longrightarrow> prisma_decimal s = Some q \<Longrightarrow> 0 < q"
  by (auto simp: valor_positivo_cases prisma_decimal_def split: js_num.splits if_splits)

lemma createAtivo_inv:
  assumes "inv_db db"
  shows "inv_db (snd (createAtivo f s v db))"
proof -
  { fix uid valor
    assume ok: "ativoSchema_issues v = []" and pd: "prisma_decimal (valorInvestido_form v) = Some valor"
    then have "0 < valor" "risco_form v \<in> set ativoRisco"
      using prisma_decimal_positivo by (auto simp: ativoSchema_ok)
    with assms have "inv_db (revalidatePath ''/''
       (db\<lparr>db_ativos := db_ativos db @ [(db_next_ativo db, novo_ativo v valor uid)],
           db_next_ativo := Suc (db_next_ativo db)\<rparr>))"
      using inv_db_frescos(1) [OF assms]
      by (auto simp: inv_db_def novo_ativo_def intro: list_all_fst_less_Suc) }
  then show ?thesis using assms
    by (auto simp: createAtivo_def split: Resultado.splits option.splits)
qed

lemma deleteAtivo_inv:
  "inv_db db \<Longrightarrow> inv_db (snd (deleteAtivo f s k db))"
  by (auto simp: deleteAtivo_def inv_db_def list_all_iff distinct_map_filter
           split: Resultado.splits option.splits)

subsection \<open>Requests of one user leave the assets of the others unchanged\<close>

lemma createAtivo_ativos_outro:
  "s \<noteq> Some u \<Longrightarrow>
   filter (\<lambda>(_, r). ativo_userId r = u) (db_ativos (snd (createAtivo f s v db))) =
   filter (\<lambda>(_, r). ativo_userId r = u) (db_ativos db)"
  by (cases s) (simp_all add: createAtivo_def novo_ativo_def split: option.splits)

lemma deleteAtivo_ativos_outro:
  assumes "inv_db db" and "s \<noteq> Some u"
  shows "filter (\<lambda>(_, r). ativo_userId r = u) (db_ativos (snd (deleteAtivo f s k db))) =
         filter (\<lambda>(_, r). ativo_userId r = u) (db_ativos db)"
proof (cases s)
  case None
  then show ?thesis by (simp add: deleteAtivo_def)
next
  case (Some uid)
  show ?thesis
  proof (cases "map_of (db_ativos db) k")
    case None
    with Some show ?thesis by (simp add: deleteAtivo_def)
  next
    case (Some a)
    have d: "distinct (map fst (db_ativos db))" using assms(1) by (simp add: inv_db_def)
    have "ativo_userId a = uid \<Longrightarrow> \<forall>(k', r) \<in> set (db_ativos db). ativo_userId r = u \<longrightarrow> k' \<noteq> k"
      using map_of_Some_unico [OF d Some] \<open>s = Some uid\<close> assms(2) by auto
    then show ?thesis
      using Some \<open>s = Some uid\<close> by (simp add: deleteAtivo_def filter_apos_remocao del: filter_filter)
  qed
qed

subsection \<open>The two round trips of deleteAtivo\<close>

text \<open>Run back to back, the read and the write are the whole action.\<close>

lemma deleteAtivo_passos:
  "deleteAtivo f s k db =
     (case deleteAtivo_verificar f s k db of Inl r \<Rightarrow> (r, db) | Inr p \<Rightarrow> deleteAtivo_gravar f p db)"
  by (auto simp: deleteAtivo_def deleteAtivo_verificar_def deleteAtivo_gravar_def
      split: Resultado.splits option.splits)

lemma deleteAtivo_gravar_inv:
  "inv_db db \<Longrightarrow> inv_db (snd (deleteAtivo_gravar f k db))"
  by (auto simp: deleteAtivo_gravar_def inv_db_def list_all_iff distinct_map_filter)

end
