(* ===== verification/ProfileActions.thy ===== *)
theory ProfileActions
  imports Database Validation AssetActions
begin

text \<open>
  The profile server actions of \<open>src/app/(private)/profile/actions.ts\<close>. Unlike the
  asset actions they call \<open>requireUser\<close> inside their \<open>try\<close>: the redirect error
  thrown for a missing session is caught, is not a \<open>ZodError\<close>, and becomes the
  action's generic error message. A \<open>ZodError\<close> returns the first issue's message.
  \<open>prisma.user.update\<close> throws when the user row does not exist.
  \<open>updateEmail\<close> first looks the new address up and refuses it when another user has it.
\<close>

definition msg_nome_ok :: string where [msg_defs]:
  "msg_nome_ok = ''Nome atualizado com sucesso!''"
definition msg_erro_nome :: string where [msg_defs]:
  "msg_erro_nome = ''Erro ao atualizar nome. Tente novamente.''"
definition msg_email_em_uso :: string where [msg_defs]:
  "msg_email_em_uso = ''Este email j'' @ a_agudo @ '' est'' @ a_agudo @ '' em uso.''"
definition msg_email_ok :: string where [msg_defs]:
  "msg_email_ok = ''E-mail atualizado com sucesso!''"
definition msg_erro_email :: string where [msg_defs]:
  "msg_erro_email = ''Erro ao atualizar email. Tente novamente.''"
definition msg_perfil_ok :: string where [msg_defs]:
  "msg_perfil_ok = ''Perfil de investidor atualizado com sucesso!''"
definition msg_erro_perfil :: string where [msg_defs]:
  "msg_erro_perfil = ''Erro ao atualizar perfil. Tente novamente.''"

definition updateName :: "Falha \<Rightarrow> user_id option \<Rightarrow> string \<Rightarrow> Db \<Rightarrow> ApiResponse \<times> Db" where
  "updateName f sessao name db =
     (case requireUser sessao of
        Retorna uid \<Rightarrow>
          (case updateNameSchema_issues name of
             m # _ \<Rightarrow> (ApiError m, db)
           | [] \<Rightarrow>
               if falha_em f 0 \<or> usuario_por_id db uid = None then (ApiError msg_erro_nome, db)
               else (ApiSuccess msg_nome_ok,
                     revalidatePath ''/profile''
                       (atualizar_usuario uid (\<lambda>u. u\<lparr>usuario_name := name\<rparr>) db)))
      | _ \<Rightarrow> (ApiError msg_erro_nome, db))"

definition updateEmail ::
  "(string \<Rightarrow> bool) \<Rightarrow> Falha \<Rightarrow> user_id option \<Rightarrow> string \<Rightarrow> Db \<Rightarrow> ApiResponse \<times> Db" where
  "updateEmail email_ok f sessao email db =
     (case requireUser sessao of
        Retorna uid \<Rightarrow>
          (case updateEmailSchema_issues email_ok email of
             m # _ \<Rightarrow> (ApiError m, db)
           | [] \<Rightarrow>
               if falha_em f 0 then (ApiError msg_erro_email, db)
               else if (case usuario_por_email db email of Some k \<Rightarrow> k \<noteq> uid | None \<Rightarrow> False)
               then (ApiError msg_email_em_uso, db)
               else if falha_em f 1 \<or> usuario_por_id db uid = None then (ApiError msg_erro_email, db)
               else (ApiSuccess msg_email_ok,
                     revalidatePath ''/profile''
                       (atualizar_usuario uid (\<lambda>u. u\<lparr>usuario_email := email\<rparr>) db)))
      | _ \<Rightarrow> (ApiError msg_erro_email, db))"

definition updatePerfilInvestidor ::
  "Falha \<Rightarrow> user_id option \<Rightarrow> string \<Rightarrow> Db \<Rightarrow> ApiResponse \<times> Db" where
  "updatePerfilInvestidor f sessao perfil db =
     (case requireUser sessao of
        Retorna uid \<Rightarrow>
          (case updatePerfilSchema_issues perfil of
             m # _ \<Rightarrow> (ApiError m, db)
           | [] \<Rightarrow>
               if falha_em f 0 \<or> usuario_por_id db uid = None then (ApiError msg_erro_perfil, db)
               else (ApiSuccess msg_perfil_ok,
                     revalidatePath ''/'' (revalidatePath ''/profile''
                       (atualizar_usuario uid (\<lambda>u. u\<lparr>usuario_perfilInvestidor := perfil\<rparr>) db))))
      | _ \<Rightarrow> (ApiError msg_erro_perfil, db))"

subsection \<open>updateEmail as two database round trips\<close>

text \<open>
  \<open>updateEmail\<close> reads (\<open>findUnique\<close> by e-mail, lines 64--79) and then writes
  (\<open>update\<close>, lines 81--92); requests of other clients may run between the two. The
  first step ends the action with a response (\<open>Inl\<close>) or leaves the write to do
  (\<open>Inr\<close>). The write fails, and the catch returns the generic message, when the
  database refuses it: a fault, a missing row, or the unique constraint on the users'
  e-mail column (better-auth's schema, not among the sources) when another user holds the
  address by then.
\<close>

definition updateEmail_verificar ::
  "(string \<Rightarrow> bool) \<Rightarrow> Falha \<Rightarrow> user_id option \<Rightarrow> string \<Rightarrow> Db \<Rightarrow> ApiResponse + (user_id \<times> string)" where
  "updateEmail_verificar email_ok f sessao email db =
     (case requireUser sessao of
        Retorna uid \<Rightarrow>
          (case updateEmailSchema_issues email_ok email of
             m # _ \<Rightarrow> Inl (ApiError m)
           | [] \<Rightarrow>
               if falha_em f 0 then Inl (ApiError msg_erro_email)
               else if (case usuario_por_email db email of Some k \<Rightarrow> k \<noteq> uid | None \<Rightarrow> False)
               then Inl (ApiError msg_email_em_uso)
               else Inr (uid, email))
      | _ \<Rightarrow> Inl (ApiError msg_erro_email))"

definition email_de_outro :: "Db \<Rightarrow> user_id \<Rightarrow> string \<Rightarrow> bool" where
  "email_de_outro db uid email = list_ex (\<lambda>(k, u). k \<noteq> uid \<and> usuario_email u = email) (db_users db)"

definition updateEmail_gravar :: "Falha \<Rightarrow> user_id \<times> string \<Rightarrow> Db \<Rightarrow> ApiResponse \<times> Db" where
  "updateEmail_gravar f p db =
     (let (uid, email) = p
      in if falha_em f 1 \<or> usuario_por_id db uid = None \<or> email_de_outro db uid email
         then (ApiError msg_erro_email, db)
         else (ApiSuccess msg_email_ok,
               revalidatePath ''/profile'' (atualizar_usuario uid (\<lambda>u. u\<lparr>usuario_email := email\<rparr>) db)))"

subsection \<open>The actions keep the store invariant\<close>

lemma updateName_inv:
  "inv_db db \<Longrightarrow> inv_db (snd (updateName f s n db))"
  by (auto simp: updateName_def intro: inv_db_atualizar_usuario
           split: Resultado.splits list.splits)

lemma updatePerfilInvestidor_inv:
  "inv_db db \<Longrightarrow> inv_db (snd (updatePerfilInvestidor f s p db))"
  by (auto simp: updatePerfilInvestidor_def intro: inv_db_atualizar_usuario
           split: Resultado.splits list.splits)

lemma updateEmail_inv:
  "inv_db db \<Longrightarrow> inv_db (snd (updateEmail e f s m db))"
  by (auto simp: updateEmail_def intro: inv_db_atualizar_email
           split: Resultado.splits list.splits option.splits if_splits)

subsection \<open>The profile actions do not touch the assets\<close>

lemma updateName_ativos [simp]: "db_ativos (snd (updateName f s n db)) = db_ativos db"
  by (simp add: updateName_def split: Resultado.splits list.splits)

lemma updateEmail_ativos [simp]: "db_ativos (snd (updateEmail e f s m db)) = db_ativos db"
  by (simp add: updateEmail_def split: Resultado.splits list.splits)

lemma updatePerfilInvestidor_ativos [simp]:
  "db_ativos (snd (updatePerfilInvestidor f s p db)) = db_ativos db"
  by (simp add: updatePerfilInvestidor_def split: Resultado.splits list.splits)

subsection \<open>The two steps of updateEmail\<close>

text \<open>Run back to back on a consistent store, the two steps are the action.\<close>

lemma updateEmail_passos:
  assumes "inv_db db"
  shows "updateEmail e f s m db =
           (case updateEmail_verificar e f s m db of Inl r \<Rightarrow> (r, db) | Inr p \<Rightarrow> updateEmail_gravar f p db)"
proof (cases s)
  case None
  then show ?thesis by (simp add: updateEmail_def updateEmail_verificar_def)
next
  case (Some uid)
  have d: "distinct (map (\<lambda>(_, u). usuario_email u) (db_users db))" using assms by (simp add: inv_db_def)
  have "\<not> email_de_outro db uid m"
    if "case usuario_por_email db m of Some k \<Rightarrow> k = uid | None \<Rightarrow> True"
    using email_livre [OF d that] by (auto simp: email_de_outro_def list_ex_iff)
  with Some show ?thesis
    by (auto simp: updateEmail_def updateEmail_verificar_def updateEmail_gravar_def
        split: list.splits option.splits)
qed

text \<open>The write alone keeps the store invariant, whatever ran since the read.\<close>

lemma updateEmail_gravar_inv:
  assumes "inv_db db"
  shows "inv_db (snd (updateEmail_gravar f p db))"
proof -
  obtain uid m where p: "p = (uid, m)" by (cases p)
  have "inv_db (atualizar_usuario uid (\<lambda>u. u\<lparr>usuario_email := m\<rparr>) db)" if "\<not> email_de_outro db uid m"
  proof (rule inv_db_atualizar_email [OF assms])
    show "case usuario_por_email db m of Some k \<Rightarrow> k = uid | None \<Rightarrow> True"
    proof (cases "usuario_por_email db m")
      case (Some k)
      then obtain u where "(k, u) \<in> set (db_users db)" "usuario_email u = m"
        using usuario_por_email_Some by blast
      with that Some show ?thesis by (auto simp: email_de_outro_def list_ex_iff)
    qed simp
  qed
  with assms p show ?thesis by (simp add: updateEmail_gravar_def)
qed

end
