(* ===== verification/AuthErrors.thy ===== *)
theory AuthErrors
  imports Prelude
begin

text \<open>
  Translation of the authentication library's error messages,
  \<open>src/lib/auth-translations.ts\<close>. \<open>authErrorTranslations\<close> is a plain object used as
  a dictionary; reading \<open>authErrorTranslations[key]\<close> finds an own entry or, for the
  keys of \<open>Object.prototype\<close> (\<open>constructor\<close>, \<open>toString\<close>, ...), an inherited
  function or object, which is truthy. The value of a lookup and the result of the
  translation are therefore JavaScript values (\<open>JsValor\<close>): a string, or a built-in
  inherited from \<open>Object.prototype\<close>, named by its key. \<open>translateAuthError\<close> is the
  exact lookup followed by the chain of keyword tests, in the source's order;
  \<open>getTranslatedAuthError\<close> dispatches on the shape of the thrown value (\<open>ValorJs\<close>:
  null, undefined, a string, a number or an object given by its properties).
\<close>

datatype JsValor = JsStr string | JsNativo string

datatype ValorJs =
    VNulo
  | VIndefinido
  | VTexto string
  | VNumero rat
  | VObjeto "(string \<times> ValorJs) list"

subsection \<open>The dictionary\<close>

definition authErrorTranslations :: "(string \<times> string) list" where
  "authErrorTranslations =
    [(''Invalid credentials'', ''Credenciais inv'' @ a_agudo @ ''lidas''),
     (''Invalid email or password'', ''Email ou senha inv'' @ a_agudo @ ''lidos''),
     (''Email or password is incorrect'', ''Email ou senha incorretos''),
     (''Invalid email'', ''Email inv'' @ a_agudo @ ''lido''),
     (''Invalid password'', ''Senha inv'' @ a_agudo @ ''lida''),
     (''User not found'', ''Usu'' @ a_agudo @ ''rio n'' @ a_til @ ''o encontrado''),
     (''User already exists'', ''Usu'' @ a_agudo @ ''rio j'' @ a_agudo @ '' existe''),
     (''User already exists. Use another email.'', ''Usu'' @ a_agudo @ ''rio j'' @ a_agudo @ '' existe. Use outro email.''),
     (''Email already exists'', ''Este email j'' @ a_agudo @ '' est'' @ a_agudo @ '' em uso''),
     (''Account not found'', ''Conta n'' @ a_til @ ''o encontrada''),
     (''Account already exists'', ''Conta j'' @ a_agudo @ '' existe''),
     (''Password is required'', ''Senha '' @ e_agudo @ '' obrigat'' @ o_agudo @ ''ria''),
     (''Password must be at least 8 characters'', ''Senha deve ter pelo menos 8 caracteres''),
     (''Password too weak'', ''Senha muito fraca''),
     (''Passwords do not match'', ''Senhas n'' @ a_til @ ''o coincidem''),
     (''Invalid password format'', ''Formato de senha inv'' @ a_agudo @ ''lido''),
     (''Email is required'', ''Email '' @ e_agudo @ '' obrigat'' @ o_agudo @ ''rio''),
     (''Invalid email format'', ''Formato de email inv'' @ a_agudo @ ''lido''),
     (''Email already in use'', ''Email j'' @ a_agudo @ '' est'' @ a_agudo @ '' em uso''),
     (''Email verification required'', ''Verifica'' @ c_cedilha @ a_til @ ''o de email obrigat'' @ o_agudo @ ''ria''),
     (''Unauthorized'', ''N'' @ a_til @ ''o autorizado''),
     (''Access denied'', ''Acesso negado''),
     (''Session expired'', ''Sess'' @ a_til @ ''o expirada''),
     (''Invalid session'', ''Sess'' @ a_til @ ''o inv'' @ a_agudo @ ''lida''),
     (''Authentication failed'', ''Falha na autentica'' @ c_cedilha @ a_til @ ''o''),
     (''Token expired'', ''Token expirado''),
     (''Invalid token'', ''Token inv'' @ a_agudo @ ''lido''),
     (''OAuth authentication failed'', ''Falha na autentica'' @ c_cedilha @ a_til @ ''o OAuth''),
     (''Google authentication failed'', ''Falha na autentica'' @ c_cedilha @ a_til @ ''o com Google''),
     (''OAuth provider error'', ''Erro no provedor OAuth''),
     (''Social login failed'', ''Falha no login social''),
     (''Network error'', ''Erro de rede''),
     (''Connection failed'', ''Falha na conex'' @ a_til @ ''o''),
     (''Server error'', ''Erro do servidor''),
     (''Internal server error'', ''Erro interno do servidor''),
     (''Service unavailable'', ''Servi'' @ c_cedilha @ ''o indispon'' @ i_agudo @ ''vel''),
     (''Validation failed'', ''Falha na valida'' @ c_cedilha @ a_til @ ''o''),
     (''Invalid input'', ''Entrada inv'' @ a_agudo @ ''lida''),
     (''Required field missing'', ''Campo obrigat'' @ o_agudo @ ''rio ausente''),
     (''Invalid format'', ''Formato inv'' @ a_agudo @ ''lido''),
     (''Too many requests'', ''Muitas tentativas''),
     (''Rate limit exceeded'', ''Limite de tentativas excedido''),
     (''Too many login attempts'', ''Muitas tentativas de login''),
     (''Something went wrong'', ''Algo deu errado''),
     (''An error occurred'', ''Ocorreu um erro''),
     (''Unknown error'', ''Erro desconhecido''),
     (''Operation failed'', ''Opera'' @ c_cedilha @ a_til @ ''o falhou''),
     (''Request failed'', ''Requisi'' @ c_cedilha @ a_til @ ''o falhou''),
     (''User creation failed'', ''Falha ao criar usu'' @ a_agudo @ ''rio''),
     (''Login failed'', ''Falha no login''),
     (''Registration failed'', ''Falha no registro''),
     (''Account creation failed'', ''Falha ao criar conta''),
     (''Sign up failed'', ''Falha no cadastro''),
     (''Sign in failed'', ''Falha no login''),
     (''Logout failed'', ''Falha no logout''),
     (''Login successful'', ''Login realizado com sucesso''),
     (''Registration successful'', ''Registro realizado com sucesso''),
     (''Account created successfully'', ''Conta criada com sucesso''),
     (''Sign up successful'', ''Cadastro realizado com sucesso''),
     (''Sign in successful'', ''Login realizado com sucesso'')]"

text \<open>The properties every plain object inherits from \<open>Object.prototype\<close>.\<close>

definition object_prototype_keys :: "string list" where
  "object_prototype_keys =
     [''constructor'', ''__defineGetter__'', ''__defineSetter__'', ''hasOwnProperty'',
      ''__lookupGetter__'', ''__lookupSetter__'', ''isPrototypeOf'', ''propertyIsEnumerable'',
      ''toString'', ''valueOf'', ''__proto__'', ''toLocaleString'']"

definition translations_get :: "string \<Rightarrow> JsValor option" where
  "translations_get k =
     (case map_of authErrorTranslations k of
        Some v \<Rightarrow> Some (JsStr v)
      | None \<Rightarrow> if k \<in> set object_prototype_keys then Some (JsNativo k) else None)"

text \<open>JavaScript truthiness of a looked-up value: the empty string is falsy.\<close>

fun js_truthy :: "JsValor \<Rightarrow> bool" where
  "js_truthy (JsStr s) = (s \<noteq> [])"
| "js_truthy (JsNativo _) = True"

subsection \<open>translateAuthError (lines 99--167)\<close>

text \<open>The keyword tests of the fallback, in order, each with its translation.\<close>

definition fallback_regras :: "string \<Rightarrow> (bool \<times> string) list" where
  "fallback_regras low =
    [
     (js_includes low ''invalid credentials'', ''Credenciais inv'' @ a_agudo @ ''lidas''),
     (js_includes low ''user not found'', ''Usu'' @ a_agudo @ ''rio n'' @ a_til @ ''o encontrado''),
     (js_includes low ''email already exists'' \<or> js_includes low ''email already in use'', ''Este email j'' @ a_agudo @ '' est'' @ a_agudo @ '' em uso''),
     (js_includes low ''password'' \<and> js_includes low ''required'', ''Senha '' @ e_agudo @ '' obrigat'' @ o_agudo @ ''ria''),
     (js_includes low ''email'' \<and> js_includes low ''required'', ''Email '' @ e_agudo @ '' obrigat'' @ o_agudo @ ''rio''),
     (js_includes low ''invalid email'', ''Email inv'' @ a_agudo @ ''lido''),
     (js_includes low ''invalid password'', ''Senha inv'' @ a_agudo @ ''lida''),
     (js_includes low ''authentication failed'', ''Falha na autentica'' @ c_cedilha @ a_til @ ''o''),
     (js_includes low ''network error'', ''Erro de rede''),
     (js_includes low ''server error'', ''Erro do servidor''),
     (js_includes low ''unauthorized'', ''N'' @ a_til @ ''o autorizado''),
     (js_includes low ''session expired'', ''Sess'' @ a_til @ ''o expirada''),
     (js_includes low ''google'' \<and> js_includes low ''failed'', ''Falha na autentica'' @ c_cedilha @ a_til @ ''o com Google''),
     (js_includes low ''oauth'' \<and> js_includes low ''failed'', ''Falha na autentica'' @ c_cedilha @ a_til @ ''o OAuth''),
     (js_includes low ''too many requests'', ''Muitas tentativas''),
     (js_includes low ''validation failed'', ''Falha na valida'' @ c_cedilha @ a_til @ ''o'')]"

definition translateAuthError :: "string \<Rightarrow> JsValor" where
  "translateAuthError errorMessage =
     (if errorMessage = [] then JsStr ''Erro desconhecido''
      else
        let normalizedMessage = js_trim errorMessage
        in case translations_get normalizedMessage of
             Some v \<Rightarrow> if js_truthy v then v else JsStr normalizedMessage
           | None \<Rightarrow>
               let lowerMessage = js_toLowerCase normalizedMessage
               in case find fst (fallback_regras lowerMessage) of
                    Some (_, traducao) \<Rightarrow> JsStr traducao
                  | None \<Rightarrow> JsStr normalizedMessage)"

subsection \<open>getTranslatedAuthError (lines 175--220)\<close>

fun js_falsy :: "ValorJs \<Rightarrow> bool" where
  "js_falsy VNulo = True"
| "js_falsy VIndefinido = True"
| "js_falsy (VTexto s) = (s = [])"
| "js_falsy (VNumero q) = (q = 0)"
| "js_falsy (VObjeto _) = False"

definition getTranslatedAuthError :: "ValorJs \<Rightarrow> string \<Rightarrow> JsValor" where
  "getTranslatedAuthError err defaultMessage =
     (if js_falsy err then JsStr defaultMessage
      else case err of
        VTexto s \<Rightarrow> translateAuthError s
      | VObjeto props \<Rightarrow>
          (case map_of props ''message'' of
             Some (VTexto m) \<Rightarrow> translateAuthError m
           | _ \<Rightarrow>
               (case map_of props ''error'' of
                  Some (VObjeto inner) \<Rightarrow>
                    (case map_of inner ''message'' of
                       Some (VTexto m) \<Rightarrow> translateAuthError m
                     | _ \<Rightarrow> JsStr defaultMessage)
                | Some (VTexto e) \<Rightarrow> translateAuthError e
                | _ \<Rightarrow> JsStr defaultMessage))
      | _ \<Rightarrow> JsStr defaultMessage)"

subsection \<open>Lemmas\<close>

lemma authErrorTranslations_wf:
  "distinct (map fst authErrorTranslations)"
  "list_all (\<lambda>(k, v). js_trim k = k \<and> k \<noteq> [] \<and> v \<noteq> [] \<and> k \<notin> set object_prototype_keys)
     authErrorTranslations"
  by code_simp+





lemma translateAuthError_entrada:
  assumes "(k, v) \<in> set authErrorTranslations"
  shows "translateAuthError k = JsStr v"
proof -
  have "map_of authErrorTranslations k = Some v"
    using authErrorTranslations_wf(1) assms by (rule map_of_is_SomeI)
  moreover have "js_trim k = k" and "k \<noteq> []" and "v \<noteq> []"
    using authErrorTranslations_wf(2) assms by (auto simp: list_all_iff)
  ultimately show ?thesis
    by (simp add: translateAuthError_def translations_get_def)
qed

subsection \<open>Properties of the translation\<close>


text \<open>The dictionary lookup authErrorTranslations[key] also finds the keys inherited from Object.prototype: for constructor, toString or __proto__ the function returns that inherited built-in, not a string.\<close>

lemma translateAuthError_prototipo:
  "translateAuthError ''constructor'' = JsNativo ''constructor'' \<and>
   translateAuthError ''toString'' = JsNativo ''toString'' \<and>
   translateAuthError ''__proto__'' = JsNativo ''__proto__''"
  by code_simp

text \<open>getTranslatedAuthError returns the default message for null, undefined and the empty string, translates a non-empty string, an object's string message, a nested error.message or a string error field, and gives the unknown-error text (not the default) for an Error whose message is empty.\<close>

lemma getTranslatedAuthError_formas:
  "getTranslatedAuthError VNulo d = JsStr d \<and>
   getTranslatedAuthError VIndefinido d = JsStr d \<and>
   getTranslatedAuthError (VTexto []) d = JsStr d \<and>
   getTranslatedAuthError (VTexto (c # cs)) d = translateAuthError (c # cs) \<and>
   getTranslatedAuthError (VObjeto ((''message'', VTexto m) # ps)) d = translateAuthError m \<and>
   getTranslatedAuthError (VObjeto [(''error'', VObjeto [(''message'', VTexto m)])]) d =
     translateAuthError m \<and>
   getTranslatedAuthError (VObjeto [(''error'', VTexto e)]) d = translateAuthError e \<and>
   getTranslatedAuthError (VObjeto [(''message'', VTexto [])]) d = JsStr ''Erro desconhecido''"
  by (simp add: getTranslatedAuthError_def translateAuthError_def)

end
