(* ===== verification/AuthActions.thy ===== *)
theory AuthActions
  imports Database AuthErrors
begin

text \<open>
  The authentication server actions of \<open>src/server/users.ts\<close>. \<open>signIn\<close> and
  \<open>signUp\<close> call the authentication library and turn its outcome into
  \<open>{success, message}\<close>, translating a thrown value with \<open>getTranslatedAuthError\<close>.
  The library itself is modelled by its contract on the state this development tracks:
  a call either throws a value the environment chooses (a wrong password, an unreachable
  server, ...), or, for sign-up, throws the library's duplicate-user error when the e-mail
  is already registered, and otherwise inserts the user with the fields it was given.
  Passwords and sessions are kept by the library and are not modelled.
\<close>

definition erro_usuario_existe :: ValorJs where
  "erro_usuario_existe = VObjeto [(''message'', VTexto ''User already exists. Use another email.'')]"

definition signUpEmail_lib ::
  "ValorJs option \<Rightarrow> string \<Rightarrow> string \<Rightarrow> string \<Rightarrow> Db \<Rightarrow> ValorJs + Db" where
  "signUpEmail_lib erro name email perfilInvestidor db =
     (case erro of
        Some err \<Rightarrow> Inl err
      | None \<Rightarrow>
          if usuario_por_email db email \<noteq> None then Inl erro_usuario_existe
          else Inr (db\<lparr>db_users := db_users db @
                         [(db_next_user db, \<lparr>usuario_name = name, usuario_email = email,
                                              usuario_perfilInvestidor = perfilInvestidor\<rparr>)],
                       db_next_user := Suc (db_next_user db)\<rparr>))"

definition signIn :: "ValorJs option \<Rightarrow> string \<Rightarrow> string \<Rightarrow> bool \<times> JsValor" where
  "signIn erro email password =
     (case erro of
        None \<Rightarrow> (True, JsStr ''Login realizado com sucesso'')
      | Some err \<Rightarrow> (False, getTranslatedAuthError err ''Erro ao realizar login''))"

definition signUp ::
  "ValorJs option \<Rightarrow> string \<Rightarrow> string \<Rightarrow> string \<Rightarrow> string \<Rightarrow> Db \<Rightarrow> (bool \<times> JsValor) \<times> Db" where
  "signUp erro name email password perfilInvestidor db =
     (case signUpEmail_lib erro name email perfilInvestidor db of
        Inr db' \<Rightarrow> ((True, JsStr ''Registro realizado com sucesso''), db')
      | Inl err \<Rightarrow> ((False, getTranslatedAuthError err ''Erro ao criar conta''), db))"

subsection \<open>Sign-up keeps the store invariant\<close>

lemma signUp_inv:
  assumes "inv_db db"
  shows "inv_db (snd (signUp err n m pw p db))"
proof -
  { fix db' assume "signUpEmail_lib err n m p db = Inr db'"
    then have "usuario_por_email db m = None"
      and db': "db' = db\<lparr>db_users := db_users db @ [(db_next_user db,
                 \<lparr>usuario_name = n, usuario_email = m, usuario_perfilInvestidor = p\<rparr>)],
                 db_next_user := Suc (db_next_user db)\<rparr>"
      by (auto simp: signUpEmail_lib_def split: option.splits if_splits)
    then have "\<forall>(k, u) \<in> set (db_users db). usuario_email u \<noteq> m"
      by (simp add: usuario_por_email_None)
    then have "inv_db db'"
      using assms inv_db_frescos(2) [OF assms] unfolding db'
      by (fastforce simp: inv_db_def list_all_iff) }
  then show ?thesis using assms by (auto simp: signUp_def split: sum.splits)
qed

subsection \<open>Frame and error translation\<close>

lemma signUp_ativos [simp]: "db_ativos (snd (signUp err n m pw p db)) = db_ativos db"
  by (auto simp: signUp_def signUpEmail_lib_def split: sum.splits option.splits if_splits)

lemma erro_usuario_existe_traduzido:
  "getTranslatedAuthError erro_usuario_existe d =
     JsStr (''Usu'' @ a_agudo @ ''rio j'' @ a_agudo @ '' existe. Use outro email.'')"
proof -
  have "(''User already exists. Use another email.'',
         ''Usu'' @ a_agudo @ ''rio j'' @ a_agudo @ '' existe. Use outro email.'') \<in> set authErrorTranslations"
    by (simp add: authErrorTranslations_def)
  then show ?thesis
    by (simp add: erro_usuario_existe_def getTranslatedAuthError_def translateAuthError_entrada)
qed

text \<open>A sign-up with an unused e-mail registers the new user under the next id.\<close>

lemma signUp_novo_usuario:
  assumes "inv_db db" and "usuario_por_email db m = None"
  shows "fst (signUp None n m pw p db) = (True, JsStr ''Registro realizado com sucesso'')"
    and "usuario_por_id (snd (signUp None n m pw p db)) (db_next_user db) =
           Some \<lparr>usuario_name = n, usuario_email = m, usuario_perfilInvestidor = p\<rparr>"
proof -
  have "db_next_user db \<notin> fst ` set (db_users db)"
    using inv_db_frescos(2) [OF assms(1)] by force
  with assms(2) show "fst (signUp None n m pw p db) = (True, JsStr ''Registro realizado com sucesso'')"
    and "usuario_por_id (snd (signUp None n m pw p db)) (db_next_user db) =
           Some \<lparr>usuario_name = n, usuario_email = m, usuario_perfilInvestidor = p\<rparr>"
    by (simp_all add: signUp_def signUpEmail_lib_def usuario_por_id_def map_add_def
        map_of_eq_None_iff [THEN iffD2])
qed

end
