(* ===== verification/System.thy ===== *)
theory System
  imports AssetActions ProfileActions AuthActions
begin

text \<open>
  The server as a state machine over the database. A step is one request: one of the
  server actions, run by a client with some session (or none), with some database fault,
  on some input; sign-up is a request too. \<open>executar\<close> runs a request; \<open>alcancavel\<close>
  is the set of databases reachable from an initial one by any sequence of requests
  (requests of different clients interleave one whole action at a time). The store
  invariant \<open>inv_db\<close> holds in every reachable state when it holds initially: asset ids
  are distinct and below the id counter, every stored amount is positive, every stored
  risk is one of the enum labels, user ids are distinct and below their counter, and no
  two users share an e-mail address.
\<close>

datatype Acao =
    CreateAtivo Falha "user_id option" AtivoSchemaType
  | DeleteAtivo Falha "user_id option" ativo_id
  | UpdateName Falha "user_id option" string
  | UpdateEmail Falha "user_id option" string
  | UpdatePerfil Falha "user_id option" string
  | SignUp "ValorJs option" string string string string

fun sessao_de :: "Acao \<Rightarrow> user_id option" where
  "sessao_de (CreateAtivo _ s _) = s"
| "sessao_de (DeleteAtivo _ s _) = s"
| "sessao_de (UpdateName _ s _) = s"
| "sessao_de (UpdateEmail _ s _) = s"
| "sessao_de (UpdatePerfil _ s _) = s"
| "sessao_de (SignUp _ _ _ _ _) = None"

fun executar :: "(string \<Rightarrow> bool) \<Rightarrow> Acao \<Rightarrow> Db \<Rightarrow> Db" where
  "executar e (CreateAtivo f s v) db = snd (createAtivo f s v db)"
| "executar e (DeleteAtivo f s k) db = snd (deleteAtivo f s k db)"
| "executar e (UpdateName f s n) db = snd (updateName f s n db)"
| "executar e (UpdateEmail f s m) db = snd (updateEmail e f s m db)"
| "executar e (UpdatePerfil f s p) db = snd (updatePerfilInvestidor f s p db)"
| "executar e (SignUp err n m pw p) db = snd (signUp err n m pw p db)"

inductive alcancavel :: "(string \<Rightarrow> bool) \<Rightarrow> Db \<Rightarrow> Db \<Rightarrow> bool" for e db0 where
  inicio: "alcancavel e db0 db0"
| passo: "alcancavel e db0 db \<Longrightarrow> alcancavel e db0 (executar e a db)"


subsection \<open>Request outcomes and example states\<close>

definition ativo_exemplo :: AtivoSchemaType where
  "ativo_exemplo = \<lparr>ativo = ''PETR4'', risco_form = ''Alto'', valorInvestido_form = ''5000''\<rparr>"

definition db_exemplo :: Db where
  "db_exemplo =
     \<lparr>db_users = [(0, \<lparr>usuario_name = ''Ana'', usuario_email = ''ana@exemplo.com'',
                         usuario_perfilInvestidor = ''Moderado''\<rparr>),
                   (1, \<lparr>usuario_name = ''Rui'', usuario_email = ''rui@exemplo.com'',
                         usuario_perfilInvestidor = ''Arrojado''\<rparr>)],
      db_ativos = [(0, \<lparr>ativo_nome = ''PETR4'', ativo_risco = ''Alto'', ativo_valorInvestido = 5000,
                         ativo_userId = 0\<rparr>),
                   (1, \<lparr>ativo_nome = ''TESOURO'', ativo_risco = ''Baixo'', ativo_valorInvestido = 300,
                         ativo_userId = 1\<rparr>)],
      db_next_ativo = 2, db_next_user = 2, db_revalidados = []\<rparr>"

fun resposta_ok :: "(string \<Rightarrow> bool) \<Rightarrow> Acao \<Rightarrow> Db \<Rightarrow> bool" where
  "resposta_ok e (CreateAtivo f s v) db = (fst (createAtivo f s v db) = Retorna (ApiSuccess msg_ativo_criado))"
| "resposta_ok e (DeleteAtivo f s k) db = (fst (deleteAtivo f s k db) = Retorna (ApiSuccess msg_ativo_deletado))"
| "resposta_ok e (UpdateName f s n) db = (fst (updateName f s n db) = ApiSuccess msg_nome_ok)"
| "resposta_ok e (UpdateEmail f s m) db = (fst (updateEmail e f s m db) = ApiSuccess msg_email_ok)"
| "resposta_ok e (UpdatePerfil f s p) db = (fst (updatePerfilInvestidor f s p db) = ApiSuccess msg_perfil_ok)"
| "resposta_ok e (SignUp err n m pw p) db = fst (fst (signUp err n m pw p db))"

subsection \<open>The invariant of the reachable states\<close>

lemma executar_inv: "inv_db db \<Longrightarrow> inv_db (executar e a db)"
  by (cases a) (simp_all add: createAtivo_inv deleteAtivo_inv updateName_inv updateEmail_inv
                               updatePerfilInvestidor_inv signUp_inv)

lemma alcancavel_inv: "alcancavel e db0 db \<Longrightarrow> inv_db db0 \<Longrightarrow> inv_db db"
  by (induction rule: alcancavel.induct) (simp_all add: executar_inv)

lemma inv_db_exemplo: "inv_db db_exemplo"
  by (simp add: inv_db_def db_exemplo_def ativoRisco_def)

lemma ativo_exemplo_valido:
  "ativoSchema_issues ativo_exemplo = []" "prisma_decimal (valorInvestido_form ativo_exemplo) = Some 5000"
  by (code_simp, simp add: ativo_exemplo_def, code_simp)

subsection \<open>Properties of the server\<close>

text \<open>Every database reachable from the empty one, by any sequence of whole requests of any clients, satisfies the store invariant (\<open>Concorrencia.invariante_concorrente\<close> extends this to interleaved round trips).\<close>

theorem invariante_alcancavel:
  assumes "alcancavel e db_vazio db"
  shows "inv_db db"
  using alcancavel_inv [OF assms inv_db_vazio] .

theorem invariante_alcancavel_witness:
  "inv_db (executar (\<lambda>_. True) (CreateAtivo SemFalha (Some 0) ativo_exemplo)
            (executar (\<lambda>_. True) (SignUp None ''Ana'' ''ana@exemplo.com'' ''segredo'' ''Moderado'') db_vazio))"
  by (rule invariante_alcancavel [OF alcancavel.passo [OF alcancavel.passo [OF alcancavel.inicio]]])

text \<open>C18: Ownership: in a database satisfying the invariant, a request made under any session other than user u's leaves u's assets exactly as they were.\<close>

theorem isolamento_usuarios:
  assumes "inv_db db" and "sessao_de a \<noteq> Some u"
  shows "filter (\<lambda>(_, r). ativo_userId r = u) (db_ativos (executar e a db)) =
         filter (\<lambda>(_, r). ativo_userId r = u) (db_ativos db)"
  using assms by (cases a) (simp_all add: createAtivo_ativos_outro deleteAtivo_ativos_outro)

theorem isolamento_usuarios_witness:
  "filter (\<lambda>(_, r). ativo_userId r = 0)
     (db_ativos (executar (\<lambda>_. True) (DeleteAtivo SemFalha (Some 1) 1) db_exemplo)) =
   filter (\<lambda>(_, r). ativo_userId r = 0) (db_ativos db_exemplo)"
  by (rule isolamento_usuarios [OF inv_db_exemplo]) simp

text \<open>C19: Read-your-writes: after createAtivo reports success for user uid, getAtivos for uid returns the user's previous assets followed by the new row, holding the validated name and risk and the positive amount the submitted string denotes, and the home page has been revalidated.\<close>

theorem createAtivo_leitura_propria:
  assumes "createAtivo f (Some uid) v db = (Retorna (ApiSuccess m), db')"
  shows "\<exists>valor. prisma_decimal (valorInvestido_form v) = Some valor \<and> 0 < valor \<and>
           getAtivos SemFalha (Some uid) db' =
             Retorna (filter (\<lambda>(_, a). ativo_userId a = uid) (db_ativos db) @
                      [(db_next_ativo db, novo_ativo v valor uid)]) \<and>
           db_revalidados db' = db_revalidados db @ [''/'']"
  using assms prisma_decimal_positivo
  by (auto simp: createAtivo_def getAtivos_def falha_em_def novo_ativo_def ativoSchema_ok
           split: option.splits if_splits)

theorem createAtivo_leitura_propria_witness:
  "getAtivos SemFalha (Some 0) (snd (createAtivo SemFalha (Some 0) ativo_exemplo db_vazio)) =
     Retorna [(0, novo_ativo ativo_exemplo 5000 0)]"
proof -
  have "createAtivo SemFalha (Some 0) ativo_exemplo db_vazio =
          (Retorna (ApiSuccess msg_ativo_criado), snd (createAtivo SemFalha (Some 0) ativo_exemplo db_vazio))"
    by (simp add: createAtivo_def ativo_exemplo_valido falha_em_def)
  from createAtivo_leitura_propria [OF this] show ?thesis
    by (auto simp: ativo_exemplo_valido db_vazio_def)
qed

text \<open>C20: deleteAtivo on an existing asset of a database satisfying the invariant removes exactly that row and revalidates the home page when the session user owns it, and otherwise returns the permission error and leaves the database unchanged.\<close>

theorem deleteAtivo_dono:
  assumes "inv_db db" and "(k, a) \<in> set (db_ativos db)"
  shows "deleteAtivo SemFalha (Some uid) k db =
           (if ativo_userId a = uid
            then (Retorna (ApiSuccess msg_ativo_deletado),
                  revalidatePath ''/'' (db\<lparr>db_ativos := remove1 (k, a) (db_ativos db)\<rparr>))
            else (Retorna (ApiError msg_sem_permissao), db))"
proof -
  have d: "distinct (map fst (db_ativos db))" using assms(1) by (simp add: inv_db_def)
  then have "map_of (db_ativos db) k = Some a" using assms(2) by (rule map_of_is_SomeI)
  with filter_id_remove1 [OF d assms(2)] show ?thesis
    by (simp add: deleteAtivo_def falha_em_def)
qed

theorem deleteAtivo_dono_witness:
  "deleteAtivo SemFalha (Some 0) 0 db_exemplo =
     (Retorna (ApiSuccess msg_ativo_deletado),
      revalidatePath ''/'' (db_exemplo\<lparr>db_ativos := [(1, \<lparr>ativo_nome = ''TESOURO'', ativo_risco = ''Baixo'',
         ativo_valorInvestido = 300, ativo_userId = 1\<rparr>)]\<rparr>))"
  using deleteAtivo_dono [OF inv_db_exemplo, of 0 "\<lparr>ativo_nome = ''PETR4'', ativo_risco = ''Alto'',
          ativo_valorInvestido = 5000, ativo_userId = 0\<rparr>" 0]
  by (simp add: db_exemplo_def)

text \<open>C21: Error paths have no effect: a request whose response is not its success response leaves the database unchanged.\<close>

theorem erro_sem_efeito:
  assumes "\<not> resposta_ok e a db"
  shows "executar e a db = db"
  using assms
  by (cases a) (auto simp: createAtivo_def deleteAtivo_def updateName_def updateEmail_def
      updatePerfilInvestidor_def signUp_def split: Resultado.splits option.splits list.splits sum.splits)

theorem erro_sem_efeito_witness:
  "executar (\<lambda>_. True) (DeleteAtivo SemFalha (Some 1) 0) db_exemplo = db_exemplo"
  by (rule erro_sem_efeito) (simp add: deleteAtivo_def db_exemplo_def msg_defs)

text \<open>Without a session the asset actions and getAtivos throw the redirect to /login, while the profile actions, which call requireUser inside their try block, swallow it and return their generic error; none of them touches the database.\<close>

lemma sem_sessao:
  "createAtivo f None v db = (Redireciona ''/login'', db) \<and>
   deleteAtivo f None k db = (Redireciona ''/login'', db) \<and>
   getAtivos f None db = Redireciona ''/login'' \<and>
   updateName f None n db = (ApiError msg_erro_nome, db) \<and>
   updateEmail e f None m db = (ApiError msg_erro_email, db) \<and>
   updatePerfilInvestidor f None p db = (ApiError msg_erro_perfil, db)"
  by (simp add: createAtivo_def deleteAtivo_def getAtivos_def updateName_def updateEmail_def
      updatePerfilInvestidor_def)



text \<open>C22: Sign-up stores the investor profile it is given without validating it: a new user registered with an unused e-mail and a label outside the profile enum is created with that label, which getPerfil then reads as 2 (aggressive).\<close>

theorem signUp_perfil_livre:
  assumes "inv_db db" and "usuario_por_email db m = None" and "p \<notin> set perfilInvestidorOpcoes"
  shows "fst (signUp None n m pw p db) = (True, JsStr ''Registro realizado com sucesso'') \<and>
         getUserInfo SemFalha (Some (db_next_user db)) (snd (signUp None n m pw p db)) =
           Retorna (db_next_user db, \<lparr>usuario_name = n, usuario_email = m, usuario_perfilInvestidor = p\<rparr>) \<and>
         getPerfil SemFalha (Some (db_next_user db)) (snd (signUp None n m pw p db)) = Retorna 2"
  using signUp_novo_usuario [OF assms(1,2)] assms(3)
  by (simp add: getUserInfo_def getPerfil_def falha_em_def perfilParaNumero_def set_perfilInvestidorOpcoes)

theorem signUp_perfil_livre_witness:
  "getPerfil SemFalha (Some 2) (snd (signUp None ''Eva'' ''eva@exemplo.com'' ''segredo'' ''Agressivo'' db_exemplo)) =
     Retorna 2"
proof -
  have "usuario_por_email db_exemplo ''eva@exemplo.com'' = None"
    by (simp add: usuario_por_email_def db_exemplo_def)
  moreover have "''Agressivo'' \<notin> set perfilInvestidorOpcoes"
    by (simp add: perfilInvestidorOpcoes_def)
  ultimately show ?thesis
    using signUp_perfil_livre [OF inv_db_exemplo, of "''eva@exemplo.com''" "''Agressivo''" "''Eva''" "''segredo''"]
    by (simp add: db_exemplo_def)
qed

text \<open>C23: Sign-up with an e-mail that is already registered fails with the Portuguese translation of the library's duplicate-user error and leaves the database unchanged.\<close>

theorem signUp_email_duplicado:
  assumes "usuario_por_email db m \<noteq> None"
  shows "signUp None n m pw p db =
           ((False, JsStr (''Usu'' @ a_agudo @ ''rio j'' @ a_agudo @ '' existe. Use outro email.'')), db)"
  using assms by (simp add: signUp_def signUpEmail_lib_def erro_usuario_existe_traduzido)

theorem signUp_email_duplicado_witness:
  "signUp None ''Ana'' ''rui@exemplo.com'' ''segredo'' ''Moderado'' db_exemplo =
     ((False, JsStr (''Usu'' @ a_agudo @ ''rio j'' @ a_agudo @ '' existe. Use outro email.'')), db_exemplo)"
  by (rule signUp_email_duplicado) (simp add: usuario_por_email_def db_exemplo_def)

text \<open>C24: E-mail uniqueness in updateEmail: in a database satisfying the invariant, a valid address held by user k is accepted for the session user when k is that user (the row is rewritten and /profile revalidated) and refused with the in-use message, with no change, for any other user.\<close>

theorem updateEmail_unicidade:
  assumes "inv_db db" and "usuario_por_id db uid \<noteq> None" and "updateEmailSchema_issues e m = []"
    and "(k, u) \<in> set (db_users db)" and "usuario_email u = m"
  shows "updateEmail e SemFalha (Some uid) m db =
           (if k = uid
            then (ApiSuccess msg_email_ok,
                  revalidatePath ''/profile'' (atualizar_usuario uid (\<lambda>u. u\<lparr>usuario_email := m\<rparr>) db))
            else (ApiError msg_email_em_uso, db))"
proof -
  have "usuario_por_email db m = Some k"
    using assms(1,4,5) by (intro usuario_por_email_unico) (simp_all add: inv_db_def)
  with assms(2,3) show ?thesis by (auto simp: updateEmail_def falha_em_def)
qed

theorem updateEmail_unicidade_witness:
  "updateEmail (\<lambda>_. True) SemFalha (Some 1) ''ana@exemplo.com'' db_exemplo =
     (ApiError msg_email_em_uso, db_exemplo)"
  using updateEmail_unicidade [OF inv_db_exemplo, of 1 "\<lambda>_. True" "''ana@exemplo.com''" 0]
  by (simp add: db_exemplo_def usuario_por_id_def updateEmailSchema_issues_def)

end
