(* ===== verification/Resolver.thy ===== *)
theory Resolver
  imports Validation
begin

text \<open>
  The zod schemas as \<open>zodResolver\<close> sees them and the submission gate of react-hook-form.
  A zod issue carries the path of the field it is about (\<open>loginSchema_erros\<close>,
  \<open>signupSchema_erros\<close>, \<open>ordemSchema_erros\<close>: the issue lists of \<open>Validation\<close> with
  their paths; the refinement of \<open>signupSchema\<close> names \<open>confirmPassword\<close>). The
  resolver keeps the first message of each path (\<open>parseErrorSchema\<close>);
  \<open>handleSubmit\<close> records those errors and calls the submit handler only when there
  are none.
\<close>

definition issue_em :: "string \<Rightarrow> bool \<Rightarrow> string \<Rightarrow> (string \<times> string) list" where
  "issue_em caminho ok msg = map (Pair caminho) (issue_if ok msg)"

definition loginSchema_erros :: "(string \<Rightarrow> bool) \<Rightarrow> LoginSchemaType \<Rightarrow> (string \<times> string) list" where
  "loginSchema_erros email_ok v =
     issue_em ''email'' (email_ok (login_email v)) msg_email_invalido
     @ issue_em ''password'' (8 \<le> js_length (login_password v)) msg_senha_curta"

definition signupSchema_erros :: "(string \<Rightarrow> bool) \<Rightarrow> SignupSchemaType \<Rightarrow> (string \<times> string) list" where
  "signupSchema_erros email_ok v =
     (let perfil_ok = signup_perfilInvestidor v \<in> set perfilInvestidorOpcoes;
          campos = issue_em ''name'' (2 \<le> js_length (signup_name v)) msg_nome_curto
                   @ issue_em ''email'' (email_ok (signup_email v)) msg_email_invalido
                   @ issue_em ''perfilInvestidor'' perfil_ok msg_selecione_perfil
                   @ issue_em ''password'' (8 \<le> js_length (signup_password v)) msg_senha_curta
      in if perfil_ok
         then campos @ issue_em ''confirmPassword'' (signup_password v = signup_confirmPassword v)
                         msg_senhas_diferentes
         else campos)"

definition ordemSchema_erros :: "OrdemFormValues \<Rightarrow> (string \<times> string) list" where
  "ordemSchema_erros v =
     issue_em ''ativo'' (2 \<le> js_length (ordem_form_ativo v)) msg_ativo_curto
     @ issue_em ''ativo'' (js_length (ordem_form_ativo v) \<le> 50) msg_ativo_longo
     @ issue_em ''risco'' (ordem_form_risco v \<in> set ordemRisco) msg_selecione_risco
     @ issue_em ''valorOrdem'' (1 \<le> js_length (ordem_form_valor v)) msg_informe_valor_ordem
     @ issue_em ''valorOrdem'' (valor_positivo (ordem_form_valor v)) msg_valor_positivo"

text \<open>
  The resolver's loop over the issues (\<open>parseErrorSchema\<close> of \<open>@hookform/resolvers/zod\<close>):
  an issue is recorded under its path unless that path already has one.
\<close>

definition parseErrorSchema :: "(string \<times> string) list \<Rightarrow> string \<rightharpoonup> string" where
  "parseErrorSchema issues =
     foldl (\<lambda>errs (caminho, msg). if errs caminho = None then errs(caminho \<mapsto> msg) else errs) Map.empty issues"

text \<open>
  \<open>form.handleSubmit(onSubmit)\<close> of react-hook-form: the resolver's errors are recorded
  and \<open>onSubmit\<close> runs only when there are none; otherwise the submission has no
  outcome beyond the errors (\<open>nada\<close>: no effect, the database untouched).
\<close>

definition handleSubmit ::
  "('v \<Rightarrow> (string \<times> string) list) \<Rightarrow> ('v \<Rightarrow> 'e) \<Rightarrow> 'e \<Rightarrow> 'v \<Rightarrow> (string \<rightharpoonup> string) \<times> 'e" where
  "handleSubmit schema onSubmit nada values =
     (let errs = parseErrorSchema (schema values)
      in if errs = Map.empty then (errs, onSubmit values) else (errs, nada))"

subsection \<open>Lemmas\<close>

text \<open>The resolver's loop computes \<open>map_of\<close>: the first message of each path.\<close>

lemma foldl_parseErrorSchema:
  "foldl (\<lambda>errs (caminho, msg). if errs caminho = None then errs(caminho \<mapsto> msg) else errs) m es =
     map_of es ++ m"
proof (induction es arbitrary: m)
  case (Cons p es)
  obtain a b where p: "p = (a, b)" by (cases p)
  show ?case
    by (cases "m a") (auto simp: p Cons.IH map_add_def fun_eq_iff split: option.splits)
qed simp

lemma parseErrorSchema_map_of: "parseErrorSchema es = map_of es"
  by (simp add: parseErrorSchema_def foldl_parseErrorSchema)

lemma parseErrorSchema_vazio: "parseErrorSchema es = Map.empty \<longleftrightarrow> es = []"
  by (simp add: parseErrorSchema_map_of map_of_eq_empty_iff)

lemma dom_parseErrorSchema: "dom (parseErrorSchema es) = fst ` set es"
  by (simp add: parseErrorSchema_map_of dom_map_of_conv_image_fst)

lemma handleSubmit_vazio:
  "handleSubmit schema onSubmit nada v =
     (parseErrorSchema (schema v), if schema v = [] then onSubmit v else nada)"
  by (simp add: handleSubmit_def Let_def parseErrorSchema_vazio)

lemma map_snd_issue_em [simp]: "map snd (issue_em c ok m) = issue_if ok m"
  by (simp add: issue_em_def issue_if_def)

text \<open>Without their paths the issue lists are those of \<open>Validation\<close>.\<close>

lemma loginSchema_erros_issues: "map snd (loginSchema_erros ok v) = loginSchema_issues ok v"
  by (simp add: loginSchema_erros_def loginSchema_issues_def)

lemma signupSchema_erros_issues: "map snd (signupSchema_erros ok v) = signupSchema_issues ok v"
  by (simp add: signupSchema_erros_def signupSchema_issues_def Let_def)

lemma ordemSchema_erros_issues: "map snd (ordemSchema_erros v) = ordemSchema_issues v"
  by (simp add: ordemSchema_erros_def ordemSchema_issues_def)

lemma loginSchema_erros_vazio: "loginSchema_erros ok v = [] \<longleftrightarrow> loginSchema_issues ok v = []"
  by (metis loginSchema_erros_issues map_is_Nil_conv)

lemma signupSchema_erros_vazio: "signupSchema_erros ok v = [] \<longleftrightarrow> signupSchema_issues ok v = []"
  by (metis signupSchema_erros_issues map_is_Nil_conv)

end
