(* ===== verification/ClientForms.thy ===== *)
theory ClientForms
  imports ProfileActions AuthActions Resolver
begin

text \<open>
  The client side of the forms: what the browser does with a submission and with the
  server's answer. A handler's observable behaviour is the list of effects it causes, in
  order (\<open>Efeito\<close>): a success or error toast (\<open>sonner\<close>), a client-side navigation
  (\<open>router.push\<close>, or the navigation Next.js performs for a server action that throws
  the redirect of \<open>redirect()\<close>), or a full page load (\<open>window.location.href\<close>).
  A toast shows a JavaScript value: the messages the server returns are strings, but a
  translated authentication error may be the inherited built-in of \<open>AuthErrors\<close>.

  How a server action's promise settles is an \<open>ApiResponse Resultado\<close>: it resolves to a
  response, or the action redirects, or the promise rejects (a transport failure, or an
  error the action does not catch). \<open>tryCatch\<close> (\<open>src/hooks/try-catch\<close>, not among the
  sources) turns a promise into \<open>{data, error}\<close>; it is the case split of
  \<open>tratarResposta\<close>.

  The three profile editors (\<open>edit-name-form.tsx\<close>, \<open>edit-email-form.tsx\<close>,
  \<open>edit-perfil-form.tsx\<close>) share one state machine (\<open>passoEdicao\<close>): an editing flag,
  the field's value, and the value of the submission in flight (\<open>useTransition\<close>'s
  pending flag, with the data \<open>onSubmit\<close> captured). The editor is generic in its
  schema, in the value it was rendered with and in the server action, which is a function
  on a store of any type; \<open>editorNome\<close>, \<open>editorEmail\<close> and \<open>editorPerfil\<close> instantiate
  it with the schemas the files declare and the actions of \<open>ProfileActions\<close>.
\<close>

datatype Efeito = ToastSucesso JsValor | ToastErro JsValor | Navegar string | CarregarPagina string

subsection \<open>Settling a server action (tryCatch and the status test)\<close>

definition msg_erro_inesperado :: string where [msg_defs]:
  "msg_erro_inesperado = ''Ocorreu um erro inesperado. Tente novamente.''"

text \<open>The effects, and whether the response was a success.\<close>

fun tratarResposta :: "ApiResponse Resultado \<Rightarrow> Efeito list \<times> bool" where
  "tratarResposta (Lanca _) = ([ToastErro (JsStr msg_erro_inesperado)], False)"
| "tratarResposta (Redireciona p) = ([Navegar p], False)"
| "tratarResposta (Retorna (ApiSuccess m)) = ([ToastSucesso (JsStr m)], True)"
| "tratarResposta (Retorna (ApiError m)) = ([ToastErro (JsStr m)], False)"

text \<open>\<open>handleDelete\<close> of \<open>ativos-list.tsx\<close> (lines 24--39).\<close>

definition handleDelete :: "ApiResponse Resultado \<Rightarrow> Efeito list" where
  "handleDelete r = fst (tratarResposta r)"

subsection \<open>The profile editors\<close>

text \<open>The client-side schemas the editor files declare (lines 22--27 of each).\<close>

definition nameSchema_issues :: "string \<Rightarrow> string list" where
  "nameSchema_issues name =
     issue_if (2 \<le> js_length name) msg_nome_curto @ issue_if (js_length name \<le> 100) msg_nome_longo"

definition emailSchema_issues :: "(string \<Rightarrow> bool) \<Rightarrow> string \<Rightarrow> string list" where
  "emailSchema_issues email_ok email = issue_if (email_ok email) msg_email_invalido"

definition perfilSchema_issues :: "string \<Rightarrow> string list" where
  "perfilSchema_issues perfil = issue_if (perfil \<in> set perfilInvestidorOpcoes) msg_perfil_valido"

record FormEdicao =
  editando :: bool
  campo :: string
  em_envio :: "string option"

datatype EventoEdicao = Editar | Digitar string | Cancelar | Enviar | Concluir

text \<open>
  The form as first rendered: not editing, the field holding the current value
  (\<open>defaultValues\<close>), nothing in flight.
\<close>

definition form_inicial :: "string \<Rightarrow> FormEdicao" where
  "form_inicial atual = \<lparr>editando = False, campo = atual, em_envio = None\<rparr>"

text \<open>
  One event. The pencil opens the editor; typing changes the field; the cancel button
  (disabled while pending) closes it and resets the field to the current value; submit
  (disabled while pending, and stopped by \<open>zodResolver\<close> when the schema reports an
  issue) starts the transition with the field's value; the transition ends when the
  action settles: a toast, and the editor closes on success.
\<close>

fun passoEdicao ::
  "(string \<Rightarrow> string list) \<Rightarrow> string \<Rightarrow> (string \<Rightarrow> 'db \<Rightarrow> ApiResponse Resultado \<times> 'db) \<Rightarrow>
   FormEdicao \<times> 'db \<Rightarrow> EventoEdicao \<Rightarrow> (FormEdicao \<times> 'db) \<times> Efeito list" where
  "passoEdicao schema atual acao (st, db) Editar = ((st\<lparr>editando := True\<rparr>, db), [])"
| "passoEdicao schema atual acao (st, db) (Digitar v) = ((st\<lparr>campo := v\<rparr>, db), [])"
| "passoEdicao schema atual acao (st, db) Cancelar =
     (if em_envio st \<noteq> None then ((st, db), [])
      else ((st\<lparr>editando := False, campo := atual\<rparr>, db), []))"
| "passoEdicao schema atual acao (st, db) Enviar =
     (if \<not> editando st \<or> em_envio st \<noteq> None \<or> schema (campo st) \<noteq> [] then ((st, db), [])
      else ((st\<lparr>em_envio := Some (campo st)\<rparr>, db), []))"
| "passoEdicao schema atual acao (st, db) Concluir =
     (case em_envio st of
        None \<Rightarrow> ((st, db), [])
      | Some v \<Rightarrow>
          (let (r, db') = acao v db; (efs, ok) = tratarResposta r
           in ((st\<lparr>editando := editando st \<and> \<not> ok, em_envio := None\<rparr>, db'), efs)))"

text \<open>A run of events, the effects accumulated in order.\<close>

fun executarEdicao ::
  "(string \<Rightarrow> string list) \<Rightarrow> string \<Rightarrow> (string \<Rightarrow> 'db \<Rightarrow> ApiResponse Resultado \<times> 'db) \<Rightarrow>
   FormEdicao \<times> 'db \<Rightarrow> EventoEdicao list \<Rightarrow> (FormEdicao \<times> 'db) \<times> Efeito list" where
  "executarEdicao schema atual acao s [] = (s, [])"
| "executarEdicao schema atual acao s (ev # evs) =
     (let (s', efs) = passoEdicao schema atual acao s ev;
          (s'', efs') = executarEdicao schema atual acao s' evs
      in (s'', efs @ efs'))"

text \<open>
  The profile actions never throw (everything is caught), so their promise resolves
  with their response.
\<close>

definition editorNome :: "Falha \<Rightarrow> user_id option \<Rightarrow> string \<Rightarrow>
    FormEdicao \<times> Db \<Rightarrow> EventoEdicao \<Rightarrow> (FormEdicao \<times> Db) \<times> Efeito list" where
  "editorNome f sessao atual =
     passoEdicao nameSchema_issues atual
       (\<lambda>v db. let (r, db') = updateName f sessao v db in (Retorna r, db'))"

definition editorEmail :: "(string \<Rightarrow> bool) \<Rightarrow> Falha \<Rightarrow> user_id option \<Rightarrow> string \<Rightarrow>
    FormEdicao \<times> Db \<Rightarrow> EventoEdicao \<Rightarrow> (FormEdicao \<times> Db) \<times> Efeito list" where
  "editorEmail email_ok f sessao atual =
     passoEdicao (emailSchema_issues email_ok) atual
       (\<lambda>v db. let (r, db') = updateEmail email_ok f sessao v db in (Retorna r, db'))"

definition editorPerfil :: "Falha \<Rightarrow> user_id option \<Rightarrow> string \<Rightarrow>
    FormEdicao \<times> Db \<Rightarrow> EventoEdicao \<Rightarrow> (FormEdicao \<times> Db) \<times> Efeito list" where
  "editorPerfil f sessao atual =
     passoEdicao perfilSchema_issues atual
       (\<lambda>v db. let (r, db') = updatePerfilInvestidor f sessao v db in (Retorna r, db'))"

subsection \<open>Sign-in, sign-up and sign-out on the client\<close>

definition msg_erro_login :: string where [msg_defs]:
  "msg_erro_login = ''Erro ao fazer login''"
definition msg_erro_criar_conta :: string where [msg_defs]:
  "msg_erro_criar_conta = ''Erro ao criar conta''"

text \<open>
  \<open>onSubmit\<close> of \<open>login-form.tsx\<close> (lines 73--90), from the settled call of the
  server action on: \<open>Some (success, message)\<close> is the response, \<open>None\<close> a rejected call.
  It is reached only through \<open>handleSubmit\<close> (\<open>enviarLogin\<close>).
\<close>

definition onSubmitLogin :: "(bool \<times> JsValor) option \<Rightarrow> Efeito list" where
  "onSubmitLogin r =
     (case r of
        Some (True, message) \<Rightarrow> [ToastSucesso message, CarregarPagina ''/'']
      | Some (False, message) \<Rightarrow> [ToastErro message]
      | None \<Rightarrow> [ToastErro (JsStr msg_erro_login)])"

text \<open>\<open>onSubmit\<close> of \<open>signup-form.tsx\<close> (lines 83--102).\<close>

definition onSubmitSignup :: "(bool \<times> JsValor) option \<Rightarrow> Efeito list" where
  "onSubmitSignup r =
     (case r of
        Some (True, message) \<Rightarrow> [ToastSucesso message, CarregarPagina ''/'']
      | Some (False, message) \<Rightarrow> [ToastErro message]
      | None \<Rightarrow> [ToastErro (JsStr msg_erro_criar_conta)])"

text \<open>
  The submissions, \<open>form.handleSubmit(onSubmit)\<close>, wired to the server actions of
  \<open>users.ts\<close>: the action is called with the form's values only when the resolver
  reports no error.
\<close>

definition enviarLogin :: "ValorJs option \<Rightarrow> (string \<Rightarrow> bool) \<Rightarrow> LoginSchemaType \<Rightarrow> Efeito list" where
  "enviarLogin erro email_ok values =
     snd (handleSubmit (loginSchema_erros email_ok)
            (\<lambda>v. onSubmitLogin (Some (signIn erro (login_email v) (login_password v)))) [] values)"

definition enviarSignup ::
  "ValorJs option \<Rightarrow> (string \<Rightarrow> bool) \<Rightarrow> SignupSchemaType \<Rightarrow> Db \<Rightarrow> Efeito list \<times> Db" where
  "enviarSignup erro email_ok values db =
     snd (handleSubmit (signupSchema_erros email_ok)
            (\<lambda>v. let (r, db') = signUp erro (signup_name v) (signup_email v)
                                (signup_password v) (signup_perfilInvestidor v) db
                 in (onSubmitSignup (Some r), db')) ([], db) values)"

text \<open>
  \<open>signInWithGoogle\<close> (login-form lines 48--71, signup-form lines 58--81): the social
  sign-in request succeeds, fails with an error the library hands to \<open>onError\<close>, or
  throws.
\<close>

datatype ResultadoSocial = SocialSucesso | SocialErro ValorJs | SocialExcecao

definition signInWithGoogle :: "ResultadoSocial \<Rightarrow> Efeito list" where
  "signInWithGoogle r =
     (case r of
        SocialSucesso \<Rightarrow>
          [ToastSucesso (JsStr (''Logado com Google, voc'' @ e_circunflexo @ '' ser'' @ a_agudo @
                                '' redirecionado...''))]
      | SocialErro e \<Rightarrow> [ToastErro (getTranslatedAuthError e msg_erro_login)]
      | SocialExcecao \<Rightarrow> [ToastErro (JsStr ''Erro ao fazer login com Google'')])"

text \<open>The labels of the submit and Google buttons while a transition is pending.\<close>

definition rotuloLogin :: "bool \<Rightarrow> string" where
  "rotuloLogin isPending = (if isPending then ''Entrando...'' else ''Login'')"

definition rotuloSignup :: "bool \<Rightarrow> string" where
  "rotuloSignup isPending = (if isPending then ''Criando conta...'' else ''Criar conta'')"

definition rotuloGoogle :: "bool \<Rightarrow> string" where
  "rotuloGoogle isGooglePending = (if isGooglePending then ''Conectando...'' else ''Continuar com Google'')"

text \<open>\<open>useSignOut\<close> (\<open>src/hooks/use-signout.ts\<close>): the effects of the sign-out request.\<close>

definition handleSignout :: "bool \<Rightarrow> Efeito list" where
  "handleSignout ok =
     (if ok then [Navegar ''/'', ToastSucesso (JsStr ''Logout realizado com sucesso'')]
      else [ToastErro (JsStr ''Falha ao fazer logout'')])"

subsection \<open>Lemmas\<close>

text \<open>The schemas of the editors are the schemas of the actions they call.\<close>

lemma esquemas_cliente_servidor:
  "nameSchema_issues = updateNameSchema_issues"
  "emailSchema_issues = updateEmailSchema_issues"
  "perfilSchema_issues = updatePerfilSchema_issues"
  by (simp_all add: fun_eq_iff nameSchema_issues_def updateNameSchema_issues_def
      emailSchema_issues_def updateEmailSchema_issues_def perfilSchema_issues_def
      updatePerfilSchema_issues_def set_perfilInvestidorOpcoes)

text \<open>
  The editor's invariant: a submission in flight holds a value the schema accepts, and
  the editor is open while it is in flight.
\<close>

definition form_ok :: "(string \<Rightarrow> string list) \<Rightarrow> FormEdicao \<Rightarrow> bool" where
  "form_ok schema st \<longleftrightarrow> (case em_envio st of None \<Rightarrow> True | Some v \<Rightarrow> schema v = [] \<and> editando st)"

lemma form_ok_inicial [simp]: "form_ok schema (form_inicial atual)"
  by (simp add: form_ok_def form_inicial_def)

lemma passoEdicao_form_ok:
  assumes "form_ok schema st" and "passoEdicao schema atual acao (st, db) ev = ((st', db'), efs)"
  shows "form_ok schema st'"
  using assms
  by (cases ev) (auto simp: form_ok_def Let_def split: option.splits if_splits prod.splits)

lemma executarEdicao_form_ok:
  "form_ok schema (fst s) \<Longrightarrow> executarEdicao schema atual acao s evs = ((st', db'), efs) \<Longrightarrow>
   form_ok schema st'"
proof (induction evs arbitrary: s efs)
  case Nil
  then show ?case by simp
next
  case (Cons ev evs)
  obtain st db where s: "s = (st, db)" by (cases s)
  obtain st1 db1 efs1 where p: "passoEdicao schema atual acao (st, db) ev = ((st1, db1), efs1)"
    by (metis prod.exhaust)
  have "form_ok schema st1" using passoEdicao_form_ok Cons.prems(1) p s by fastforce
  then show ?case
    using Cons.IH [of "(st1, db1)"] Cons.prems(2) p s by (fastforce split: prod.splits)
qed

text \<open>
  The effects of a step: the server is called, and a toast shown, only on \<open>Concluir\<close>
  with a submission in flight; then the effects are those of the settled action.
\<close>

lemma passoEdicao_efeitos:
  assumes "passoEdicao schema atual acao (st, db) ev = ((st', db'), efs)" and "efs \<noteq> []"
  shows "\<exists>v. ev = Concluir \<and> em_envio st = Some v \<and> efs = fst (tratarResposta (fst (acao v db))) \<and>
              db' = snd (acao v db)"
  using assms by (cases ev) (auto simp: Let_def split: option.splits if_splits prod.splits)

lemma tratarResposta_Retorna:
  "tratarResposta (Retorna r) =
     (case r of ApiSuccess m \<Rightarrow> ([ToastSucesso (JsStr m)], True) | ApiError m \<Rightarrow> ([ToastErro (JsStr m)], False))"
  by (cases r) simp_all

text \<open>
  Whatever the events, an editor started in a consistent state shows only toasts the
  action produces on values its schema accepts.
\<close>

lemma executarEdicao_efeitos:
  assumes "\<And>v db. schema v = [] \<Longrightarrow> set (fst (tratarResposta (fst (acao v db)))) \<subseteq> E"
  shows "form_ok schema (fst s) \<Longrightarrow> executarEdicao schema atual acao s evs = (s', efs) \<Longrightarrow>
         set efs \<subseteq> E"
proof (induction evs arbitrary: s efs)
  case Nil
  then show ?case by simp
next
  case (Cons ev evs)
  obtain st db where s: "s = (st, db)" by (cases s)
  obtain st1 db1 efs1 where p: "passoEdicao schema atual acao (st, db) ev = ((st1, db1), efs1)"
    by (metis prod.exhaust)
  have ok1: "form_ok schema st1" using passoEdicao_form_ok Cons.prems(1) p s by fastforce
  have "set efs1 \<subseteq> E"
  proof (cases "efs1 = []")
    case False
    with p obtain v where "em_envio st = Some v" "efs1 = fst (tratarResposta (fst (acao v db)))"
      by (blast dest: passoEdicao_efeitos)
    moreover from this(1) Cons.prems(1) s have "schema v = []" by (simp add: form_ok_def)
    ultimately show ?thesis using assms by simp
  qed simp
  moreover obtain efs2 where "executarEdicao schema atual acao (st1, db1) evs = (s', efs2)"
    and "efs = efs1 @ efs2"
    using Cons.prems(2) p s by (auto split: prod.splits)
  moreover have "set efs2 \<subseteq> E" using Cons.IH ok1 calculation(2) by fastforce
  ultimately show ?case by simp
qed

lemma updateName_valido:
  "updateNameSchema_issues v = [] \<Longrightarrow> fst (updateName f s v db) \<in> {ApiSuccess msg_nome_ok, ApiError msg_erro_nome}"
  by (auto simp: updateName_def split: Resultado.splits)

lemma editorNome_efeitos:
  assumes "executarEdicao nameSchema_issues atual
             (\<lambda>v db. let (r, db') = updateName f sessao v db in (Retorna r, db'))
             (form_inicial atual, db) evs = (s', efs)"
  shows "set efs \<subseteq> {ToastSucesso (JsStr msg_nome_ok), ToastErro (JsStr msg_erro_nome)}"
proof (rule executarEdicao_efeitos [OF _ _ assms])
  fix v db assume "nameSchema_issues v = []"
  then have "fst (updateName f sessao v db) \<in> {ApiSuccess msg_nome_ok, ApiError msg_erro_nome}"
    using updateName_valido [of v f sessao db] by (simp add: esquemas_cliente_servidor)
  then show "set (fst (tratarResposta (fst (let (r, db') = updateName f sessao v db in (Retorna r, db')))))
             \<subseteq> {ToastSucesso (JsStr msg_nome_ok), ToastErro (JsStr msg_erro_nome)}"
    by (auto simp: case_prod_beta)
qed simp

end
