(* ===== verification/Pages.thy ===== *)
theory Pages
  imports ClientForms ResultCard
begin

text \<open>
  The pages, layouts and shared chrome of the application, as the data they compute and
  the choices they render. Next.js's app router wraps each page in the layout of its
  route group: \<open>/\<close> and \<open>/profile\<close> in \<open>src/app/(private)/layout.tsx\<close>, which
  redirects to \<open>/login\<close> without a session; \<open>/login\<close> and \<open>/signup\<close> in
  \<open>src/app/(auth)/layout.tsx\<close>, which redirects to \<open>/\<close> with one. Following redirects
  until a page renders is a loop that nothing bounds in advance, so \<open>resolverRota\<close> is a
  \<open>partial_function (option)\<close> (\<open>None\<close> is a redirect loop); the lemmas show it always
  returns, and where.

  The browser (\<open>Navegador\<close>) is the current page and whether a session cookie is set;
  effects of \<open>ClientForms\<close> move it (\<open>aplicarEfeito\<close>).

  The views are records of what a component shows: the navbar's user menu, the home page's
  data, the asset list, the result card and the profile page. Markup, styling and the
  static texts are not modelled; currency and date formatting (\<open>toLocaleString\<close>,
  \<open>Intl.DateTimeFormat\<close>) are left as the numbers and values they format. Looking up a
  key in an object literal (\<open>perfilDescriptions[...]\<close>, \<open>perfilColors[...]\<close>) finds the
  keys inherited from \<open>Object.prototype\<close> too (\<open>js_objeto_get\<close>, as in \<open>AuthErrors\<close>).
\<close>

subsection \<open>Layouts and redirects\<close>

definition rotas_privadas :: "string list" where
  "rotas_privadas = [''/'', ''/profile'']"

definition rotas_auth :: "string list" where
  "rotas_auth = [''/login'', ''/signup'']"

text \<open>\<open>checkAuthAndRedirect\<close> of the private layout (lines 7--15) and of the auth layout.\<close>

definition checkAuthPrivado :: "bool \<Rightarrow> string option" where
  "checkAuthPrivado logado = (if \<not> logado then Some ''/login'' else None)"

definition checkAuthPublico :: "bool \<Rightarrow> string option" where
  "checkAuthPublico logado = (if logado then Some ''/'' else None)"

text \<open>
  Which layout wraps a path is Next.js's routing by directory, not code of the sources:
  the pages under \<open>app/(private)\<close> (\<open>rotas_privadas\<close>) render inside the private
  layout and those under \<open>app/(auth)\<close> (\<open>rotas_auth\<close>) inside the auth layout.
  \<open>redirecionamento\<close> is that dispatch followed by the layout's check.
\<close>

definition redirecionamento :: "bool \<Rightarrow> string \<Rightarrow> string option" where
  "redirecionamento logado p =
     (if p \<in> set rotas_privadas then checkAuthPrivado logado
      else if p \<in> set rotas_auth then checkAuthPublico logado
      else None)"

partial_function (option) resolverRota :: "bool \<Rightarrow> string \<Rightarrow> string option" where
  "resolverRota logado p =
     (case redirecionamento logado p of None \<Rightarrow> Some p | Some q \<Rightarrow> resolverRota logado q)"

subsection \<open>The browser\<close>

record Navegador =
  pagina :: string
  cookie_sessao :: bool

definition navegar :: "Navegador \<Rightarrow> string \<Rightarrow> Navegador option" where
  "navegar nav p = map_option (\<lambda>q. nav\<lparr>pagina := q\<rparr>) (resolverRota (cookie_sessao nav) p)"

fun aplicarEfeito :: "Navegador \<Rightarrow> Efeito \<Rightarrow> Navegador option" where
  "aplicarEfeito nav (ToastSucesso _) = Some nav"
| "aplicarEfeito nav (ToastErro _) = Some nav"
| "aplicarEfeito nav (Navegar p) = navegar nav p"
| "aplicarEfeito nav (CarregarPagina p) = navegar nav p"

fun aplicarEfeitos :: "Navegador \<Rightarrow> Efeito list \<Rightarrow> Navegador option" where
  "aplicarEfeitos nav [] = Some nav"
| "aplicarEfeitos nav (e # es) = Option.bind (aplicarEfeito nav e) (\<lambda>nav'. aplicarEfeitos nav' es)"

text \<open>
  Signing out from the user menu: the library clears the session cookie when the request
  succeeds, then \<open>useSignOut\<close>'s effects run.
\<close>

definition sair :: "bool \<Rightarrow> Navegador \<Rightarrow> Navegador option" where
  "sair ok nav = aplicarEfeitos (if ok then nav\<lparr>cookie_sessao := False\<rparr> else nav) (handleSignout ok)"

subsection \<open>The navbar and the user menu\<close>

text \<open>The session the client hook \<open>authClient.useSession()\<close> returns: the user's fields.\<close>

record SessaoCliente =
  sc_name :: string
  sc_email :: string
  sc_image :: "string option"

text \<open>\<open>Navbar\<close> (\<open>src/components/navbar/index.tsx\<close>, lines 9--47): the props of \<open>UserDropdown\<close>, if shown.\<close>

definition nomeExibido :: "SessaoCliente \<Rightarrow> string" where
  "nomeExibido u = (if sc_name u \<noteq> [] then sc_name u else takeWhile (\<lambda>c. c \<noteq> CHR ''@'') (sc_email u))"

definition imagemPerfil :: "SessaoCliente \<Rightarrow> string" where
  "imagemPerfil u = (case sc_image u of Some i \<Rightarrow> i | None \<Rightarrow> ''https://avatar.vercel.sh/'' @ sc_email u)"

definition navbarUsuario :: "bool \<Rightarrow> SessaoCliente option \<Rightarrow> (string \<times> string \<times> string) option" where
  "navbarUsuario isPending sessao =
     (if isPending then None else map_option (\<lambda>u. (nomeExibido u, sc_email u, imagemPerfil u)) sessao)"

text \<open>
  \<open>UserDropdown\<close> (\<open>user-dropdown.tsx\<close>, lines 24--74): the avatar fallback
  \<open>name[0].toUpperCase()\<close>, which throws a \<open>TypeError\<close> (\<open>None\<close>) on an empty name, and the
  menu entries: the two links and the sign-out item.
\<close>

definition avatarFallback :: "string \<Rightarrow> string option" where
  "avatarFallback name = (if name = [] then None else Some (js_toUpperCase (js_charAt0 name)))"

datatype ItemMenu = Link string string | ItemSair

definition itensMenu :: "ItemMenu list" where
  "itensMenu = [Link ''Perfil'' ''/profile'', Link ''Simular'' ''/'', ItemSair]"

text \<open>
  The whole menu as rendered: the avatar image and fallback, the name and e-mail in its
  label, and the entries; \<open>None\<close> when rendering throws. The navbar shows nothing while
  the session loads or without one (outer \<open>None\<close>), and otherwise renders the menu.
\<close>

record DropdownView =
  dd_imagem :: string
  dd_fallback :: string
  dd_nome :: string
  dd_email :: string
  dd_itens :: "ItemMenu list"

definition userDropdown :: "string \<Rightarrow> string \<Rightarrow> string \<Rightarrow> DropdownView option" where
  "userDropdown email name imagem =
     map_option (\<lambda>f. \<lparr>dd_imagem = imagem, dd_fallback = f, dd_nome = name, dd_email = email,
                      dd_itens = itensMenu\<rparr>) (avatarFallback name)"

definition navbarView :: "bool \<Rightarrow> SessaoCliente option \<Rightarrow> DropdownView option option" where
  "navbarView isPending sessao =
     map_option (\<lambda>(name, email, imagem). userDropdown email name imagem) (navbarUsuario isPending sessao)"

subsection \<open>The home page\<close>

text \<open>
  \<open>Home\<close> (\<open>src/app/(private)/page.tsx\<close>, lines 20--71): the holdings and the profile
  ordinal it hands to the asset list and the order section; each query may fail on its own.
\<close>

definition home :: "Falha \<Rightarrow> Falha \<Rightarrow> user_id option \<Rightarrow> Db \<Rightarrow>
    ((ativo_id \<times> AtivoRow) list \<times> int) Resultado" where
  "home fa fp sessao db =
     seq (getAtivos fa sessao db) (\<lambda>ativos. seq (getPerfil fp sessao db) (\<lambda>perfil. Retorna (ativos, perfil)))"

subsection \<open>The asset list\<close>

text \<open>\<open>AtivosList\<close> (\<open>ativos-list.tsx\<close>, lines 41--110): the empty state or one row per holding.\<close>

definition riscoCorLista :: "string \<Rightarrow> string" where
  "riscoCorLista r =
     (if r = ''Baixo'' then ''text-green-600''
      else if r = ''M'' @ e_agudo @ ''dio'' then ''text-yellow-600''
      else if r = ''Alto'' then ''text-red-600'' else ''text-white'')"

record LinhaAtivo =
  linha_id :: ativo_id
  linha_nome :: string
  linha_risco :: string
  linha_cor :: string
  linha_valor :: js_number
  linha_botao_desativado :: bool

datatype VistaAtivos = NenhumAtivo string | Linhas "LinhaAtivo list"

definition linhaAtivo :: "bool \<Rightarrow> ativo_id \<times> AtivoRow \<Rightarrow> LinhaAtivo" where
  "linhaAtivo pending row =
     \<lparr>linha_id = fst row, linha_nome = ativo_nome (snd row), linha_risco = ativo_risco (snd row),
      linha_cor = riscoCorLista (ativo_risco (snd row)), linha_valor = ativo_valorInvestido (snd row),
      linha_botao_desativado = pending\<rparr>"

definition ativosListView :: "bool \<Rightarrow> (ativo_id \<times> AtivoRow) list \<Rightarrow> VistaAtivos" where
  "ativosListView pending ativos =
     (if ativos = [] then NenhumAtivo ''Nenhum ativo cadastrado'' else Linhas (map (linhaAtivo pending) ativos))"

subsection \<open>The result card\<close>

text \<open>
  What \<open>ResultCardClient\<close> renders (\<open>result-card-client.tsx\<close>, lines 81--247), in the
  order of the card: the status with its icon and colour, the recommendation, the order's
  name and amount, the order's risk label and colour, the profile label, the impact icon
  and sentence, the expected return, the volatility, the diversification note, the
  explanation, and the warnings section, present only when there are warnings.
\<close>

record CartaoView =
  cv_statusIcon :: StatusIcon
  cv_status :: string
  cv_statusColor :: string
  cv_recomendacao :: string
  cv_recomendacaoColor :: string
  cv_ativo :: string
  cv_valorOrdem :: js_number
  cv_risco :: string
  cv_riscoColor :: string
  cv_perfil :: string
  cv_impactoIcone :: ImpactoIcon
  cv_impactoTexto :: string
  cv_rentabilidade :: "string option"
  cv_volatilidade :: string
  cv_diversificacao :: string
  cv_explicacao :: string
  cv_alertas :: "string list option"

text \<open>The warnings block (lines 225--243), rendered only when there are warnings.\<close>

definition alertasView :: "string list \<Rightarrow> string list option" where
  "alertasView avisos = (if length avisos > 0 then Some avisos else None)"

definition resultCardView :: "OrdemSchemaType \<Rightarrow> ativo_carteira list \<Rightarrow> int \<Rightarrow> CartaoView" where
  "resultCardView ordem ativos perfil =
     (let analise = resultCardAnalise ordem ativos perfil
      in \<lparr>cv_statusIcon = statusIcon (status analise),
          cv_status = status_texto (status analise),
          cv_statusColor = statusColor (status analise),
          cv_recomendacao = recomendacao_texto (recomendacao analise),
          cv_recomendacaoColor = recomendacaoColor (recomendacao analise),
          cv_ativo = ordem_ativo ordem,
          cv_valorOrdem = valorOrdem ordem,
          cv_risco = ordem_risco ordem,
          cv_riscoColor = riscoColor (ordem_risco ordem),
          cv_perfil = perfilParaTexto perfil,
          cv_impactoIcone = impactoIcone (impactoRisco analise),
          cv_impactoTexto = impactoTexto (valorCarteiraAtual ativos) (impactoRisco analise),
          cv_rentabilidade = rentabilidadePotencial analise,
          cv_volatilidade = volatilidade analise,
          cv_diversificacao = impactoDiversificacao analise,
          cv_explicacao = explicacao analise,
          cv_alertas = alertasView (alertas analise)\<rparr>)"

subsection \<open>The profile page\<close>

text \<open>Looking a key up in an object literal with string values.\<close>

definition js_objeto_get :: "(string \<times> string) list \<Rightarrow> string \<Rightarrow> JsValor option" where
  "js_objeto_get obj k =
     (case map_of obj k of
        Some v \<Rightarrow> Some (JsStr v)
      | None \<Rightarrow> if k \<in> set object_prototype_keys then Some (JsNativo k) else None)"

text \<open>\<open>perfilDescriptions\<close> of \<open>src/app/(private)/profile/page.tsx\<close> (lines 17--24).\<close>

definition perfilDescriptions :: "(string \<times> string) list" where
  "perfilDescriptions =
     [(''Conservador'', ''Voc'' @ e_circunflexo @ '' prefere investimentos de baixo risco, priorizando a seguran''
                        @ c_cedilha @ ''a e estabilidade do seu capital.''),
      (''Moderado'', ''Voc'' @ e_circunflexo @ '' busca um equil'' @ i_agudo @
                     ''brio entre seguran'' @ c_cedilha @ ''a e rentabilidade, aceitando riscos moderados.''),
      (''Arrojado'', ''Voc'' @ e_circunflexo @ '' est'' @ a_agudo @
                     '' disposto a assumir riscos maiores em busca de retornos mais elevados.'')]"

text \<open>
  \<open>ProfilePage\<close> (lines 14--188): the user record of \<open>getUserInfo\<close> and what the page
  shows of it: the name and e-mail handed to their editors, the profile label handed to
  the profile editor, and the description looked up by that label (\<open>undefined\<close>, which
  renders nothing, is \<open>None\<close>). The member-since date is formatted by \<open>Intl\<close> and not
  modelled.
\<close>

record PerfilView =
  pv_nome :: string
  pv_email :: string
  pv_perfil :: string
  pv_descricao :: "JsValor option"

definition profilePage :: "Falha \<Rightarrow> user_id option \<Rightarrow> Db \<Rightarrow> PerfilView Resultado" where
  "profilePage f sessao db =
     seq (getUserInfo f sessao db) (\<lambda>(_, u).
       Retorna \<lparr>pv_nome = usuario_name u, pv_email = usuario_email u,
                pv_perfil = usuario_perfilInvestidor u,
                pv_descricao = js_objeto_get perfilDescriptions (usuario_perfilInvestidor u)\<rparr>)"

text \<open>
  The closed profile editor of \<open>edit-perfil-form.tsx\<close> (lines 75--106) shows the current
  label inside the classes \<open>perfilBorderColors[currentPerfil]\<close> and
  \<open>perfilColors[currentPerfil]\<close>.
\<close>

definition perfilColors :: "(string \<times> string) list" where
  "perfilColors =
     [(''Conservador'', ''text-green-600 dark:text-green-500''),
      (''Moderado'', ''text-yellow-600 dark:text-yellow-500''),
      (''Arrojado'', ''text-red-600 dark:text-red-500'')]"

definition perfilBorderColors :: "(string \<times> string) list" where
  "perfilBorderColors =
     [(''Conservador'', ''border-green-300 dark:border-green-800''),
      (''Moderado'', ''border-yellow-300 dark:border-yellow-800''),
      (''Arrojado'', ''border-red-300 dark:border-red-800'')]"

definition perfilFechadoView :: "string \<Rightarrow> string \<times> JsValor option \<times> JsValor option" where
  "perfilFechadoView currentPerfil =
     (currentPerfil, js_objeto_get perfilColors currentPerfil, js_objeto_get perfilBorderColors currentPerfil)"

subsection \<open>The order form\<close>

text \<open>
  \<open>OrdemForm\<close> (\<open>ordem-form.tsx\<close>, lines 31--163): the default values, the label of the
  risk menu (\<open>field.value || "Selecione o risco"\<close>), its three entries, and the submit
  handler, which only logs to the console: it has no effect the user sees.
\<close>

definition ordemForm_inicial :: OrdemFormValues where
  "ordemForm_inicial = \<lparr>ordem_form_ativo = [], ordem_form_risco = [], ordem_form_valor = []\<rparr>"

definition rotuloRisco :: "string \<Rightarrow> string" where
  "rotuloRisco v = (if v = [] then ''Selecione o risco'' else v)"

definition opcoesRiscoOrdem :: "string list" where
  "opcoesRiscoOrdem = [''Baixo'', ''M'' @ e_agudo @ ''dio'', ''Alto'']"

definition onSubmitOrdem :: "OrdemFormValues \<Rightarrow> Efeito list" where
  "onSubmitOrdem values = []"

subsection \<open>Lemmas on redirects\<close>

lemma resolverRota_fixo: "redirecionamento logado p = None \<Longrightarrow> resolverRota logado p = Some p"
  by (simp add: resolverRota.simps)

lemma resolverRota_passo:
  "redirecionamento logado p = Some q \<Longrightarrow> resolverRota logado p = resolverRota logado q"
  by (subst resolverRota.simps) simp

lemma redirecionamento_casos:
  "redirecionamento logado p =
     (if p \<in> set rotas_privadas \<and> \<not> logado then Some ''/login''
      else if p \<in> set rotas_auth \<and> logado then Some ''/'' else None)"
  by (auto simp: redirecionamento_def checkAuthPrivado_def checkAuthPublico_def
      rotas_privadas_def rotas_auth_def)

lemma resolverRota_casos:
  "resolverRota logado p =
     Some (if p \<in> set rotas_privadas \<and> \<not> logado then ''/login''
           else if p \<in> set rotas_auth \<and> logado then ''/'' else p)"
proof (cases "p \<in> set rotas_privadas \<and> \<not> logado")
  case True
  then have "resolverRota logado p = resolverRota logado ''/login''"
    by (intro resolverRota_passo) (simp add: redirecionamento_casos)
  also have "\<dots> = Some ''/login''"
    using True by (intro resolverRota_fixo) (simp add: redirecionamento_casos rotas_privadas_def)
  finally show ?thesis using True by simp
next
  case nao_privada: False
  show ?thesis
  proof (cases "p \<in> set rotas_auth \<and> logado")
    case True
    then have "resolverRota logado p = resolverRota logado ''/''"
      using nao_privada by (intro resolverRota_passo) (simp add: redirecionamento_casos)
    also have "\<dots> = Some ''/''"
      using True by (intro resolverRota_fixo) (simp add: redirecionamento_casos rotas_auth_def)
    finally show ?thesis using True nao_privada by simp
  next
    case False
    with nao_privada have "redirecionamento logado p = None" by (simp add: redirecionamento_casos)
    with False nao_privada show ?thesis by (auto simp: resolverRota_fixo)
  qed
qed

lemma navegar_casos:
  "navegar nav p =
     Some (nav\<lparr>pagina := (if p \<in> set rotas_privadas \<and> \<not> cookie_sessao nav then ''/login''
                          else if p \<in> set rotas_auth \<and> cookie_sessao nav then ''/'' else p)\<rparr>)"
  by (simp add: navegar_def resolverRota_casos)

subsection \<open>Lemmas on the views\<close>

text \<open>The card hides its warnings section only for an adequate order.\<close>

lemma resultCardView_sem_alertas:
  "cv_alertas (resultCardView ordem ativos perfil) = None \<Longrightarrow>
   cv_status (resultCardView ordem ativos perfil) = status_texto Adequado"
  by (auto simp: resultCardView_def alertasView_def resultCardAnalise_eq classificarAdequacao_simps
      aviso_esperado_vazio split: if_splits)

text \<open>A stored label outside the profile enum and the inherited keys gets no description.\<close>

lemma js_objeto_get_fora:
  "k \<notin> fst ` set obj \<Longrightarrow> k \<notin> set object_prototype_keys \<Longrightarrow> js_objeto_get obj k = None"
  by (simp add: js_objeto_get_def map_of_eq_None_iff [THEN iffD2])

lemma perfilDescriptions_chaves: "fst ` set perfilDescriptions = set perfilInvestidorOpcoes"
  by (simp add: perfilDescriptions_def perfilInvestidorOpcoes_def)

text \<open>The avatar fallback throws exactly when the displayed name is empty.\<close>

lemma avatarFallback_nomeExibido:
  "avatarFallback (nomeExibido u) = None \<longleftrightarrow>
   sc_name u = [] \<and> (sc_email u = [] \<or> hd (sc_email u) = CHR ''@'')"
  by (cases "sc_email u") (auto simp: avatarFallback_def nomeExibido_def)

text \<open>
  With a loaded session the navbar's menu fails to render exactly when the user has an
  empty name and an e-mail that is empty or starts with "@"; otherwise it shows the
  displayed name, its upper-cased first letter, the e-mail and the three entries.
\<close>

lemma navbarView_sessao:
  "navbarView False (Some u) = Some None \<longleftrightarrow>
     sc_name u = [] \<and> (sc_email u = [] \<or> hd (sc_email u) = CHR ''@'')"
  "navbarView False (Some u) \<noteq> Some None \<Longrightarrow>
     navbarView False (Some u) =
       Some (Some \<lparr>dd_imagem = imagemPerfil u, dd_fallback = js_toUpperCase (js_charAt0 (nomeExibido u)),
                   dd_nome = nomeExibido u, dd_email = sc_email u, dd_itens = itensMenu\<rparr>)"
  "navbarView True s = None" "navbarView False None = None"
  using avatarFallback_nomeExibido [of u]
  by (auto simp: navbarView_def navbarUsuario_def userDropdown_def avatarFallback_def)

text \<open>The asset list shows one row per holding, in order, with the holding's id.\<close>

lemma ativosListView_linhas:
  "ativos \<noteq> [] \<Longrightarrow> ativosListView pending ativos = Linhas rs \<Longrightarrow> map linha_id rs = map fst ativos"
  by (auto simp: ativosListView_def linhaAtivo_def)

lemma riscoCorLista_enum: "r \<in> set ativoRisco \<Longrightarrow> riscoCorLista r \<noteq> ''text-white''"
  by (auto simp: riscoCorLista_def ativoRisco_def)

subsection \<open>Properties of navigation\<close>

text \<open>C26: Following the layouts' redirects always terminates: for every page and either session state the redirect loop returns a page that no layout redirects, a private page only with a session and a login or sign-up page only without one.\<close>

theorem resolverRota_termina:
  "\<exists>q. resolverRota logado p = Some q \<and> redirecionamento logado q = None \<and>
       (q \<in> set rotas_privadas \<longrightarrow> logado) \<and> (q \<in> set rotas_auth \<longrightarrow> \<not> logado)"
  by (auto simp: resolverRota_casos redirecionamento_casos rotas_privadas_def rotas_auth_def)

theorem resolverRota_termina_witness:
  "resolverRota False ''/profile'' = Some ''/login'' \<and> redirecionamento False ''/login'' = None \<and>
   ''/login'' \<notin> set rotas_privadas"
proof -
  obtain q where "resolverRota False ''/profile'' = Some q" and "redirecionamento False q = None"
    and "q \<in> set rotas_privadas \<longrightarrow> False"
    using resolverRota_termina [of False "''/profile''"] by blast
  moreover have "resolverRota False ''/profile'' = Some ''/login''"
    by (simp add: resolverRota_casos rotas_privadas_def)
  ultimately show ?thesis by simp
qed

text \<open>C27: Sessions end where the user expects: after a successful sign-out, from any page, the browser ends on the login page without a session cookie (useSignOut navigates to / and the private layout redirects); a failed sign-out leaves it where it was; and a valid sign-in the library accepts ends on the home page.\<close>

theorem fluxo_sessao:
  "sair True nav = Some (nav\<lparr>pagina := ''/login'', cookie_sessao := False\<rparr>) \<and>
   sair False nav = Some nav \<and>
   (loginSchema_issues email_ok v = [] \<longrightarrow>
      aplicarEfeitos (nav\<lparr>cookie_sessao := True\<rparr>) (enviarLogin None email_ok v) =
        Some (nav\<lparr>pagina := ''/'', cookie_sessao := True\<rparr>))"
  by (simp add: sair_def handleSignout_def navegar_casos rotas_privadas_def rotas_auth_def
      enviarLogin_def onSubmitLogin_def signIn_def handleSubmit_vazio loginSchema_erros_vazio)

theorem fluxo_sessao_witness:
  "sair True \<lparr>pagina = ''/profile'', cookie_sessao = True\<rparr> =
     Some \<lparr>pagina = ''/login'', cookie_sessao = False\<rparr> \<and>
   aplicarEfeitos \<lparr>pagina = ''/login'', cookie_sessao = True\<rparr>
     (enviarLogin None (\<lambda>_. True) \<lparr>login_email = ''ana@exemplo.com'', login_password = ''segredo123''\<rparr>) =
     Some \<lparr>pagina = ''/'', cookie_sessao = True\<rparr>"
proof -
  have "loginSchema_issues (\<lambda>_. True) \<lparr>login_email = ''ana@exemplo.com'', login_password = ''segredo123''\<rparr> = []"
    by code_simp
  then show ?thesis
    using fluxo_sessao [of "\<lparr>pagina = ''/profile'', cookie_sessao = True\<rparr>" "\<lambda>_. True"
        "\<lparr>login_email = ''ana@exemplo.com'', login_password = ''segredo123''\<rparr>"]
      fluxo_sessao [of "\<lparr>pagina = ''/login'', cookie_sessao = False\<rparr>" "\<lambda>_. True"
        "\<lparr>login_email = ''ana@exemplo.com'', login_password = ''segredo123''\<rparr>"]
    by simp
qed

end
