(* ===== verification/AuthConfig.thy ===== *)
theory AuthConfig
  imports Prelude
begin

text \<open>
  The authentication configuration of \<open>src/lib/auth.ts\<close> and what it makes the library
  do with sessions. The configuration object is \<open>auth_config\<close>: e-mail and password
  sign-in enabled, Google as the only social provider, the additional user field
  \<open>perfilInvestidor\<close> (a required string accepted from the sign-up input, which is why
  \<open>AuthActions.signUpEmail_lib\<close> stores whatever string it is given), a session lifetime
  of seven days refreshed at most once a day, and the admin and Next.js-cookie plugins.

  Sessions are handled inside better-auth; its rule is the contract modelled here
  (\<open>getSession\<close>, times in seconds): a session whose expiry is in the past is rejected
  (and deleted); otherwise, when at least \<open>updateAge\<close> has passed since it was last
  extended (its expiry minus \<open>expiresIn\<close> plus \<open>updateAge\<close> is not in the future), its
  expiry moves to \<open>expiresIn\<close> from now. \<open>usarSessao\<close> runs the requests of one
  browser, at the given times, against one session.
\<close>

record ConfigAuth =
  emailAndPassword_enabled :: bool
  socialProviders :: "string list"
  perfilInvestidor_type :: string
  perfilInvestidor_required :: bool
  perfilInvestidor_input :: bool
  session_expiresIn :: int
  session_updateAge :: int
  plugins :: "string list"

definition auth_config :: ConfigAuth where
  "auth_config =
     \<lparr>emailAndPassword_enabled = True, socialProviders = [''google''],
      perfilInvestidor_type = ''string'', perfilInvestidor_required = True, perfilInvestidor_input = True,
      session_expiresIn = 60 * 60 * 24 * 7, session_updateAge = 60 * 60 * 24,
      plugins = [''admin'', ''nextCookies'']\<rparr>"

record SessaoAuth =
  sessao_expiresAt :: int

definition criarSessao :: "ConfigAuth \<Rightarrow> int \<Rightarrow> SessaoAuth" where
  "criarSessao cfg agora = \<lparr>sessao_expiresAt = agora + session_expiresIn cfg\<rparr>"

definition getSession :: "ConfigAuth \<Rightarrow> int \<Rightarrow> SessaoAuth \<Rightarrow> SessaoAuth option" where
  "getSession cfg agora s =
     (if sessao_expiresAt s < agora then None
      else if sessao_expiresAt s - session_expiresIn cfg + session_updateAge cfg \<le> agora
      then Some (s\<lparr>sessao_expiresAt := agora + session_expiresIn cfg\<rparr>)
      else Some s)"

fun usarSessao :: "ConfigAuth \<Rightarrow> int list \<Rightarrow> SessaoAuth \<Rightarrow> SessaoAuth option" where
  "usarSessao cfg [] s = Some s"
| "usarSessao cfg (t # ts) s = Option.bind (getSession cfg t s) (usarSessao cfg ts)"

subsection \<open>Lemmas\<close>

text \<open>
  One request on a live session: it is accepted, and afterwards the expiry lies more than
  \<open>expiresIn - updateAge\<close> and at most \<open>expiresIn\<close> after the request, provided it did
  so after the previous request and requests do not go back in time.
\<close>

lemma getSession_janela:
  assumes "t0 \<le> t" and "t - t0 \<le> session_expiresIn cfg - session_updateAge cfg"
    and "t0 + session_expiresIn cfg - session_updateAge cfg \<le> sessao_expiresAt s"
    and "sessao_expiresAt s \<le> t0 + session_expiresIn cfg"
  shows "\<exists>s'. getSession cfg t s = Some s' \<and>
           t + session_expiresIn cfg - session_updateAge cfg \<le> sessao_expiresAt s' \<and>
           sessao_expiresAt s' \<le> t + session_expiresIn cfg"
  using assms by (auto simp: getSession_def)

lemma getSession_expirada: "sessao_expiresAt s < t \<Longrightarrow> getSession cfg t s = None"
  by (simp add: getSession_def)

lemma usarSessao_janela:
  assumes "sorted (t0 # ts)"
    and "\<forall>(a, b) \<in> set (zip (t0 # ts) ts). b - a \<le> session_expiresIn cfg - session_updateAge cfg"
    and "t0 + session_expiresIn cfg - session_updateAge cfg \<le> sessao_expiresAt s"
    and "sessao_expiresAt s \<le> t0 + session_expiresIn cfg"
  shows "\<exists>s'. usarSessao cfg ts s = Some s' \<and>
           last (t0 # ts) + session_expiresIn cfg - session_updateAge cfg \<le> sessao_expiresAt s' \<and>
           sessao_expiresAt s' \<le> last (t0 # ts) + session_expiresIn cfg"
  using assms
proof (induction ts arbitrary: t0 s)
  case Nil
  then show ?case by simp
next
  case (Cons t ts)
  from Cons.prems have t: "t0 \<le> t" "t - t0 \<le> session_expiresIn cfg - session_updateAge cfg"
    by simp_all
  obtain s1 where s1: "getSession cfg t s = Some s1"
    and b: "t + session_expiresIn cfg - session_updateAge cfg \<le> sessao_expiresAt s1"
           "sessao_expiresAt s1 \<le> t + session_expiresIn cfg"
    using getSession_janela [OF t Cons.prems(3,4)] by blast
  have "\<exists>s'. usarSessao cfg ts s1 = Some s' \<and>
          last (t # ts) + session_expiresIn cfg - session_updateAge cfg \<le> sessao_expiresAt s' \<and>
          sessao_expiresAt s' \<le> last (t # ts) + session_expiresIn cfg"
    using Cons.prems(1,2) b by (intro Cons.IH) simp_all
  then show ?case using s1 by simp
qed

subsection \<open>Sessions under the configuration of auth.ts\<close>

text \<open>C13: With the session settings of auth.ts (seven days, refreshed at most daily), a browser whose requests are at most six days apart keeps its session: from a session created at t0 every request is accepted, afterwards the session expires between six and seven days after the last request, and any request more than seven days after the last one is rejected.\<close>

theorem sessao_auth_config:
  assumes "sorted (t0 # ts)" and "\<forall>(a, b) \<in> set (zip (t0 # ts) ts). b - a \<le> 518400"
  shows "\<exists>s. usarSessao auth_config ts (criarSessao auth_config t0) = Some s \<and>
             last (t0 # ts) + 518400 \<le> sessao_expiresAt s \<and>
             sessao_expiresAt s \<le> last (t0 # ts) + 604800 \<and>
             (\<forall>t. last (t0 # ts) + 604800 < t \<longrightarrow> getSession auth_config t s = None)"
proof -
  obtain s where "usarSessao auth_config ts (criarSessao auth_config t0) = Some s"
    and "last (t0 # ts) + 518400 \<le> sessao_expiresAt s" and "sessao_expiresAt s \<le> last (t0 # ts) + 604800"
    using usarSessao_janela [of t0 ts auth_config "criarSessao auth_config t0"] assms
    by (auto simp: criarSessao_def auth_config_def)
  then show ?thesis by (auto intro!: getSession_expirada)
qed

theorem sessao_auth_config_witness:
  "\<exists>s. usarSessao auth_config [86400, 600000] (criarSessao auth_config 0) = Some s \<and>
       1118400 \<le> sessao_expiresAt s \<and> sessao_expiresAt s \<le> 1204800"
  using sessao_auth_config [of 0 "[86400, 600000]"] by auto

end
