(* ===== verification/Concorrencia.thy ===== *)
theory Concorrencia
  imports System
begin

text \<open>
  Requests of different clients interleave at the granularity of database round trips.
  A request that reads and then writes is a \<open>Requisicao\<close>: its read step (from the
  database to a response, \<open>Inl\<close>, or a pending write, \<open>Inr\<close>) and its write step. Two
  clients each run one; a request is at its start, has a write pending, or is done with
  a response (\<open>EstadoReq\<close>); \<open>avancar\<close> runs a client's next step, \<open>correr\<close> a schedule
  of steps, and the schedules of two requests are the interleavings of their two steps
  each (\<open>escalas\<close>). The instances are \<open>updateEmail\<close> (\<open>ProfileActions.updateEmail_verificar\<close>
  and \<open>updateEmail_gravar\<close>) and \<open>deleteAtivo\<close> (\<open>AssetActions.deleteAtivo_verificar\<close>
  and \<open>deleteAtivo_gravar\<close>).
\<close>

datatype ('p, 'r) EstadoReq = Inicio | Pendente 'p | Feito 'r

type_synonym ('p, 'r) Requisicao = "(Db \<Rightarrow> 'r + 'p) \<times> ('p \<Rightarrow> Db \<Rightarrow> 'r \<times> Db)"

datatype Cliente = ClienteA | ClienteB

record ('p, 'r) Corrida =
  req_a :: "('p, 'r) EstadoReq"
  req_b :: "('p, 'r) EstadoReq"
  corrida_db :: Db

fun passoReq :: "('p, 'r) Requisicao \<Rightarrow> ('p, 'r) EstadoReq \<times> Db \<Rightarrow> ('p, 'r) EstadoReq \<times> Db" where
  "passoReq (ler, gravar) (Inicio, db) =
     (case ler db of Inl r \<Rightarrow> (Feito r, db) | Inr p \<Rightarrow> (Pendente p, db))"
| "passoReq (ler, gravar) (Pendente p, db) = (let (r, db') = gravar p db in (Feito r, db'))"
| "passoReq q (Feito r, db) = (Feito r, db)"

fun avancar ::
  "('p, 'r) Requisicao \<Rightarrow> ('p, 'r) Requisicao \<Rightarrow> ('p, 'r) Corrida \<Rightarrow> Cliente \<Rightarrow> ('p, 'r) Corrida" where
  "avancar qa qb c ClienteA =
     (let (r, db) = passoReq qa (req_a c, corrida_db c) in c\<lparr>req_a := r, corrida_db := db\<rparr>)"
| "avancar qa qb c ClienteB =
     (let (r, db) = passoReq qb (req_b c, corrida_db c) in c\<lparr>req_b := r, corrida_db := db\<rparr>)"

definition correr ::
  "('p, 'r) Requisicao \<Rightarrow> ('p, 'r) Requisicao \<Rightarrow> Db \<Rightarrow> Cliente list \<Rightarrow> ('p, 'r) Corrida" where
  "correr qa qb db ps = foldl (avancar qa qb) \<lparr>req_a = Inicio, req_b = Inicio, corrida_db = db\<rparr> ps"

definition escalas :: "Cliente list list" where
  "escalas = intercalacoes [ClienteA, ClienteA] [ClienteB, ClienteB]"

text \<open>The two requests of the application that read and then write.\<close>

definition reqUpdateEmail ::
  "(string \<Rightarrow> bool) \<Rightarrow> user_id \<Rightarrow> string \<Rightarrow> (user_id \<times> string, ApiResponse) Requisicao" where
  "reqUpdateEmail e uid email = (updateEmail_verificar e SemFalha (Some uid) email, updateEmail_gravar SemFalha)"

definition reqDeleteAtivo :: "user_id \<Rightarrow> ativo_id \<Rightarrow> (ativo_id, ApiResponse Resultado) Requisicao" where
  "reqDeleteAtivo uid ativoId = (deleteAtivo_verificar SemFalha (Some uid) ativoId, deleteAtivo_gravar SemFalha)"

text \<open>
  Any number of clients at round-trip granularity: the server's state is the database
  and the multiset of writes that requests have read for and not yet done. A step is a
  whole request that makes a single round trip (\<open>atomica\<close>), the read of an
  \<open>updateEmail\<close> or \<open>deleteAtivo\<close> that leaves a write pending, or one pending write.
\<close>

datatype Pendente = PEmail Falha "user_id \<times> string" | PDelete Falha ativo_id

fun atomica :: "Acao \<Rightarrow> bool" where
  "atomica (UpdateEmail _ _ _) = False"
| "atomica (DeleteAtivo _ _ _) = False"
| "atomica _ = True"

inductive concorrente :: "(string \<Rightarrow> bool) \<Rightarrow> Db \<Rightarrow> Db \<times> Pendente multiset \<Rightarrow> bool" for e db0 where
  inicio: "concorrente e db0 (db0, {#})"
| atomico: "concorrente e db0 (db, P) \<Longrightarrow> atomica a \<Longrightarrow> concorrente e db0 (executar e a db, P)"
| le_email: "concorrente e db0 (db, P) \<Longrightarrow> updateEmail_verificar e f s m db = Inr p \<Longrightarrow>
              concorrente e db0 (db, add_mset (PEmail f p) P)"
| grava_email: "concorrente e db0 (db, P) \<Longrightarrow> PEmail f p \<in># P \<Longrightarrow>
              concorrente e db0 (snd (updateEmail_gravar f p db), P - {#PEmail f p#})"
| le_delete: "concorrente e db0 (db, P) \<Longrightarrow> deleteAtivo_verificar f s k db = Inr p \<Longrightarrow>
              concorrente e db0 (db, add_mset (PDelete f p) P)"
| grava_delete: "concorrente e db0 (db, P) \<Longrightarrow> PDelete f p \<in># P \<Longrightarrow>
              concorrente e db0 (snd (deleteAtivo_gravar f p db), P - {#PDelete f p#})"

subsection \<open>Interleavings in general\<close>

lemma escalas_shuffles: "set escalas = shuffles [ClienteA, ClienteA] [ClienteB, ClienteB]"
  unfolding escalas_def by (rule set_intercalacoes)

text \<open>
  A store invariant that every write keeps (reads do not change the store) holds after
  any schedule of the two requests, however their steps interleave.
\<close>

lemma passoReq_inv:
  assumes "\<And>p d. inv_db d \<Longrightarrow> inv_db (snd (snd q p d))" and "inv_db db"
  shows "inv_db (snd (passoReq q (st, db)))"
  using assms by (cases q; cases st) (simp_all add: split_beta split: sum.splits)

lemma correr_inv:
  assumes "\<And>p d. inv_db d \<Longrightarrow> inv_db (snd (snd qa p d))"
    and "\<And>p d. inv_db d \<Longrightarrow> inv_db (snd (snd qb p d))" and "inv_db db"
  shows "inv_db (corrida_db (correr qa qb db ps))"
proof -
  have "inv_db (corrida_db (foldl (avancar qa qb) c ps))" if "inv_db (corrida_db c)" for c
    using that
  proof (induction ps arbitrary: c)
    case (Cons x ps)
    have "inv_db (corrida_db (avancar qa qb c x))"
      using passoReq_inv [OF assms(1) Cons.prems, of "req_a c"]
        passoReq_inv [OF assms(2) Cons.prems, of "req_b c"]
      by (cases x) (simp_all add: split_beta)
    then show ?case by (simp add: Cons.IH)
  qed simp
  then show ?thesis using assms(3) by (simp add: correr_def)
qed

lemma reqUpdateEmail_inv: "inv_db d \<Longrightarrow> inv_db (snd (snd (reqUpdateEmail e u m) p d))"
  by (simp add: reqUpdateEmail_def updateEmail_gravar_inv)

lemma reqDeleteAtivo_inv: "inv_db d \<Longrightarrow> inv_db (snd (snd (reqDeleteAtivo u k) p d))"
  by (simp add: reqDeleteAtivo_def deleteAtivo_gravar_inv)

text \<open>
  A request's two steps run back to back are the whole action, so the serial schedule
  A, A, B, B is the two actions one after the other as \<open>System.executar\<close> runs them.
\<close>

lemma passoReq_duas:
  assumes "resposta = (case fst q db of Inl r \<Rightarrow> (r, db) | Inr p \<Rightarrow> snd q p db)"
  shows "passoReq q (passoReq q (Inicio, db)) = (Feito (fst resposta), snd resposta)"
  using assms by (cases q; cases "fst q db") (auto split: prod.splits)

lemma correr_serial_geral:
  assumes "ra = (case fst qa db of Inl r \<Rightarrow> (r, db) | Inr p \<Rightarrow> snd qa p db)"
    and "rb = (case fst qb (snd ra) of Inl r \<Rightarrow> (r, snd ra) | Inr p \<Rightarrow> snd qb p (snd ra))"
  shows "correr qa qb db [ClienteA, ClienteA, ClienteB, ClienteB] =
           \<lparr>req_a = Feito (fst ra), req_b = Feito (fst rb), corrida_db = snd rb\<rparr>"
  using passoReq_duas [OF assms(1)] passoReq_duas [OF assms(2)]
  by (simp add: correr_def split_beta del: passoReq.simps)

lemma correr_serial:
  assumes "inv_db db"
  shows "correr (reqUpdateEmail e a ma) (reqUpdateEmail e b mb) db [ClienteA, ClienteA, ClienteB, ClienteB] =
           \<lparr>req_a = Feito (fst (updateEmail e SemFalha (Some a) ma db)),
            req_b = Feito (fst (updateEmail e SemFalha (Some b) mb (executar e (UpdateEmail SemFalha (Some a) ma) db))),
            corrida_db = executar e (UpdateEmail SemFalha (Some b) mb) (executar e (UpdateEmail SemFalha (Some a) ma) db)\<rparr>"
proof -
  have i1: "inv_db (snd (updateEmail e SemFalha (Some a) ma db))" by (rule updateEmail_inv [OF assms])
  show ?thesis
    unfolding executar.simps
    by (rule correr_serial_geral; unfold reqUpdateEmail_def fst_conv snd_conv;
        rule updateEmail_passos [OF assms] updateEmail_passos [OF i1])
qed

subsection \<open>Two clients setting the same address\<close>

lemma verificar_livre:
  assumes "updateEmailSchema_issues e m = []" and "usuario_por_email db m = None"
  shows "updateEmail_verificar e SemFalha (Some a) m db = Inr (a, m)"
  using assms by (simp add: updateEmail_verificar_def falha_em_def)

lemma gravar_livre:
  assumes "usuario_por_id db a \<noteq> None" and "usuario_por_email db m = None"
  shows "updateEmail_gravar SemFalha (a, m) db =
           (ApiSuccess msg_email_ok,
            revalidatePath ''/profile'' (atualizar_usuario a (\<lambda>u. u\<lparr>usuario_email := m\<rparr>) db))"
  using assms by (auto simp: updateEmail_gravar_def falha_em_def email_de_outro_def list_ex_iff
                      usuario_por_email_None)

text \<open>After one client's write of a free address, the address belongs to that client.\<close>

lemma apos_gravar:
  assumes "inv_db db" and "usuario_por_id db a \<noteq> None" and "usuario_por_email db m = None"
    and "a \<noteq> b"
  defines "db' \<equiv> revalidatePath ''/profile'' (atualizar_usuario a (\<lambda>u. u\<lparr>usuario_email := m\<rparr>) db)"
  shows "inv_db db'" and "usuario_por_email db' m = Some a" and "email_de_outro db' b m"
proof -
  from assms(2) obtain u where u: "(a, u) \<in> set (db_users db)"
    by (auto simp: usuario_por_id_def dest: map_of_SomeD)
  have em: "(a, u\<lparr>usuario_email := m\<rparr>) \<in> set (db_users db')"
    using u by (force simp: db'_def atualizar_usuario_def)
  show inv: "inv_db db'"
    using inv_db_atualizar_email [OF assms(1), where email = m and uid = a] assms(3) by (simp add: db'_def)
  show "usuario_por_email db' m = Some a"
  proof (rule usuario_por_email_unico)
    show "distinct (map (\<lambda>(_, u). usuario_email u) (db_users db'))" using inv by (simp add: inv_db_def)
    show "(a, u\<lparr>usuario_email := m\<rparr>) \<in> set (db_users db')" by (rule em)
    show "usuario_email (u\<lparr>usuario_email := m\<rparr>) = m" by simp
  qed
  show "email_de_outro db' b m"
    using em assms(4) by (force simp: email_de_outro_def list_ex_iff)
qed

lemma verificar_ocupado:
  assumes "updateEmailSchema_issues e m = []" and "usuario_por_email db m = Some b" and "a \<noteq> b"
  shows "updateEmail_verificar e SemFalha (Some a) m db = Inl (ApiError msg_email_em_uso)"
  using assms by (simp add: updateEmail_verificar_def falha_em_def)

lemma gravar_ocupado:
  "email_de_outro db a m \<Longrightarrow> updateEmail_gravar SemFalha (a, m) db = (ApiError msg_erro_email, db)"
  by (simp add: updateEmail_gravar_def)

text \<open>C7: Two clients that set the same free address at the same time, each request a read
  and a write of the database, never both get it: under every interleaving of their steps
  the store invariant holds at the end, exactly one request succeeds and the address is
  its client's, and the other is told the address is in use or, when its read came before
  the winner's write (the schedule A, B, A, B), only the generic error. When one request
  runs to the end before the other starts (A, A, B, B or B, B, A, A), the later one is
  refused by updateEmail's own check that the address is in use.\<close>

theorem corrida_email:
  assumes "inv_db db" and "a \<noteq> b"
    and "usuario_por_id db a \<noteq> None" and "usuario_por_id db b \<noteq> None"
    and "updateEmailSchema_issues e m = []" and "usuario_por_email db m = None"
  shows "(\<forall>ps \<in> set escalas. inv_db (corrida_db (correr (reqUpdateEmail e a m) (reqUpdateEmail e b m) db ps)) \<and>
           ((req_a (correr (reqUpdateEmail e a m) (reqUpdateEmail e b m) db ps) = Feito (ApiSuccess msg_email_ok) \<and>
             req_b (correr (reqUpdateEmail e a m) (reqUpdateEmail e b m) db ps) \<in> {Feito (ApiError msg_email_em_uso), Feito (ApiError msg_erro_email)} \<and>
             usuario_por_email (corrida_db (correr (reqUpdateEmail e a m) (reqUpdateEmail e b m) db ps)) m = Some a) \<or>
            (req_b (correr (reqUpdateEmail e a m) (reqUpdateEmail e b m) db ps) = Feito (ApiSuccess msg_email_ok) \<and>
             req_a (correr (reqUpdateEmail e a m) (reqUpdateEmail e b m) db ps) \<in> {Feito (ApiError msg_email_em_uso), Feito (ApiError msg_erro_email)} \<and>
             usuario_por_email (corrida_db (correr (reqUpdateEmail e a m) (reqUpdateEmail e b m) db ps)) m = Some b))) \<and>
          req_b (correr (reqUpdateEmail e a m) (reqUpdateEmail e b m) db [ClienteA, ClienteA, ClienteB, ClienteB]) =
           Feito (ApiError msg_email_em_uso) \<and>
          req_a (correr (reqUpdateEmail e a m) (reqUpdateEmail e b m) db [ClienteB, ClienteB, ClienteA, ClienteA]) =
           Feito (ApiError msg_email_em_uso) \<and>
          req_b (correr (reqUpdateEmail e a m) (reqUpdateEmail e b m) db [ClienteA, ClienteB, ClienteA, ClienteB]) =
           Feito (ApiError msg_erro_email)"
proof -
  define da where "da = revalidatePath ''/profile'' (atualizar_usuario a (\<lambda>u. u\<lparr>usuario_email := m\<rparr>) db)"
  define dbb where "dbb = revalidatePath ''/profile'' (atualizar_usuario b (\<lambda>u. u\<lparr>usuario_email := m\<rparr>) db)"
  have A: "inv_db da" "usuario_por_email da m = Some a" "email_de_outro da b m"
    using apos_gravar [OF assms(1,3,6,2)] by (simp_all add: da_def)
  have B: "inv_db dbb" "usuario_por_email dbb m = Some b" "email_de_outro dbb a m"
    using apos_gravar [OF assms(1,4,6) assms(2) [symmetric]] by (simp_all add: dbb_def)
  note passos = verificar_livre [OF assms(5,6)] gravar_livre [OF assms(3,6), folded da_def]
    gravar_livre [OF assms(4,6), folded dbb_def]
    verificar_ocupado [OF assms(5) A(2) assms(2) [symmetric]] verificar_ocupado [OF assms(5) B(2) assms(2)]
    gravar_ocupado [OF A(3)] gravar_ocupado [OF B(3)]
  show ?thesis
    using A B assms(1) by (simp add: escalas_def correr_def reqUpdateEmail_def passos)
qed

theorem corrida_email_witness:
  "inv_db (corrida_db (correr (reqUpdateEmail (\<lambda>_. True) 0 ''novo@exemplo.com'') (reqUpdateEmail (\<lambda>_. True) 1 ''novo@exemplo.com'')
             db_exemplo
             [ClienteA, ClienteB, ClienteA, ClienteB])) \<and>
   req_a (correr (reqUpdateEmail (\<lambda>_. True) 0 ''novo@exemplo.com'') (reqUpdateEmail (\<lambda>_. True) 1 ''novo@exemplo.com'')
             db_exemplo
             [ClienteA, ClienteB, ClienteA, ClienteB]) = Feito (ApiSuccess msg_email_ok) \<and>
   req_b (correr (reqUpdateEmail (\<lambda>_. True) 0 ''novo@exemplo.com'') (reqUpdateEmail (\<lambda>_. True) 1 ''novo@exemplo.com'')
             db_exemplo
             [ClienteA, ClienteB, ClienteA, ClienteB]) = Feito (ApiError msg_erro_email)"
proof -
  have h: "usuario_por_id db_exemplo 0 \<noteq> None" "usuario_por_id db_exemplo 1 \<noteq> None"
    "updateEmailSchema_issues (\<lambda>_. True) ''novo@exemplo.com'' = []"
    "usuario_por_email db_exemplo ''novo@exemplo.com'' = None"
    by (simp_all add: db_exemplo_def usuario_por_id_def usuario_por_email_def updateEmailSchema_issues_def)
  have r: "(0::nat) \<noteq> 1" by simp
  note c = corrida_email [OF inv_db_exemplo r h]
  have m: "[ClienteA, ClienteB, ClienteA, ClienteB] \<in> set escalas" by (simp add: escalas_def)
  show ?thesis
    using bspec [OF conjunct1 [OF c] m] conjunct2 [OF c] by simp
qed

subsection \<open>Two tabs deleting the same holding\<close>

lemma map_of_filter_chave: "map_of (filter (\<lambda>(k', _). k' \<noteq> k) xs) k = None"
  by (induction xs) auto

text \<open>C10: The same user deleting one of their holdings from two tabs at once: under every interleaving of the two requests' reads and deletes the holding is deleted once and the store ends the same, one request succeeds and the other is told the holding does not exist or gets the generic failure; when both reads come before the first delete (the schedule A, B, A, B) it is the generic failure, which Prisma's throwing delete turns into.\<close>

theorem corrida_delete:
  assumes "map_of (db_ativos db) k = Some r" and "ativo_userId r = u"
  defines "db1 \<equiv> revalidatePath ''/'' (db\<lparr>db_ativos := filter (\<lambda>(k', _). k' \<noteq> k) (db_ativos db)\<rparr>)"
  shows "(\<forall>ps \<in> set escalas. corrida_db (correr (reqDeleteAtivo u k) (reqDeleteAtivo u k) db ps) = db1 \<and>
           ((req_a (correr (reqDeleteAtivo u k) (reqDeleteAtivo u k) db ps) = Feito (Retorna (ApiSuccess msg_ativo_deletado)) \<and>
             req_b (correr (reqDeleteAtivo u k) (reqDeleteAtivo u k) db ps) \<in>
               {Feito (Retorna (ApiError msg_ativo_nao_encontrado)), Feito (Retorna (ApiError msg_falha_deletar))}) \<or>
            (req_b (correr (reqDeleteAtivo u k) (reqDeleteAtivo u k) db ps) = Feito (Retorna (ApiSuccess msg_ativo_deletado)) \<and>
             req_a (correr (reqDeleteAtivo u k) (reqDeleteAtivo u k) db ps) \<in>
               {Feito (Retorna (ApiError msg_ativo_nao_encontrado)), Feito (Retorna (ApiError msg_falha_deletar))}))) \<and>
         map_of (db_ativos db1) k = None \<and>
         req_b (correr (reqDeleteAtivo u k) (reqDeleteAtivo u k) db [ClienteA, ClienteB, ClienteA, ClienteB]) =
           Feito (Retorna (ApiError msg_falha_deletar))"
proof -
  have g: "map_of (db_ativos db1) k = None" by (simp add: db1_def map_of_filter_chave)
  note passos = deleteAtivo_verificar_def deleteAtivo_gravar_def falha_em_def assms(1,2) g db1_def [symmetric]
  show ?thesis
    using g by (simp add: escalas_def correr_def reqDeleteAtivo_def passos)
qed

theorem corrida_delete_witness:
  "map_of (db_ativos (corrida_db (correr (reqDeleteAtivo 0 0) (reqDeleteAtivo 0 0) db_exemplo
                                    [ClienteA, ClienteB, ClienteA, ClienteB]))) 0 = None \<and>
   req_a (correr (reqDeleteAtivo 0 0) (reqDeleteAtivo 0 0) db_exemplo [ClienteA, ClienteB, ClienteA, ClienteB]) =
     Feito (Retorna (ApiSuccess msg_ativo_deletado)) \<and>
   req_b (correr (reqDeleteAtivo 0 0) (reqDeleteAtivo 0 0) db_exemplo [ClienteA, ClienteB, ClienteA, ClienteB]) =
     Feito (Retorna (ApiError msg_falha_deletar))"
proof -
  obtain r where r: "map_of (db_ativos db_exemplo) 0 = Some r" "ativo_userId r = 0"
    by (simp add: db_exemplo_def)
  note c = corrida_delete [OF r]
  have m: "[ClienteA, ClienteB, ClienteA, ClienteB] \<in> set escalas" by (simp add: escalas_def)
  show ?thesis
    using bspec [OF conjunct1 [OF c] m] conjunct2 [OF c] by (simp add: msg_defs)
qed

subsection \<open>Any number of clients\<close>

text \<open>
  Whole requests one at a time are one of the interleavings: a request that reads and
  writes is its read followed at once by its write (simulation of \<open>System.alcancavel\<close>).
\<close>

lemma concorrente_passo:
  assumes "concorrente e db0 (db, {#})" and "inv_db db"
  shows "concorrente e db0 (executar e a db, {#})"
proof (cases a)
  case (UpdateEmail f s m)
  show ?thesis
  proof (cases "updateEmail_verificar e f s m db")
    case (Inl r)
    then show ?thesis using assms UpdateEmail by (simp add: updateEmail_passos)
  next
    case (Inr p)
    have "concorrente e db0 (snd (updateEmail_gravar f p db), {#PEmail f p#} - {#PEmail f p#})"
      by (rule concorrente.grava_email [OF concorrente.le_email [OF assms(1) Inr]]) simp
    then show ?thesis using assms(2) Inr UpdateEmail by (simp add: updateEmail_passos)
  qed
next
  case (DeleteAtivo f s k)
  show ?thesis
  proof (cases "deleteAtivo_verificar f s k db")
    case (Inl r)
    then show ?thesis using assms DeleteAtivo by (simp add: deleteAtivo_passos)
  next
    case (Inr p)
    have "concorrente e db0 (snd (deleteAtivo_gravar f p db), {#PDelete f p#} - {#PDelete f p#})"
      by (rule concorrente.grava_delete [OF concorrente.le_delete [OF assms(1) Inr]]) simp
    then show ?thesis using Inr DeleteAtivo by (simp add: deleteAtivo_passos)
  qed
qed (rule concorrente.atomico [OF assms(1)], simp)+

lemma alcancavel_concorrente:
  "alcancavel e db0 db \<Longrightarrow> inv_db db0 \<Longrightarrow> concorrente e db0 (db, {#})"
proof (induction rule: alcancavel.induct)
  case inicio
  show ?case by (rule concorrente.inicio)
next
  case (passo db a)
  then show ?case using concorrente_passo alcancavel_inv by blast
qed

text \<open>
  No pending write is ever stuck: from any reachable state the pending writes can all be
  completed, one at a time in any order, reaching a state with none left.
\<close>

lemma concorrente_esvazia:
  "concorrente e db0 (db, P) \<Longrightarrow> \<exists>db'. concorrente e db0 (db', {#})"
proof (induction "size P" arbitrary: db P)
  case 0
  then show ?case by auto
next
  case (Suc n)
  then obtain x where x: "x \<in># P" by (metis size_empty multiset_nonemptyE nat.distinct(1))
  have "\<exists>db1. concorrente e db0 (db1, P - {#x#})"
  proof (cases x)
    case (PEmail f p)
    then show ?thesis using concorrente.grava_email [OF Suc.prems] x by blast
  next
    case (PDelete f p)
    then show ?thesis using concorrente.grava_delete [OF Suc.prems] x by blast
  qed
  then obtain db1 where "concorrente e db0 (db1, P - {#x#})" ..
  moreover have "n = size (P - {#x#})" using Suc.hyps(2) x by (simp add: size_Diff_singleton)
  ultimately show ?case using Suc.hyps(1) by blast
qed

lemma concorrente_inv: "concorrente e db0 s \<Longrightarrow> inv_db db0 \<Longrightarrow> inv_db (fst s)"
  by (induction rule: concorrente.induct)
     (simp_all add: executar_inv updateEmail_gravar_inv deleteAtivo_gravar_inv)

text \<open>C17: Every state reachable from the empty database when the requests of any number of clients interleave at the granularity of database round trips (the read of an updateEmail or a deleteAtivo may be followed by other clients' writes before its own write) satisfies the store invariant: unique ids, positive amounts, enum risks and unique e-mails. Whole requests one after the other are such interleavings (lemma alcancavel_concorrente), so this contains the invariant of System.alcancavel.\<close>

theorem invariante_concorrente:
  assumes "concorrente e db_vazio (db, P)"
  shows "inv_db db"
  using concorrente_inv [OF assms inv_db_vazio] by simp

theorem invariante_concorrente_witness:
  "inv_db (snd (updateEmail_gravar SemFalha (0, ''a@b.c'') db_vazio))"
proof -
  have v: "updateEmail_verificar (\<lambda>_. True) SemFalha (Some 0) ''a@b.c'' db_vazio = Inr (0, ''a@b.c'')"
    by (simp add: updateEmail_verificar_def updateEmailSchema_issues_def falha_em_def usuario_por_email_def
        db_vazio_def issue_if_def)
  have "concorrente (\<lambda>_. True) db_vazio
          (snd (updateEmail_gravar SemFalha (0, ''a@b.c'') db_vazio),
           {#PEmail SemFalha (0, ''a@b.c'')#} - {#PEmail SemFalha (0, ''a@b.c'')#})"
    by (rule concorrente.grava_email [OF concorrente.le_email [OF concorrente.inicio v]]) simp
  then show ?thesis by (rule invariante_concorrente)
qed

end
