(* ===== verification/Formularios.thy ===== *)
theory Formularios
  imports Pages
begin

text \<open>
  The forms built with react-hook-form and \<open>zodResolver\<close>: \<open>login-form.tsx\<close>,
  \<open>signup-form.tsx\<close> and \<open>ordem-form.tsx\<close>, over the resolver and the submission gate
  of \<open>Resolver\<close>. Each \<open>FormField\<close> renders its label, its input and, through
  \<open>FormMessage\<close>, the error recorded under its name. A field left \<open>undefined\<close> in
  \<open>defaultValues\<close> (the investor profile, the order's risk) is the empty string, which
  the enums reject with the same message.
\<close>

record CampoView =
  campo_nome :: string
  campo_rotulo :: string
  campo_tipo :: string
  campo_mensagem :: "string option"

definition formField :: "(string \<rightharpoonup> string) \<Rightarrow> string \<Rightarrow> string \<Rightarrow> string \<Rightarrow> CampoView" where
  "formField errs nome rotulo tipo =
     \<lparr>campo_nome = nome, campo_rotulo = rotulo, campo_tipo = tipo, campo_mensagem = errs nome\<rparr>"

definition loginForm_inicial :: LoginSchemaType where
  "loginForm_inicial = \<lparr>login_email = [], login_password = []\<rparr>"

definition loginFormView :: "(string \<rightharpoonup> string) \<Rightarrow> CampoView list" where
  "loginFormView errs =
     [formField errs ''email'' ''E-mail'' ''email'', formField errs ''password'' ''Senha'' ''password'']"

definition signupForm_inicial :: SignupSchemaType where
  "signupForm_inicial = \<lparr>signup_name = [], signup_email = [], signup_perfilInvestidor = [],
                          signup_password = [], signup_confirmPassword = []\<rparr>"

definition signupFormView :: "(string \<rightharpoonup> string) \<Rightarrow> CampoView list" where
  "signupFormView errs =
     [formField errs ''name'' ''Nome'' ''text'', formField errs ''email'' ''E-mail'' ''email'',
      formField errs ''perfilInvestidor'' ''Perfil de investidor'' ''select'',
      formField errs ''password'' ''Senha'' ''password'',
      formField errs ''confirmPassword'' ''Confirmar senha'' ''password'']"

text \<open>The items of the sign-up form's profile \<open>Select\<close>.\<close>

definition opcoesPerfilSignup :: "string list" where
  "opcoesPerfilSignup = [''Conservador'', ''Moderado'', ''Arrojado'']"

definition ordemFormView :: "(string \<rightharpoonup> string) \<Rightarrow> CampoView list" where
  "ordemFormView errs =
     [formField errs ''ativo'' ''Nome do ativo'' ''text'', formField errs ''risco'' ''Risco'' ''menu'',
      formField errs ''valorOrdem'' ''Valor da ordem'' ''number'']"

text \<open>Submitting each form: the resolver's errors and the effects of the submit handler.\<close>

definition submeterLogin ::
  "(string \<Rightarrow> bool) \<Rightarrow> (bool \<times> JsValor) option \<Rightarrow> LoginSchemaType \<Rightarrow> (string \<rightharpoonup> string) \<times> Efeito list" where
  "submeterLogin email_ok r = handleSubmit (loginSchema_erros email_ok) (\<lambda>v. onSubmitLogin r) []"

definition submeterSignup ::
  "(string \<Rightarrow> bool) \<Rightarrow> (bool \<times> JsValor) option \<Rightarrow> SignupSchemaType \<Rightarrow> (string \<rightharpoonup> string) \<times> Efeito list" where
  "submeterSignup email_ok r = handleSubmit (signupSchema_erros email_ok) (\<lambda>v. onSubmitSignup r) []"

definition submeterOrdem :: "OrdemFormValues \<Rightarrow> (string \<rightharpoonup> string) \<times> Efeito list" where
  "submeterOrdem = handleSubmit ordemSchema_erros onSubmitOrdem []"

subsection \<open>The open profile editor\<close>

text \<open>
  \<open>EditPerfilForm\<close> while editing (\<open>edit-perfil-form.tsx\<close>, lines 109--185), over the
  editor state of \<open>ClientForms\<close> (\<open>em_envio\<close> set is \<open>pending\<close>): the menu trigger shows
  the field's value (or a placeholder) coloured by \<open>perfilColors[field.value]\<close>, the
  three menu items with their colours, the resolver's message, and the save and cancel
  buttons, both disabled while pending (the save button then shows a spinner).
\<close>

definition perfilSchema_erros :: "string \<Rightarrow> (string \<times> string) list" where
  "perfilSchema_erros perfil =
     issue_em ''perfilInvestidor'' (perfil \<in> set perfilInvestidorOpcoes) msg_perfil_valido"

record PerfilAbertoView =
  gatilho_rotulo :: string
  gatilho_cor :: "JsValor option"
  itens_perfil :: "(string \<times> JsValor option) list"
  perfil_mensagem :: "string option"
  salvar_rotulo :: string
  salvar_desabilitado :: bool
  cancelar_desabilitado :: bool

definition perfilAbertoView :: "(string \<rightharpoonup> string) \<Rightarrow> FormEdicao \<Rightarrow> PerfilAbertoView" where
  "perfilAbertoView errs st =
     \<lparr>gatilho_rotulo = (if campo st = [] then ''Selecione o perfil'' else campo st),
      gatilho_cor = js_objeto_get perfilColors (campo st),
      itens_perfil = map (\<lambda>p. (p, js_objeto_get perfilColors p)) [''Conservador'', ''Moderado'', ''Arrojado''],
      perfil_mensagem = errs ''perfilInvestidor'',
      salvar_rotulo = (if em_envio st \<noteq> None then ''Loader2'' else ''Salvar''),
      salvar_desabilitado = (em_envio st \<noteq> None),
      cancelar_desabilitado = (em_envio st \<noteq> None)\<rparr>"

text \<open>The whole component: the closed view of \<open>Pages\<close> or the open editor.\<close>

definition editPerfilView ::
  "(string \<rightharpoonup> string) \<Rightarrow> string \<Rightarrow> FormEdicao \<Rightarrow>
   (string \<times> JsValor option \<times> JsValor option) + PerfilAbertoView" where
  "editPerfilView errs currentPerfil st =
     (if editando st then Inr (perfilAbertoView errs st) else Inl (perfilFechadoView currentPerfil))"

subsection \<open>Lemmas\<close>


text \<open>Every path an issue can carry is the name of a rendered field.\<close>

lemma signupSchema_erros_campos:
  "fst ` set (signupSchema_erros ok v) \<subseteq> campo_nome ` set (signupFormView errs)"
proof -
  have "campo_nome ` set (signupFormView errs) =
          {''name'', ''email'', ''perfilInvestidor'', ''password'', ''confirmPassword''}"
    by (simp add: signupFormView_def formField_def)
  moreover have "fst ` set (signupSchema_erros ok v) \<subseteq>
          {''name'', ''email'', ''perfilInvestidor'', ''password'', ''confirmPassword''}"
    by (simp add: signupSchema_erros_def issue_em_def issue_if_def Let_def image_Un)
  ultimately show ?thesis by simp
qed

lemma loginSchema_erros_campos:
  "fst ` set (loginSchema_erros ok v) \<subseteq> campo_nome ` set (loginFormView errs)"
proof -
  have "campo_nome ` set (loginFormView errs) = {''email'', ''password''}"
    by (simp add: loginFormView_def formField_def)
  moreover have "fst ` set (loginSchema_erros ok v) \<subseteq> {''email'', ''password''}"
    by (simp add: loginSchema_erros_def issue_em_def issue_if_def image_Un)
  ultimately show ?thesis by simp
qed

lemma ordemSchema_erros_campos:
  "fst ` set (ordemSchema_erros v) \<subseteq> campo_nome ` set (ordemFormView errs)"
proof -
  have "campo_nome ` set (ordemFormView errs) = {''ativo'', ''risco'', ''valorOrdem''}"
    by (simp add: ordemFormView_def formField_def)
  moreover have "fst ` set (ordemSchema_erros v) \<subseteq> {''ativo'', ''risco'', ''valorOrdem''}"
    by (simp add: ordemSchema_erros_def issue_em_def issue_if_def image_Un)
  ultimately show ?thesis by simp
qed

lemma signupFormView_mensagem:
  "c \<in> set (signupFormView errs) \<Longrightarrow> campo_mensagem c = errs (campo_nome c)"
  by (auto simp: signupFormView_def formField_def)

lemma loginFormView_mensagem:
  "c \<in> set (loginFormView errs) \<Longrightarrow> campo_mensagem c = errs (campo_nome c)"
  by (auto simp: loginFormView_def formField_def)

text \<open>Every profile the sign-up select offers is one the schema accepts, and conversely.\<close>

lemma opcoesPerfilSignup_enum: "set opcoesPerfilSignup = set perfilInvestidorOpcoes"
  by (simp add: opcoesPerfilSignup_def perfilInvestidorOpcoes_def)

text \<open>The submit handler's effects happen exactly when the schema accepts.\<close>

lemma submeterSignup_efeitos:
  "snd (submeterSignup ok r v) = (if signupSchema_issues ok v = [] then onSubmitSignup r else [])"
  by (simp add: submeterSignup_def handleSubmit_vazio signupSchema_erros_vazio)

lemma submeterLogin_efeitos:
  "snd (submeterLogin ok r v) = (if loginSchema_issues ok v = [] then onSubmitLogin r else [])"
  by (simp add: submeterLogin_def handleSubmit_vazio loginSchema_erros_vazio)

lemma submeterOrdem_sem_efeito: "snd (submeterOrdem v) = []"
  by (simp add: submeterOrdem_def handleSubmit_vazio onSubmitOrdem_def)

subsection \<open>The sign-up form\<close>

text \<open>C11: Submitting the sign-up form never blocks silently and shows each error where it belongs: the errors handleSubmit records are empty exactly when signupSchema accepts, the submit handler runs (with its effects) only then, every recorded error is shown under a rendered field, each field shows the first issue of its path, and the password-mismatch message appears under confirmPassword exactly when a profile is selected and the two passwords differ.\<close>

theorem submeterSignup_mensagens:
  assumes "submeterSignup ok r v = (errs, efs)"
  shows "(errs = Map.empty \<longleftrightarrow> signupSchema_issues ok v = []) \<and>
         efs = (if signupSchema_issues ok v = [] then onSubmitSignup r else []) \<and>
         dom errs \<subseteq> campo_nome ` set (signupFormView errs) \<and>
         (\<forall>c \<in> set (signupFormView errs). campo_mensagem c = map_of (signupSchema_erros ok v) (campo_nome c)) \<and>
         errs ''confirmPassword'' =
           (if signup_perfilInvestidor v \<in> set perfilInvestidorOpcoes \<and>
               signup_password v \<noteq> signup_confirmPassword v
            then Some msg_senhas_diferentes else None)"
proof -
  have e: "errs = map_of (signupSchema_erros ok v)"
    using assms by (simp add: submeterSignup_def handleSubmit_vazio parseErrorSchema_map_of)
  have "efs = (if signupSchema_issues ok v = [] then onSubmitSignup r else [])"
    using submeterSignup_efeitos [of ok r v] assms by simp
  moreover have "errs = Map.empty \<longleftrightarrow> signupSchema_issues ok v = []"
    using signupSchema_erros_issues [of ok v] by (auto simp: e map_of_eq_empty_iff)
  moreover have "dom errs \<subseteq> campo_nome ` set (signupFormView errs)"
    using signupSchema_erros_campos by (simp add: e dom_map_of_conv_image_fst)
  moreover have "errs ''confirmPassword'' =
           (if signup_perfilInvestidor v \<in> set perfilInvestidorOpcoes \<and>
               signup_password v \<noteq> signup_confirmPassword v
            then Some msg_senhas_diferentes else None)"
    by (simp add: e signupSchema_erros_def issue_em_def issue_if_def Let_def)
  ultimately show ?thesis
    by (simp add: e signupFormView_mensagem)
qed

theorem submeterSignup_mensagens_witness:
  "fst (submeterSignup (\<lambda>_. True) None
          \<lparr>signup_name = ''A'', signup_email = ''a@b.c'', signup_perfilInvestidor = [],
           signup_password = ''segredo1'', signup_confirmPassword = ''segredo2''\<rparr>) ''name'' = Some msg_nome_curto \<and>
   fst (submeterSignup (\<lambda>_. True) None
          \<lparr>signup_name = ''A'', signup_email = ''a@b.c'', signup_perfilInvestidor = [],
           signup_password = ''segredo1'', signup_confirmPassword = ''segredo2''\<rparr>) ''confirmPassword'' = None \<and>
   snd (submeterSignup (\<lambda>_. True) None
          \<lparr>signup_name = ''A'', signup_email = ''a@b.c'', signup_perfilInvestidor = [],
           signup_password = ''segredo1'', signup_confirmPassword = ''segredo2''\<rparr>) = []"
proof -
  let ?v = "\<lparr>signup_name = ''A'', signup_email = ''a@b.c'', signup_perfilInvestidor = [],
             signup_password = ''segredo1'', signup_confirmPassword = ''segredo2''\<rparr>"
  have "signupSchema_issues (\<lambda>_. True) ?v \<noteq> []"
    by (simp add: signupSchema_issues_def issue_if_def Let_def js_length_def)
  moreover have "map_of (signupSchema_erros (\<lambda>_. True) ?v) ''name'' = Some msg_nome_curto"
    by (simp add: signupSchema_erros_def issue_em_def issue_if_def Let_def js_length_def)
  ultimately show ?thesis
    using submeterSignup_mensagens [of "\<lambda>_. True" None ?v, OF prod.collapse [symmetric]]
    by (auto simp: onSubmitSignup_def signupFormView_def formField_def perfilInvestidorOpcoes_def)
qed

subsection \<open>Lemmas on the profile editor\<close>

lemma perfilSchema_erros_issues: "map snd (perfilSchema_erros p) = perfilSchema_issues p"
  by (simp add: perfilSchema_erros_def perfilSchema_issues_def)

text \<open>Every menu item is a profile the schema accepts, shown in its own colour.\<close>

lemma itens_perfil_validos:
  "map fst (itens_perfil (perfilAbertoView errs st)) = perfilInvestidorOpcoes \<and>
   (\<forall>(p, cor) \<in> set (itens_perfil (perfilAbertoView errs st)).
      perfilSchema_issues p = [] \<and> cor = Some (JsStr (the (map_of perfilColors p))))"
  by (simp add: perfilAbertoView_def perfilInvestidorOpcoes_def perfilSchema_issues_def
      issue_if_def js_objeto_get_def perfilColors_def)

text \<open>
  The buttons are disabled exactly when the state machine ignores them: while a request
  is in flight, cancel and submit leave the editor as it is.
\<close>

lemma perfilAbertoView_desabilitado:
  assumes "cancelar_desabilitado (perfilAbertoView errs st)"
  shows "passoEdicao schema atual acao (st, db) Cancelar = ((st, db), [])"
    and "passoEdicao schema atual acao (st, db) Enviar = ((st, db), [])"
    and "salvar_desabilitado (perfilAbertoView errs st)"
  using assms by (simp_all add: perfilAbertoView_def)

lemma perfilAbertoView_habilitado:
  assumes "editando st" and "\<not> cancelar_desabilitado (perfilAbertoView errs st)"
  shows "passoEdicao schema atual acao (st, db) Cancelar =
           ((st\<lparr>editando := False, campo := atual\<rparr>, db), [])"
  using assms by (simp add: perfilAbertoView_def)

end
