(* ===== verification/Spec2Isabelle.thy ===== *)
theory Spec2Isabelle
  imports ResultCard System Pages AuthConfig Concorrencia Formularios
begin

text \<open>
  \<^bold>\<open>A verification library for genial, an investment-suitability web application.\<close>

  The program (TypeScript, Next.js, Prisma, zod, better-auth) lets a signed-in investor
  record holdings (\<open>Ativo\<close>: name, risk label, invested amount), keep an investor profile
  (Conservador, Moderado, Arrojado), and ask whether a prospective order suits that
  profile. Its parts, and the theories that model them:

  \<^item> \<open>Prelude\<close>: JavaScript numbers as exact rationals (\<open>js_number\<close>; floating-point
    rounding is not modelled, decimal literals are their exact values), the UTF-8
    spellings of the Portuguese texts, the string built-ins the sources call
    (\<open>toLowerCase\<close>, \<open>trim\<close> over the UTF-8 spellings of JavaScript's white space
    \<open>js_espacos\<close>, \<open>includes\<close>, \<open>length\<close> in UTF-16 units, \<open>toFixed(1)\<close>),
    and the shared lemmas on list sums and keyed lists.
  \<^item> \<open>Risk\<close>: the enums of \<open>src/lib/zodSchema.ts\<close> and the label/ordinal mappings
    \<open>riscoParaNumero\<close>, \<open>perfilParaTexto\<close> (\<open>src/lib/result-card.logic.ts\<close>) and the
    mapping inside \<open>getPerfil\<close> (\<open>perfilParaNumero\<close>). Lemmas: their ranges.
  \<^item> \<open>Portfolio\<close>: \<open>calcularRiscoCarteira\<close>, the amount-weighted mean of the holdings'
    risk ordinals, as the two \<open>reduce\<close> loops of the source (left folds). Lemmas: it
    equals the specified weighted mean, lies in [0, 2] and moves towards the ordinal of
    an appended holding (exact arithmetic; with doubles the sums would also depend on
    the order of the holdings).
  \<^item> \<open>Adequacy\<close>: \<open>analisarAdequacao\<close>, split as in the source into the order-independent
    warnings, the diversification note, the return and volatility tables, the impact
    formula and the classification chain. Lemmas: the classification refines the
    specified table, every warning appears exactly under its condition, the 30%
    threshold, the sign of the impact, and the bounds on the warnings.
  \<^item> \<open>ResultCard\<close>: \<open>ResultCardClient\<close> (\<open>result-card-client.tsx\<close>): current value,
    current and projected scores, the classifier call, and the selection of icons,
    colours and the impact sentence. Lemmas: end-to-end scenarios and that the
    displayed direction of the impact is the true one.
  \<^item> \<open>JsNumber\<close>, \<open>Validation\<close>: \<open>Number()\<close> on strings (decimal with exponent,
    \<open>Infinity\<close>, \<open>0x\<close>/\<open>0o\<close>/\<open>0b\<close>, white space) and every zod schema as its ordered list of
    issues (empty for success, the head being \<open>issues[0].message\<close>); the library's
    e-mail pattern is a parameter \<open>email_ok\<close>. Lemma: what \<open>toFixed(1)\<close> prints,
    read back by \<open>Number()\<close>, is the value rounded to a tenth (\<open>toFixed1_Number\<close>).
  \<^item> \<open>AuthErrors\<close>: \<open>src/lib/auth-translations.ts\<close>, with the dictionary looked up as a
    JavaScript object (keys inherited from \<open>Object.prototype\<close> included), the keyword
    fallback chain, and \<open>getTranslatedAuthError\<close>'s dispatch on the thrown value.
    Lemma: the translation is empty exactly for a non-empty message of white space.
  \<^item> \<open>Database\<close>: the persistent state (\<open>Db\<close>: users, assets, id counters, the list of
    revalidated paths), \<open>requireUser\<close> and the queries of \<open>src/app/data/user/\<close>; an
    outcome is a \<open>Resultado\<close> (return, thrown redirect, thrown error) and a \<open>Falha\<close>
    names the database call that throws, if any. The store invariant \<open>inv_db\<close>.
  \<^item> \<open>AssetActions\<close>, \<open>ProfileActions\<close>, \<open>AuthActions\<close>: the server actions of
    \<open>src/app/(private)/actions.ts\<close>, \<open>src/app/(private)/profile/actions.ts\<close> and
    \<open>src/server/users.ts\<close>, each a function from its input and the database to its
    response and the new database, with every guard and early return of the source; the
    authentication library enters by its contract (\<open>signUpEmail_lib\<close>). Each theory
    proves that its actions preserve \<open>inv_db\<close> and what they leave unchanged.
    \<open>updateEmail\<close> is also given as its two database round trips, the read
    (\<open>updateEmail_verificar\<close>: session, schema, the e-mail lookup) and the write
    (\<open>updateEmail_gravar\<close>, which the database's unique index on the e-mail rejects,
    \<open>email_de_outro\<close>), and \<open>updateEmail_passos\<close> proves that run back to back they are
    the whole action.
  \<^item> \<open>AuthConfig\<close>: the configuration object of \<open>src/lib/auth.ts\<close> (\<open>auth_config\<close>) and
    the session rule of the authentication library it parameterises (\<open>getSession\<close>: an
    expired session is rejected, one last extended at least \<open>updateAge\<close> ago is extended
    to \<open>expiresIn\<close> from now), with \<open>usarSessao\<close> running one browser's requests. Lemma:
    with seven days and one day, requests at most six days apart never lose the session.
  \<^item> \<open>System\<close>: the server as a state machine: \<open>Acao\<close> is one request of any client,
    \<open>executar\<close> runs it, \<open>alcancavel\<close> (inductive) is reachability by any interleaving of
    whole requests. Lemmas: the invariant of the reachable states (rule induction),
    ownership isolation, read-your-writes, exact deletion, error paths without effect,
    behaviour without a session, sign-up and e-mail uniqueness.
  \<^item> \<open>ClientForms\<close>: the client handlers of the forms (\<open>login-form.tsx\<close>,
    \<open>signup-form.tsx\<close>, the three profile editors, \<open>ativos-list.tsx\<close>'s delete button,
    \<open>use-signout.ts\<close>) as the effects they cause (\<open>Efeito\<close>: toasts, navigations);
    the profile editors are one event-driven state machine (\<open>passoEdicao\<close>, a fold over
    an event list for runs), generic in the schema and in the server action on a store of
    any type, and instantiated with the actions of \<open>ProfileActions\<close>. Lemmas: the
    editor's invariant (only values its schema accepts are in flight), that its schemas are
    the server's, and that the name editor only ever shows the two messages of a valid call.
  \<^item> \<open>Pages\<close>: the layouts' redirects and the loop that follows them
    (\<open>resolverRota\<close>), the browser state that effects move, and the views: navbar and
    user menu, the home page's queries, the asset list, the result card, the profile page
    and the order form. Lemmas: the redirect loop terminates and where; sign-out ends on
    the login page and sign-in on the home page; the card hides its warnings only for
    adequate orders; the avatar fallback throws exactly on an empty displayed name.
  \<^item> \<open>Resolver\<close>: the zod schemas as the resolver sees them, each issue with the field
    path it carries (\<open>signupSchema_erros\<close> and its siblings, equal to the issue lists
    of \<open>Validation\<close> without the paths); \<open>parseErrorSchema\<close>, the resolver keeping
    the first message per path (it is \<open>map_of\<close>); and \<open>handleSubmit\<close>, which records
    those errors and runs the submit handler only when there are none. It is the only
    gate: \<open>onSubmitLogin\<close> and \<open>onSubmitSignup\<close> of \<open>ClientForms\<close> are the bodies of
    the \<open>onSubmit\<close> functions, and \<open>enviarLogin\<close>, \<open>enviarSignup\<close> call the server
    actions through \<open>handleSubmit\<close>, as \<open>form.handleSubmit(onSubmit)\<close> does.
  \<^item> \<open>Formularios\<close>: the login, sign-up and order forms and the open profile editor:
    the fields each renders with the message \<open>FormMessage\<close> shows under them. Lemmas:
    a submission has the handler's effects exactly when the schema accepts; every error
    path is a rendered field, so no form blocks a submission without showing why; the
    sign-up form's mismatch message appears under \<open>confirmPassword\<close> only once a profile
    is selected; the open profile editor (\<open>perfilAbertoView\<close>) offers only enum profiles
    and disables its buttons exactly when the editor state machine ignores them.
  \<^item> \<open>Concorrencia\<close>: requests of two clients interleaved at the granularity of
    database round trips rather than whole requests. A request that reads and then writes
    is a \<open>Requisicao\<close>, its read step and its write step; \<open>passoReq\<close> runs one step,
    \<open>correr\<close> a schedule, and \<open>escalas\<close> lists the six interleavings of two steps each
    (\<open>Prelude.intercalacoes\<close>, the library's \<open>shuffles\<close>). The instances are
    \<open>updateEmail\<close> and \<open>deleteAtivo\<close>, whose read and write are given in
    \<open>ProfileActions\<close> and \<open>AssetActions\<close> with lemmas that run back to back they are
    the whole action. Lemmas: the store invariant survives every schedule when every write
    keeps it; the serial schedule is the two whole requests as \<open>System.executar\<close> runs
    them; when two clients ask for the same free address exactly one wins under every
    schedule, a request that starts after the other has finished is refused by
    \<open>updateEmail\<close>'s own in-use check, and the loser whose read preceded the winner's
    write gets the generic error rather than "in use"; when one user deletes a holding from two tabs it is deleted once
    and the second request gets "not found" or, in the same situation, the generic failure.
    For any number of clients, \<open>concorrente\<close> (inductive) is reachability when whole
    single-round-trip requests, the reads of \<open>updateEmail\<close> and \<open>deleteAtivo\<close>, and
    their pending writes (a multiset) interleave freely; it contains \<open>System.alcancavel\<close>
    (\<open>alcancavel_concorrente\<close>), and the store invariant holds in all its states, because
    the database's unique index makes the late write of an address fail; no pending write
    is ever stuck (\<open>concorrente_esvazia\<close>).

  This theory adds the properties that span the store, the risk computation and the
  pages: the holdings the server hands to the result card always have enum risk labels
  and positive amounts, so their score lies in [0, 2] and no stored holding is scored
  through the default branch of \<open>riscoParaNumero\<close>; the asset list of a reachable
  state shows only the three risk colours; and the profile page of a user registered
  with a label outside the enum shows no description, while its profile editor shows
  the label uncoloured and refuses to save it (\<open>editorPerfil_perfil_livre\<close>). A profile
  saved through \<open>updatePerfilInvestidor\<close> is read back by the home page as the ordinal
  that \<open>perfilParaTexto\<close> prints as the saved label, and shown with its description on
  the profile page (\<open>perfil_salvo\<close>).

  No fuel is used: every loop of the modelled code is a fold over a finite list or
  structural recursion (\<open>js_digits\<close> and the digit readers of \<open>JsNumber\<close> recurse on a
  decreasing number or list), except following redirects, which nothing bounds in
  advance; it is a \<open>partial_function (option)\<close> and \<open>Pages.resolverRota_termina\<close>
  proves it returns (after at most one redirect).

  Not modelled: markup, styling and static texts of the components (headings, the
  profile summaries of the profile page, the tooltip of the order form); currency and
  date formatting (\<open>toLocaleString\<close>, \<open>Intl.DateTimeFormat\<close>); the theme toggle;
  react-hook-form's re-validation of a field as the user types after a first submission
  (only submissions are modelled). The Google sign-in handler and button of
  \<open>signup-form.tsx\<close> are line for line those of \<open>login-form.tsx\<close> and are modelled
  once (\<open>signInWithGoogle\<close>, \<open>rotuloGoogle\<close>). Of the authentication library,
  passwords, OAuth, the admin and cookie plugins and the session store are not modelled,
  only the expiry rule that the configuration of \<open>src/lib/auth.ts\<close> sets and the effect
  of its \<open>perfilInvestidor\<close> field on sign-up through \<open>signUpEmail_lib\<close>. Not in the
  sources: \<open>OrdemSection\<close>, \<open>AtivosForm\<close>, \<open>tryCatch\<close>, \<open>lib/db\<close> and \<open>lib/types\<close>,
  which the sources import (\<open>ApiResponse\<close> and \<open>tryCatch\<close> are modelled from their
  use). The caching of \<open>requireUser\<close> does not change what it returns and is left out.
  JavaScript numbers are exact rationals: rounding to doubles is not modelled, so
  \<open>toFixed\<close> and \<open>Number()\<close> are exact. Non-ASCII letters are bytes of UTF-8:
  \<open>toLowerCase\<close> and \<open>toUpperCase\<close> act on the ASCII range only, while \<open>trim\<close>
  removes every white-space and line-terminator code point JavaScript removes. Prisma's
  \<open>findMany\<close> without \<open>orderBy\<close> is modelled as returning rows in insertion order,
  which the database does not promise; the order stated by
  \<open>System.createAtivo_leitura_propria\<close> holds for that model. Which layout wraps a page
  is Next.js's routing by directory, written into \<open>Pages.redirecionamento\<close>.
\<close>

lemma getAtivos_alcancavel:
  assumes "alcancavel e db_vazio db" and "getAtivos f (Some uid) db = Retorna rows"
  shows "\<forall>(k, a) \<in> set rows. ativo_risco a \<in> set ativoRisco \<and> 0 < ativo_valorInvestido a"
proof -
  have inv: "inv_db db" using alcancavel_inv [OF assms(1) inv_db_vazio] .
  have "set rows \<subseteq> set (db_ativos db)"
    using assms(2) by (auto simp: getAtivos_def seq_Retorna_iff split: if_splits)
  with inv show ?thesis by (fastforce simp: inv_db_def list_all_iff)
qed

text \<open>C25: The holdings that getAtivos returns from any reachable database, as the result card receives them, all carry one of the three risk labels and a positive amount, and their portfolio risk score lies in [0, 2].\<close>

theorem carteira_servidor:
  assumes "alcancavel e db_vazio db" and "getAtivos f (Some uid) db = Retorna rows"
  shows "list_all (\<lambda>a. risco a \<in> set ativoRisco \<and> 0 < valorInvestido a) (carteira_de rows) \<and>
         0 \<le> calcularRiscoCarteira (carteira_de rows) \<and> calcularRiscoCarteira (carteira_de rows) \<le> 2"
proof -
  have ok: "list_all (\<lambda>a. risco a \<in> set ativoRisco \<and> 0 < valorInvestido a) (carteira_de rows)"
    using getAtivos_alcancavel [OF assms] by (fastforce simp: list_all_iff set_carteira_de)
  then have "\<forall>a \<in> set (carteira_de rows). 0 \<le> valorInvestido a"
    by (auto simp: list_all_iff)
  with ok show ?thesis
    using risco_ponderado_bounds by (simp add: calcularRiscoCarteira_risco_ponderado)
qed

text \<open>
  On the home page of a reachable database every row of the asset list has one of the
  three risk colours and a positive amount, and the profile ordinal is in [0, 2].
\<close>

lemma home_alcancavel:
  assumes "alcancavel e db_vazio db" and "home fa fp (Some uid) db = Retorna (ativos, perfil)"
    and "ativosListView pending ativos = Linhas rs"
  shows "\<forall>r \<in> set rs. linha_cor r \<noteq> ''text-white'' \<and> 0 < linha_valor r" and "0 \<le> perfil \<and> perfil \<le> 2"
proof -
  from assms(2) have g: "getAtivos fa (Some uid) db = Retorna ativos"
    and p: "getPerfil fp (Some uid) db = Retorna perfil"
    by (auto simp: home_def seq_Retorna_iff)
  have "\<forall>(k, a) \<in> set ativos. ativo_risco a \<in> set ativoRisco \<and> 0 < ativo_valorInvestido a"
    using getAtivos_alcancavel [OF assms(1)] g by blast
  with assms(3) show "\<forall>r \<in> set rs. linha_cor r \<noteq> ''text-white'' \<and> 0 < linha_valor r"
    by (fastforce simp: ativosListView_def linhaAtivo_def dest: riscoCorLista_enum split: if_splits)
  from p show "0 \<le> perfil \<and> perfil \<le> 2"
    by (auto simp: getPerfil_def seq_Retorna_iff split: if_splits option.splits)
qed

text \<open>
  The profile page of a user registered with a label outside the profile enum (and not a
  key inherited from \<open>Object.prototype\<close>) shows the label and no description.
\<close>

lemma profilePage_perfil_livre:
  assumes "inv_db db" and "usuario_por_email db m = None"
    and "p \<notin> set perfilInvestidorOpcoes" and "p \<notin> set object_prototype_keys"
  shows "profilePage SemFalha (Some (db_next_user db)) (snd (signUp None n m pw p db)) =
           Retorna \<lparr>pv_nome = n, pv_email = m, pv_perfil = p, pv_descricao = None\<rparr>"
  using signUp_novo_usuario [OF assms(1,2)] assms(3,4)
  by (simp add: profilePage_def getUserInfo_def falha_em_def js_objeto_get_fora perfilDescriptions_chaves)

text \<open>
  The profile editor that page renders for such a label: opened with the pencil it shows
  the label with no colour class, its save button sends nothing, and the resolver's
  message \<open>msg_perfil_valido\<close> is what a submission shows, until a profile is
  chosen from the menu.
\<close>

lemma editorPerfil_perfil_livre:
  fixes f s db
  assumes "p \<notin> set perfilInvestidorOpcoes" and "p \<notin> set object_prototype_keys"
  defines "st \<equiv> fst (editorPerfil f s p (form_inicial p, db) Editar)"
  shows "editPerfilView errs p (fst st) = Inr (perfilAbertoView errs (fst st))"
    and "gatilho_rotulo (perfilAbertoView errs (fst st)) = (if p = [] then ''Selecione o perfil'' else p)"
    and "gatilho_cor (perfilAbertoView errs (fst st)) = None"
    and "editorPerfil f s p st Enviar = (st, [])"
    and "fst (handleSubmit perfilSchema_erros onValid nada p) ''perfilInvestidor'' = Some msg_perfil_valido"
  using assms
  by (simp_all add: st_def editorPerfil_def form_inicial_def editPerfilView_def perfilAbertoView_def
      js_objeto_get_def perfilColors_def perfilInvestidorOpcoes_def perfilSchema_issues_def issue_if_def
      handleSubmit_vazio parseErrorSchema_map_of perfilSchema_erros_def issue_em_def)

theorem carteira_servidor_witness:
  "list_all (\<lambda>a. risco a \<in> set ativoRisco \<and> 0 < valorInvestido a)
     (carteira_de [(0, novo_ativo ativo_exemplo 5000 0)]) \<and>
   0 \<le> calcularRiscoCarteira (carteira_de [(0, novo_ativo ativo_exemplo 5000 0)]) \<and>
   calcularRiscoCarteira (carteira_de [(0, novo_ativo ativo_exemplo 5000 0)]) \<le> 2"
proof -
  let ?db = "executar (\<lambda>_. True) (CreateAtivo SemFalha (Some 0) ativo_exemplo) db_vazio"
  have "getAtivos SemFalha (Some 0) ?db = Retorna [(0, novo_ativo ativo_exemplo 5000 0)]"
    by (simp add: createAtivo_def getAtivos_def ativo_exemplo_valido falha_em_def db_vazio_def novo_ativo_def)
  from carteira_servidor [OF alcancavel.passo [OF alcancavel.inicio] this] show ?thesis .
qed

text \<open>C28: A profile saved from the profile editor is the profile the rest of the application uses: when updatePerfilInvestidor accepts an enum label for a signed-in user, the home page then hands the order section that user's unchanged holdings and an ordinal that perfilParaTexto prints back as the saved label, and the profile page shows the label with its description.\<close>

theorem perfil_salvo:
  fixes db :: Db
  assumes "p \<in> set perfilInvestidorOpcoes" and "usuario_por_id db uid \<noteq> None"
  defines "r \<equiv> updatePerfilInvestidor SemFalha (Some uid) p db"
  shows "fst r = ApiSuccess msg_perfil_ok \<and>
         (\<exists>n. home SemFalha SemFalha (Some uid) (snd r) =
                Retorna (filter (\<lambda>(_, a). ativo_userId a = uid) (db_ativos db), n) \<and>
              perfilParaTexto n = p) \<and>
         (\<exists>v. profilePage SemFalha (Some uid) (snd r) = Retorna v \<and> pv_perfil v = p \<and>
              pv_descricao v = map_option JsStr (map_of perfilDescriptions p) \<and> pv_descricao v \<noteq> None)"
proof -
  obtain u where u: "usuario_por_id db uid = Some u" using assms(2) by auto
  have p: "p = ''Conservador'' \<or> p = ''Moderado'' \<or> p = ''Arrojado''"
    using assms(1) by (simp add: perfilInvestidorOpcoes_def)
  have r: "r = (ApiSuccess msg_perfil_ok, revalidatePath ''/'' (revalidatePath ''/profile''
                  (atualizar_usuario uid (\<lambda>u. u\<lparr>usuario_perfilInvestidor := p\<rparr>) db)))"
    using p u by (auto simp: r_def updatePerfilInvestidor_def requireUser_def updatePerfilSchema_issues_def
                      issue_if_def falha_em_def)
  have l: "usuario_por_id (snd r) uid = Some (u\<lparr>usuario_perfilInvestidor := p\<rparr>)"
    using usuario_por_id_atualizar [of uid "\<lambda>u. u\<lparr>usuario_perfilInvestidor := p\<rparr>" db uid] u
    by (simp add: r usuario_por_id_def)
  show ?thesis
    using p l
    by (auto simp: r home_def getAtivos_def getPerfil_def getUserInfo_def profilePage_def requireUser_def
          falha_em_def perfilParaNumero_def perfilParaTexto_def js_objeto_get_def perfilDescriptions_def)
qed

theorem perfil_salvo_witness:
  "fst (updatePerfilInvestidor SemFalha (Some 0) ''Arrojado'' db_exemplo) = ApiSuccess msg_perfil_ok \<and>
   (\<exists>n. home SemFalha SemFalha (Some 0) (snd (updatePerfilInvestidor SemFalha (Some 0) ''Arrojado'' db_exemplo)) =
          Retorna (filter (\<lambda>(_, a). ativo_userId a = 0) (db_ativos db_exemplo), n) \<and>
        perfilParaTexto n = ''Arrojado'')"
proof -
  have "''Arrojado'' \<in> set perfilInvestidorOpcoes" by (simp add: perfilInvestidorOpcoes_def)
  moreover have "usuario_por_id db_exemplo 0 \<noteq> None" by (simp add: db_exemplo_def usuario_por_id_def)
  ultimately show ?thesis using perfil_salvo [of "''Arrojado''" db_exemplo 0] by simp
qed

end
